theory Spec2Isabelle
  imports Complex_Main "HOL-Library.Word"
begin

unbundle bit_operations_syntax

section \<open>Basic data of the RIT-WPAN module\<close>

type_synonym u8 = "8 word"
type_synonym u16 = "16 word"
type_synonym u32 = "32 word"

text \<open>
  A short address is the two octets \<open>m_address[0]\<close>, \<open>m_address[1]\<close> of
  \<open>ns3::Mac16Address\<close>; \<open>CopyTo\<close>/\<open>CopyFrom\<close> move them in this order.
\<close>

datatype Mac16Address = Mac16 u8 u8

definition Mac16_CopyTo :: "Mac16Address \<Rightarrow> u8 list" where
  "Mac16_CopyTo a = (case a of Mac16 b0 b1 \<Rightarrow> [b0, b1])"

definition Mac16_Broadcast :: Mac16Address where
  "Mac16_Broadcast = Mac16 0xFF 0xFF"

subsection \<open>Buffer iterator primitives used by the NWK header\<close>

text \<open>
  \<open>Buffer::Iterator::WriteU16\<close> stores the low octet first; \<open>ReadU16\<close> reads it back
  the same way. \<open>WriteTo (i, Mac16Address)\<close> copies the two address octets.
  A read past the end of the buffer is the iterator's out-of-bounds failure: \<open>None\<close>.
\<close>

definition WriteU16 :: "u16 \<Rightarrow> u8 list" where
  "WriteU16 v = [ucast (v AND 0xFF), ucast (drop_bit 8 v AND 0xFF)]"

fun ReadU16 :: "u8 list \<Rightarrow> (u16 \<times> u8 list) option" where
  "ReadU16 (b0 # b1 # rest) = Some ((ucast b0) OR push_bit 8 (ucast b1), rest)"
| "ReadU16 _ = None"

definition WriteTo :: "Mac16Address \<Rightarrow> u8 list" where
  "WriteTo ad = Mac16_CopyTo ad"

fun ReadFrom :: "u8 list \<Rightarrow> (Mac16Address \<times> u8 list) option" where
  "ReadFrom (b0 # b1 # rest) = Some (Mac16 b0 b1, rest)"
| "ReadFrom _ = None"

subsection \<open>RitNwkHeader (rit-wpan-nwk-header.cc)\<close>

record RitNwkHeader =
  m_rank :: u16
  m_srcAddr :: Mac16Address
  m_dstAddr :: Mac16Address

definition Serialize :: "RitNwkHeader \<Rightarrow> u8 list" where
  "Serialize h = WriteU16 (m_rank h) @ WriteTo (m_srcAddr h) @ WriteTo (m_dstAddr h)"

text \<open>
  \<open>Deserialize\<close> returns the header read and \<open>i.GetDistanceFrom(start)\<close>, the number of
  octets consumed.
\<close>

definition Deserialize :: "u8 list \<Rightarrow> (RitNwkHeader \<times> nat) option" where
  "Deserialize buf =
     (case ReadU16 buf of
        None \<Rightarrow> None
      | Some (rank, buf1) \<Rightarrow>
          (case ReadFrom buf1 of
             None \<Rightarrow> None
           | Some (src, buf2) \<Rightarrow>
               (case ReadFrom buf2 of
                  None \<Rightarrow> None
                | Some (dst, buf3) \<Rightarrow>
                    Some (\<lparr>m_rank = rank, m_srcAddr = src, m_dstAddr = dst\<rparr>,
                          length buf - length buf3))))"

definition GetSerializedSize :: "RitNwkHeader \<Rightarrow> nat" where
  "GetSerializedSize h = 6"


section \<open>Failures\<close>

text \<open>
  \<open>NS_FATAL_ERROR\<close>, \<open>NS_ABORT_MSG\<close> and a failed \<open>NS_ASSERT\<close> terminate the
  simulation; each is a value of \<open>failure\<close>, carried in the left of a sum.
  \<open>UNDEFINED\<close> marks a step whose C++ behaviour is undefined (\<open>front()\<close> of an empty
  queue, a null \<open>m_txPkt\<close> dereferenced); \<open>BASE_FAILED\<close> is a failure inside the
  LrWpanMac base class.
\<close>

datatype failure =
    NS_FATAL_ERROR string
  | NS_ABORT_MSG string
  | NS_ASSERT string
  | UNDEFINED string
  | BASE_FAILED

definition andThen :: "failure + 'a \<Rightarrow> ('a \<Rightarrow> failure + 'b) \<Rightarrow> failure + 'b" where
  "andThen m f = (case m of Inl e \<Rightarrow> Inl e | Inr x \<Rightarrow> f x)"

definition ns_assert :: "bool \<Rightarrow> string \<Rightarrow> 'a \<Rightarrow> failure + 'a" where
  "ns_assert c msg s = (if c then Inr s else Inl (NS_ASSERT msg))"

section \<open>Module configuration (rit-wpan-mac.h)\<close>

record RitWpanMacModuleConfig =
  dataCsmaEnabled :: bool
  dataPreCsEnabled :: bool
  dataPreCsBEnabled :: bool
  beaconCsmaEnabled :: bool
  beaconPreCsEnabled :: bool
  beaconPreCsBEnabled :: bool
  continuousTxEnabled :: bool
  beaconRandomizeEnabled :: bool
  compactRitDataRequestEnabled :: bool
  beaconAckEnabled :: bool

definition default_RitWpanMacModuleConfig :: RitWpanMacModuleConfig where
  "default_RitWpanMacModuleConfig =
     \<lparr>dataCsmaEnabled = False, dataPreCsEnabled = False, dataPreCsBEnabled = False,
      beaconCsmaEnabled = False, beaconPreCsEnabled = False, beaconPreCsBEnabled = False,
      continuousTxEnabled = False, beaconRandomizeEnabled = False,
      compactRitDataRequestEnabled = False, beaconAckEnabled = False\<rparr>"

section \<open>Simulator time and events\<close>

text \<open>
  \<open>ns3::Time\<close> is a signed count of nanoseconds. A \<open>double\<close> is modelled by a real
  number. \<open>Seconds (double)\<close> converts by rounding to the nearest nanosecond;
  \<open>MilliSeconds\<close> applied to a \<open>double\<close> takes the integral number of milliseconds
  (the fraction is dropped, towards zero); \<open>GetMilliSeconds\<close> divides the nanosecond
  count, truncating towards zero; \<open>GetSeconds\<close> is the exact quotient.
\<close>

type_synonym Time = int

definition Seconds :: "real \<Rightarrow> Time" where
  "Seconds x = round (x * 1000000000)"

definition trunc_to_int :: "real \<Rightarrow> int" where
  "trunc_to_int x = (if 0 \<le> x then \<lfloor>x\<rfloor> else \<lceil>x\<rceil>)"

definition MilliSeconds_dbl :: "real \<Rightarrow> Time" where
  "MilliSeconds_dbl x = trunc_to_int x * 1000000"

definition MilliSeconds :: "int \<Rightarrow> Time" where
  "MilliSeconds n = n * 1000000"

definition NanoSeconds :: "int \<Rightarrow> Time" where
  "NanoSeconds n = n"

definition GetMilliSeconds :: "Time \<Rightarrow> int" where
  "GetMilliSeconds t = sgn t * (\<bar>t\<bar> div 1000000)"

definition GetSeconds :: "Time \<Rightarrow> real" where
  "GetSeconds t = real_of_int t / 1000000000"

datatype MacState =
    MAC_IDLE | MAC_CSMA | MAC_SENDING | MAC_ACK_PENDING
  | CHANNEL_ACCESS_FAILURE | CHANNEL_IDLE | SET_PHY_TX_ON
  | MAC_GTS | MAC_INACTIVE | MAC_CSMA_DEFERRED

text \<open>
  The member functions the MAC hands to \<open>Simulator::Schedule\<close>. An \<open>EventId\<close> member
  is \<open>Some\<close> of the event while it is pending, \<open>None\<close> once cancelled or expired.
\<close>

datatype Callback =
    Cb_PeriodicRitDataRequest
  | Cb_ReceiverCycleTimeout
  | Cb_SenderCycleTimeout
  | Cb_AckWaitTimeout
  | Cb_IfsWaitTimeout Time
  | Cb_SetLrWpanMacState MacState
  | Cb_SendAck u8

record Event =
  ev_time :: Time
  ev_call :: Callback

type_synonym EventId = "Event option"

definition Schedule :: "Time \<Rightarrow> Time \<Rightarrow> Callback \<Rightarrow> EventId" where
  "Schedule now delay cb = Some \<lparr>ev_time = now + delay, ev_call = cb\<rparr>"

definition ScheduleNow :: "Time \<Rightarrow> Callback \<Rightarrow> EventId" where
  "ScheduleNow now cb = Some \<lparr>ev_time = now, ev_call = cb\<rparr>"

definition IsPending :: "EventId \<Rightarrow> bool" where
  "IsPending e = (e \<noteq> None)"

definition IsExpired :: "EventId \<Rightarrow> bool" where
  "IsExpired e = (e = None)"

definition Cancel :: "EventId \<Rightarrow> EventId" where
  "Cancel e = None"


section \<open>Frames\<close>

text \<open>
  The fields of \<open>LrWpanMacHeader\<close> that the RIT MAC sets and reads. Addressing modes are
  octets, as the header stores them: \<open>NO_PANID_ADDR = 0\<close>, \<open>ADDR_MODE_RESERVED = 1\<close>,
  \<open>SHORT_ADDR = 2\<close>, \<open>EXT_ADDR = 3\<close>.
\<close>

datatype LrWpanMacType =
    LRWPAN_MAC_BEACON | LRWPAN_MAC_DATA | LRWPAN_MAC_ACKNOWLEDGMENT
  | LRWPAN_MAC_COMMAND | LRWPAN_MAC_RESERVED | LRWPAN_MAC_MULTIPURPOSE

definition NO_PANID_ADDR :: u8 where "NO_PANID_ADDR = 0"
definition ADDR_MODE_RESERVED :: u8 where "ADDR_MODE_RESERVED = 1"
definition SHORT_ADDR :: u8 where "SHORT_ADDR = 2"
definition EXT_ADDR :: u8 where "EXT_ADDR = 3"

type_synonym Mac64Address = "64 word"

record LrWpanMacHeader =
  hdrType :: LrWpanMacType
  hdrSeqNum :: u8
  hdrFrameVer :: u8
  hdrAckReq :: bool
  hdrPanIdComp :: bool
  hdrSecEnable :: bool
  hdrSrcAddrMode :: u8
  hdrSrcPanId :: u16
  hdrShortSrcAddr :: Mac16Address
  hdrExtSrcAddr :: Mac64Address
  hdrDstAddrMode :: u8
  hdrDstPanId :: u16
  hdrShortDstAddr :: Mac16Address
  hdrExtDstAddr :: Mac64Address

definition IsCommand :: "LrWpanMacHeader \<Rightarrow> bool" where
  "IsCommand h = (hdrType h = LRWPAN_MAC_COMMAND)"

definition IsData :: "LrWpanMacHeader \<Rightarrow> bool" where
  "IsData h = (hdrType h = LRWPAN_MAC_DATA)"

definition IsAcknowledgment :: "LrWpanMacHeader \<Rightarrow> bool" where
  "IsAcknowledgment h = (hdrType h = LRWPAN_MAC_ACKNOWLEDGMENT)"

definition IsMultipurpose :: "LrWpanMacHeader \<Rightarrow> bool" where
  "IsMultipurpose h = (hdrType h = LRWPAN_MAC_MULTIPURPOSE)"

definition SetSrcAddrFields :: "u16 \<Rightarrow> Mac16Address \<Rightarrow> LrWpanMacHeader \<Rightarrow> LrWpanMacHeader" where
  "SetSrcAddrFields panId addr h = h\<lparr>hdrSrcPanId := panId, hdrShortSrcAddr := addr\<rparr>"

definition SetSrcAddrFieldsExt :: "u16 \<Rightarrow> Mac64Address \<Rightarrow> LrWpanMacHeader \<Rightarrow> LrWpanMacHeader" where
  "SetSrcAddrFieldsExt panId addr h = h\<lparr>hdrSrcPanId := panId, hdrExtSrcAddr := addr\<rparr>"

definition SetDstAddrFields :: "u16 \<Rightarrow> Mac16Address \<Rightarrow> LrWpanMacHeader \<Rightarrow> LrWpanMacHeader" where
  "SetDstAddrFields panId addr h = h\<lparr>hdrDstPanId := panId, hdrShortDstAddr := addr\<rparr>"

definition SetDstAddrFieldsExt :: "u16 \<Rightarrow> Mac64Address \<Rightarrow> LrWpanMacHeader \<Rightarrow> LrWpanMacHeader" where
  "SetDstAddrFieldsExt panId addr h = h\<lparr>hdrDstPanId := panId, hdrExtDstAddr := addr\<rparr>"

definition IsBroadcast :: "Mac16Address \<Rightarrow> bool" where
  "IsBroadcast a = (a = Mac16_Broadcast)"

text \<open>\<open>Mac16Address::IsMulticast\<close>: the top three bits of the first octet are \<open>100\<close>.\<close>

definition IsMulticast :: "Mac16Address \<Rightarrow> bool" where
  "IsMulticast a = (case a of Mac16 b0 b1 \<Rightarrow> drop_bit 5 b0 = 4)"

datatype CommandFrameType = RIT_DATA_REQ | RIT_DATA_RES | CMD_OTHER

record LrWpanMacTrailer =
  trFcsEnabled :: bool
  trFcs :: u16

text \<open>
  A frame is a packet that carries a MAC header and trailer: the header, the command
  payload header of a command frame, the octets above the MAC, the trailer. A packet
  handed down by the upper layer (an MSDU) is its octets.
\<close>

record Frame =
  f_hdr :: LrWpanMacHeader
  f_cmd :: "CommandFrameType option"
  f_data :: "u8 list"
  f_trailer :: LrWpanMacTrailer

record TxQueueElement =
  txQMsduHandle :: u8
  txQPkt :: Frame

section \<open>Service primitives\<close>

datatype MacStatus =
    MacStatus_SUCCESS
  | MacStatus_NO_ACK
  | MacStatus_CHANNEL_ACCESS_FAILURE
  | MacStatus_FRAME_TOO_LONG
  | MacStatus_INVALID_ADDRESS
  | MacStatus_INVALID_PARAMETER
  | MacStatus_UNSUPPORTED_ATTRIBUTE
  | MacStatus_TRANSACTION_OVERFLOW

datatype PhyEnumeration =
    IEEE_802_15_4_PHY_BUSY
  | IEEE_802_15_4_PHY_BUSY_RX
  | IEEE_802_15_4_PHY_BUSY_TX
  | IEEE_802_15_4_PHY_FORCE_TRX_OFF
  | IEEE_802_15_4_PHY_IDLE
  | IEEE_802_15_4_PHY_INVALID_PARAMETER
  | IEEE_802_15_4_PHY_RX_ON
  | IEEE_802_15_4_PHY_SUCCESS
  | IEEE_802_15_4_PHY_TRX_OFF
  | IEEE_802_15_4_PHY_TX_ON
  | IEEE_802_15_4_PHY_UNSUPPORTED_ATTRIBUTE
  | IEEE_802_15_4_PHY_READ_ONLY
  | IEEE_802_15_4_PHY_UNSPECIFIED

definition TX_OPTION_ACK :: u8 where "TX_OPTION_ACK = 1"
definition TX_OPTION_GTS :: u8 where "TX_OPTION_GTS = 2"
definition TX_OPTION_INDIRECT :: u8 where "TX_OPTION_INDIRECT = 4"

record McpsDataRequestParams =
  rq_srcAddrMode :: u8
  rq_dstAddrMode :: u8
  rq_dstPanId :: u16
  rq_dstAddr :: Mac16Address
  rq_dstExtAddr :: Mac64Address
  rq_msduHandle :: u8
  rq_txOptions :: u8

record McpsDataIndicationParams =
  ind_srcAddrMode :: u8
  ind_srcPanId :: u16
  ind_srcAddr :: Mac16Address
  ind_srcExtAddr :: Mac64Address
  ind_dstAddrMode :: u8
  ind_dstPanId :: u16
  ind_dstAddr :: Mac16Address
  ind_dstExtAddr :: Mac64Address
  ind_mpduLinkQuality :: u8
  ind_dsn :: u8

record MlmeRitRequestIndicationParams =
  rit_srcAddrMode :: u8
  rit_srcPanId :: u16
  rit_srcAddr :: Mac16Address
  rit_srcExtAddr :: Mac64Address
  rit_dstAddrMode :: u8
  rit_dstPanId :: u16
  rit_dstAddr :: Mac16Address
  rit_dstExtAddr :: Mac64Address
  rit_ritRequestPayload :: "u8 list"
  rit_linkQuality :: u8
  rit_dsn :: u8
  rit_timestamp :: u32

text \<open>
  The PIB attribute identifiers of the RIT range, and any other identifier by its number.
  The numbers of the RIT enumerators are declared with the base MAC; they are read through
  \<open>pibValue\<close> of the library record below.
\<close>

datatype MacPibAttributeIdentifier =
    macRitPeriod
  | macRitDataWaitDuration
  | macRitTxWaitDuration
  | macRitRequestPayload
  | macRitPeriodTime
  | macRitDataWaitDurationTime
  | macRitTxWaitDurationTime
  | pibOther nat

record MacPibAttributes =
  attr_macRitPeriod :: u32
  attr_macRitDataWaitDuration :: u8
  attr_macRitTxWaitDuration :: u32
  attr_macRitRequestPayload :: "u8 list"
  attr_macRitPeriodTime :: Time
  attr_macRitDataWaitDurationTime :: Time
  attr_macRitTxWaitDurationTime :: Time

text \<open>
  What a MAC call makes visible outside the MAC, in the order it happens: the callbacks
  to the upper layer, the requests to the PHY and to the channel-access modules, and the
  trace sources.
\<close>

datatype Output =
    Out_McpsDataConfirm u8 MacStatus
  | Out_McpsDataIndication McpsDataIndicationParams "u8 list"
  | Out_MlmeSetConfirm MacStatus MacPibAttributeIdentifier
  | Out_MlmeGetConfirm MacStatus MacPibAttributeIdentifier MacPibAttributes
  | Out_MlmeRitRequestIndication MlmeRitRequestIndicationParams
  | Out_PlmeSetTRXStateRequest PhyEnumeration
  | Out_PreCs_Start
  | Out_PreCs_Cancel
  | Out_PreCsB_Cancel
  | Out_CsmaCa_Cancel
  | Out_MacStateLog MacState MacState
  | Out_MacRxDropTrace Frame
  | Out_MacRxTrace Frame
  | Out_MacTxOkTrace Frame
  | Out_MacTxDropTrace Frame
  | Out_MacIfsEndTrace Time
  | Out_DataWaitTrace string Time
  | Out_BeaconWaitTrace string Time


section \<open>The LrWpanMac base class, as the RIT MAC sees it\<close>

text \<open>
  The members of the base class that rit-wpan-mac.cc reads or writes. A callback member is
  represented by whether it is null; calling it appends to \<open>outputs\<close>.
\<close>

record LrWpanMac =
  m_macState :: MacState
  m_txQueue :: "TxQueueElement list"
  m_txPkt :: "Frame option"
  m_rxPkt :: "u8 list option"
  m_setMacState :: EventId
  m_ackWaitTimeout :: EventId
  m_ifsEvent :: EventId
  m_macDsn :: u8
  m_macRxOnWhenIdle :: bool
  m_macPanId :: u16
  m_shortAddress :: Mac16Address
  m_macExtendedAddress :: Mac64Address
  m_macPromiscuousMode :: bool
  m_lastRxFrameLqi :: u8
  m_macMaxFrameRetries :: u8
  m_mcpsDataConfirmCallback_IsNull :: bool
  m_mcpsDataIndicationCallback_IsNull :: bool
  m_mlmeSetConfirmCallback_IsNull :: bool
  m_mlmeGetConfirmCallback_IsNull :: bool
  outputs :: "Output list"

text \<open>
  \<open>LrWpanMac::ChangeMacState\<close> reports the transition to the state logger and assigns
  the new state.
\<close>

definition ChangeMacState :: "MacState \<Rightarrow> LrWpanMac \<Rightarrow> LrWpanMac" where
  "ChangeMacState newState b =
     b\<lparr>outputs := outputs b @ [Out_MacStateLog (m_macState b) newState],
       m_macState := newState\<rparr>"

text \<open>
  The library the module is compiled against: the IEEE 802.15.4 constants, the global
  checksum switch, the FCS computation, the header a default \<open>LrWpanMacHeader\<close> holds,
  the PHY symbol rate, the mode of the CSMA-CA object, and the member functions of \<open>LrWpanMac\<close> that the RIT MAC calls
  without overriding or calls as \<open>LrWpanMac::f\<close>. The base-class functions are
  parameters: they receive the current simulator time and the base-class members, and
  return the members or a failure. Nothing is assumed of them; the private members of
  RitWpanMac are out of their reach.
\<close>

record Lib =
  aMaxPhyPacketSize :: u32
  aMinMPDUOverhead :: u32
  aBaseSuperframeDuration :: "64 word"
  ChecksumEnabled :: bool
  SetFcs :: "LrWpanMacHeader \<Rightarrow> CommandFrameType option \<Rightarrow> u8 list \<Rightarrow> u16"
  CheckFcs :: "LrWpanMacTrailer \<Rightarrow> CommandFrameType option \<Rightarrow> u8 list \<Rightarrow> bool"
  defaultMacHeader :: LrWpanMacHeader
  GetDataOrSymbolRate :: real
  GetMacAckWaitDuration :: "64 word"
  IsUnSlottedCsmaCa :: bool
  pibValue :: "MacPibAttributeIdentifier \<Rightarrow> nat"
  base_McpsDataRequest :: "McpsDataRequestParams \<Rightarrow> u8 list \<Rightarrow> Time \<Rightarrow> LrWpanMac \<Rightarrow> failure + LrWpanMac"
  base_PdDataIndication :: "nat \<Rightarrow> Frame \<Rightarrow> u8 \<Rightarrow> Time \<Rightarrow> LrWpanMac \<Rightarrow> failure + LrWpanMac"
  base_PdDataConfirm :: "PhyEnumeration \<Rightarrow> Time \<Rightarrow> LrWpanMac \<Rightarrow> failure + LrWpanMac"
  base_PlmeSetTRXStateConfirm :: "PhyEnumeration \<Rightarrow> Time \<Rightarrow> LrWpanMac \<Rightarrow> failure + LrWpanMac"
  base_MlmeSetRequest :: "MacPibAttributeIdentifier \<Rightarrow> MacPibAttributes \<Rightarrow> Time \<Rightarrow> LrWpanMac \<Rightarrow> failure + LrWpanMac"
  base_MlmeGetRequest :: "MacPibAttributeIdentifier \<Rightarrow> Time \<Rightarrow> LrWpanMac \<Rightarrow> failure + LrWpanMac"
  base_IfsWaitTimeout :: "Time \<Rightarrow> Time \<Rightarrow> LrWpanMac \<Rightarrow> failure + LrWpanMac"
  base_SetLrWpanMacState :: "MacState \<Rightarrow> Time \<Rightarrow> LrWpanMac \<Rightarrow> failure + LrWpanMac"
  base_AckWaitTimeout :: "Time \<Rightarrow> LrWpanMac \<Rightarrow> failure + LrWpanMac"
  base_DoInitialize :: "Time \<Rightarrow> LrWpanMac \<Rightarrow> failure + LrWpanMac"
  base_DoDispose :: "Time \<Rightarrow> LrWpanMac \<Rightarrow> failure + LrWpanMac"
  base_CheckQueue :: "Time \<Rightarrow> LrWpanMac \<Rightarrow> failure + LrWpanMac"
  base_SetRxOnWhenIdle :: "bool \<Rightarrow> Time \<Rightarrow> LrWpanMac \<Rightarrow> failure + LrWpanMac"
  base_EnqueueTxQElement :: "TxQueueElement \<Rightarrow> Time \<Rightarrow> LrWpanMac \<Rightarrow> failure + LrWpanMac"
  base_RemoveFirstTxQElement :: "Time \<Rightarrow> LrWpanMac \<Rightarrow> failure + LrWpanMac"
  base_PrepareRetransmission :: "Time \<Rightarrow> LrWpanMac \<Rightarrow> failure + LrWpanMac"
  base_SendAck :: "u8 \<Rightarrow> Time \<Rightarrow> LrWpanMac \<Rightarrow> failure + LrWpanMac"

text \<open>\<open>LrWpanMacHeader (type, seqNum)\<close>: a default header with the type and number set.\<close>

definition LrWpanMacHeader_ctor :: "Lib \<Rightarrow> LrWpanMacType \<Rightarrow> u8 \<Rightarrow> LrWpanMacHeader" where
  "LrWpanMacHeader_ctor L t seqNum = (defaultMacHeader L)\<lparr>hdrType := t, hdrSeqNum := seqNum\<rparr>"

section \<open>Clock drift and time drift (clock-drift-applier.cc, time-drift-applier.cc)\<close>

record ClockDriftApplier =
  m_skew :: real
  m_K :: real
  m_minSkewPpm :: real
  m_maxSkewPpm :: real

definition ClockDriftApplier_ctor :: ClockDriftApplier where
  "ClockDriftApplier_ctor =
     \<lparr>m_skew = 0, m_K = 1 / 1000000000, m_minSkewPpm = - 250, m_maxSkewPpm = 250\<rparr>"

text \<open>
  \<open>UniformRandomVariable::GetValue (min, max)\<close> is \<open>min + u * (max - min)\<close> for the
  stream's next number \<open>u\<close> of the unit interval. The draws are arguments of the functions
  that consume them.
\<close>

definition Uniform_GetValue :: "real \<Rightarrow> real \<Rightarrow> real \<Rightarrow> real" where
  "Uniform_GetValue lo hi u = lo + u * (hi - lo)"

definition ClockDriftApplier_Initialize :: "real \<Rightarrow> ClockDriftApplier \<Rightarrow> ClockDriftApplier" where
  "ClockDriftApplier_Initialize u c =
     (let ppm = Uniform_GetValue (m_minSkewPpm c) (m_maxSkewPpm c) u
      in c\<lparr>m_skew := ppm / 1000000\<rparr>)"

text \<open>
  \<open>g\<close> is the value drawn from the standard normal stream \<open>m_noiseGen\<close>. The square
  root of a negative product is not a number, and so are the noise and the delay then;
  \<open>std::max (0.0, delay)\<close> returns its first argument in that case.
\<close>

definition ComputeAdjustedSeconds :: "ClockDriftApplier \<Rightarrow> real \<Rightarrow> real \<Rightarrow> real" where
  "ComputeAdjustedSeconds c g t =
     (if m_K c * t < 0 then 0
      else
        let stddev = sqrt (m_K c * t);
            noise = g * stddev;
            delay = t * (1 + m_skew c) + noise
        in max 0 delay)"

definition ClockDriftApplier_Apply :: "ClockDriftApplier \<Rightarrow> real \<Rightarrow> Time \<Rightarrow> Time" where
  "ClockDriftApplier_Apply c g t = Seconds (ComputeAdjustedSeconds c g (GetSeconds t))"

record TimeDriftApplier =
  m_driftRatio :: real

definition TimeDriftApplier_ctor :: TimeDriftApplier where
  "TimeDriftApplier_ctor = \<lparr>m_driftRatio = 0\<rparr>"

definition SetDriftRatio :: "real \<Rightarrow> TimeDriftApplier \<Rightarrow> failure + TimeDriftApplier" where
  "SetDriftRatio driftRatio d =
     (if driftRatio < 0 then Inl (NS_ABORT_MSG ''driftRatio must be >= 0'')
      else if driftRatio > 100 then Inl (NS_ABORT_MSG ''driftRatio must be <= 100'')
      else Inr (d\<lparr>m_driftRatio := driftRatio\<rparr>))"

text \<open>\<open>u\<close> is the number the stream \<open>m_rng\<close> yields for this call.\<close>

definition ApplyByRatio :: "real \<Rightarrow> Time \<Rightarrow> real \<Rightarrow> failure + Time" where
  "ApplyByRatio u inputTime driftRatio =
     (if driftRatio < 0 then Inl (NS_ABORT_MSG ''driftRatio must be >= 0'')
      else if driftRatio > 100 then Inl (NS_ABORT_MSG ''driftRatio must be <= 100'')
      else
        let inputTimeMs = real_of_int (GetMilliSeconds inputTime);
            minDrift = - inputTimeMs * driftRatio / 100;
            maxDrift = inputTimeMs * driftRatio / 100;
            randomDelay = Uniform_GetValue minDrift maxDrift u;
            randomizedTime = inputTime + MilliSeconds_dbl randomDelay
        in Inr randomizedTime)"


section \<open>The RIT MAC (rit-wpan-mac.h, rit-wpan-mac.cc)\<close>

datatype RitMacMode =
    RIT_MODE_DISABLED | SENDER_MODE | RECEIVER_MODE | SLEEP_MODE | BOOTSTRAP_MODE

text \<open>
  The object: its base-class part, its own members, and the simulator clock \<open>now\<close> that
  \<open>Simulator::Now\<close> reads. Assigning a new event to an \<open>EventId\<close> member does not
  cancel the event the member held: an event replaced while pending stays in the
  simulator's queue and is kept in \<open>sim_orphans\<close>.
\<close>

record RitWpanMac =
  base :: LrWpanMac
  now :: Time
  m_rxAlwaysOn :: bool
  m_continuousRxEnabled :: bool
  m_useTimeBasedRitParams :: bool
  m_ritSending :: bool
  m_macRitPeriod :: u32
  m_macRitDataWaitDuration :: u8
  m_macRitTxWaitDuration :: u32
  m_macRitRequestPayload :: "u8 list"
  m_macRitPeriodTime :: Time
  m_macRitDataWaitDurationTime :: Time
  m_macRitTxWaitDurationTime :: Time
  m_ritMacMode :: RitMacMode
  m_ritDataWaitTimeout :: EventId
  m_ritTxWaitTimeout :: EventId
  m_periodicRitDataRequestEvent :: EventId
  m_mlmeRitRequestIndicationCallback_IsNull :: bool
  m_lastRxRitReqFrameSrcAddr :: Mac16Address
  m_timeDriftApplier :: "TimeDriftApplier option"
  m_clockDriftApplier :: ClockDriftApplier
  m_moduleConfig :: RitWpanMacModuleConfig
  m_lastDataTxStartTime :: Time
  sim_orphans :: "Event list"

definition orphaned :: "EventId \<Rightarrow> Event list" where
  "orphaned e = (case e of None \<Rightarrow> [] | Some ev \<Rightarrow> [ev])"

definition upd_base :: "(LrWpanMac \<Rightarrow> LrWpanMac) \<Rightarrow> RitWpanMac \<Rightarrow> RitWpanMac" where
  "upd_base f s = s\<lparr>base := f (base s)\<rparr>"

definition emit :: "Output \<Rightarrow> RitWpanMac \<Rightarrow> RitWpanMac" where
  "emit x s = upd_base (\<lambda>b. b\<lparr>outputs := outputs b @ [x]\<rparr>) s"

definition callBase :: "(Time \<Rightarrow> LrWpanMac \<Rightarrow> failure + LrWpanMac) \<Rightarrow> RitWpanMac \<Rightarrow> failure + RitWpanMac" where
  "callBase f s = (case f (now s) (base s) of Inl e \<Rightarrow> Inl e | Inr b \<Rightarrow> Inr (s\<lparr>base := b\<rparr>))"

definition PlmeSetTRXStateRequest :: "PhyEnumeration \<Rightarrow> RitWpanMac \<Rightarrow> RitWpanMac" where
  "PlmeSetTRXStateRequest st s = emit (Out_PlmeSetTRXStateRequest st) s"

definition mcpsDataConfirm :: "u8 \<Rightarrow> MacStatus \<Rightarrow> RitWpanMac \<Rightarrow> RitWpanMac" where
  "mcpsDataConfirm h st s =
     (if m_mcpsDataConfirmCallback_IsNull (base s) then s else emit (Out_McpsDataConfirm h st) s)"

definition ChangeRitMacMode :: "RitMacMode \<Rightarrow> RitWpanMac \<Rightarrow> RitWpanMac" where
  "ChangeRitMacMode newMode s = (if m_ritMacMode s = newMode then s else s\<lparr>m_ritMacMode := newMode\<rparr>)"

text \<open>
  \<open>IsRitModeEnabled\<close> asks \<open>Time::IsPositive\<close> of the period, which holds of zero as
  well (\<open>Time::IsStrictlyPositive\<close> is the test that excludes it): with the time-based
  parameters a period of zero leaves the RIT paths on. The integer period is compared
  with \<open>> 0u\<close>.
\<close>

definition IsRitModeEnabled :: "RitWpanMac \<Rightarrow> bool" where
  "IsRitModeEnabled s =
     (if m_useTimeBasedRitParams s then 0 \<le> m_macRitPeriodTime s else 0 < m_macRitPeriod s)"

text \<open>
  \<open>DurationToTime\<close>: a division of a \<open>double\<close> by a zero symbol rate has no finite
  result to convert.
\<close>

definition DurationToTime :: "Lib \<Rightarrow> 64 word \<Rightarrow> RitWpanMac \<Rightarrow> failure + Time" where
  "DurationToTime L duration s =
     (if m_useTimeBasedRitParams s then Inl (NS_ASSERT ''!m_useTimeBasedRitParams'')
      else
        let symbols = duration * aBaseSuperframeDuration L;
            symbolRate = GetDataOrSymbolRate L
        in if symbolRate = 0 then Inl (UNDEFINED ''division by a zero symbol rate'')
           else Inr (Seconds (real (unat symbols) / symbolRate)))"

definition GetRitPeriodTime :: "Lib \<Rightarrow> RitWpanMac \<Rightarrow> failure + Time" where
  "GetRitPeriodTime L s =
     (if m_useTimeBasedRitParams s then Inr (m_macRitPeriodTime s)
      else DurationToTime L (ucast (m_macRitPeriod s)) s)"

definition GetRitDataWaitDurationTime :: "Lib \<Rightarrow> RitWpanMac \<Rightarrow> failure + Time" where
  "GetRitDataWaitDurationTime L s =
     (if m_useTimeBasedRitParams s then Inr (m_macRitDataWaitDurationTime s)
      else DurationToTime L (ucast (m_macRitDataWaitDuration s)) s)"

definition GetRitTxWaitDurationTime :: "Lib \<Rightarrow> RitWpanMac \<Rightarrow> failure + Time" where
  "GetRitTxWaitDurationTime L s =
     (if m_useTimeBasedRitParams s then Inr (m_macRitTxWaitDurationTime s)
      else DurationToTime L (ucast (m_macRitTxWaitDuration s)) s)"

definition GetContinuousTxTimeoutTime :: Time where
  "GetContinuousTxTimeoutTime = MilliSeconds 10"

text \<open>
  The constructor. The base-class members are those the \<open>LrWpanMac\<close> constructor leaves,
  with \<open>SetMacMaxFrameRetries (0)\<close> applied; \<open>m_continuousRxEnabled\<close> is not initialised
  by the constructor and is taken as given.
\<close>

definition RitWpanMac_ctor :: "LrWpanMac \<Rightarrow> Time \<Rightarrow> bool \<Rightarrow> failure + RitWpanMac" where
  "RitWpanMac_ctor b t0 contRx =
     (case SetDriftRatio 10 TimeDriftApplier_ctor of
        Inl e \<Rightarrow> Inl e
      | Inr tda \<Rightarrow>
          Inr \<lparr>base = b\<lparr>m_macMaxFrameRetries := 0\<rparr>,
               now = t0,
               m_rxAlwaysOn = False,
               m_continuousRxEnabled = contRx,
               m_useTimeBasedRitParams = True,
               m_ritSending = False,
               m_macRitPeriod = 0,
               m_macRitDataWaitDuration = 1,
               m_macRitTxWaitDuration = 65,
               m_macRitRequestPayload = [],
               m_macRitPeriodTime = Seconds 5,
               m_macRitDataWaitDurationTime = MilliSeconds 10,
               m_macRitTxWaitDurationTime = MilliSeconds 5000,
               m_ritMacMode = RIT_MODE_DISABLED,
               m_ritDataWaitTimeout = None,
               m_ritTxWaitTimeout = None,
               m_periodicRitDataRequestEvent = None,
               m_mlmeRitRequestIndicationCallback_IsNull = True,
               m_lastRxRitReqFrameSrcAddr = Mac16 0 0,
               m_timeDriftApplier = Some tda,
               m_clockDriftApplier = ClockDriftApplier_ctor,
               m_moduleConfig = default_RitWpanMacModuleConfig,
               m_lastDataTxStartTime = 0,
               sim_orphans = []\<rparr>)"

text \<open>\<open>u\<close> is the draw of the skew in \<open>ClockDriftApplier::Initialize\<close>.\<close>

definition DoInitialize :: "Lib \<Rightarrow> real \<Rightarrow> RitWpanMac \<Rightarrow> failure + RitWpanMac" where
  "DoInitialize L u s =
     (let s1 = ChangeRitMacMode SLEEP_MODE s;
          s2 = s1\<lparr>m_clockDriftApplier := ClockDriftApplier_Initialize u (m_clockDriftApplier s1)\<rparr>
      in callBase (base_DoInitialize L) s2)"

definition DoDispose :: "Lib \<Rightarrow> RitWpanMac \<Rightarrow> failure + RitWpanMac" where
  "DoDispose L s =
     callBase (base_DoDispose L)
       (s\<lparr>m_ritDataWaitTimeout := Cancel (m_ritDataWaitTimeout s),
          m_ritTxWaitTimeout := Cancel (m_ritTxWaitTimeout s),
          m_periodicRitDataRequestEvent := Cancel (m_periodicRitDataRequestEvent s)\<rparr>)"


subsection \<open>Sleep, and the ends of the sender and receiver cycles\<close>

definition SetSleep :: "Lib \<Rightarrow> RitWpanMac \<Rightarrow> failure + RitWpanMac" where
  "SetSleep L s =
     (if \<not> IsRitModeEnabled s then Inl (NS_ASSERT ''IsRitModeEnabled()'')
      else if \<not> (IsExpired (m_ritDataWaitTimeout s) \<and> IsExpired (m_ritTxWaitTimeout s))
        then Inl (NS_ASSERT ''m_ritDataWaitTimeout.IsExpired() && m_ritTxWaitTimeout.IsExpired()'')
      else
        let s1 = upd_base (ChangeMacState MAC_IDLE) s
        in if m_rxAlwaysOn s1 then Inr s1
           else
             let s2 = ChangeRitMacMode SLEEP_MODE s1;
                 s3 = PlmeSetTRXStateRequest IEEE_802_15_4_PHY_FORCE_TRX_OFF s2
             in callBase (base_SetRxOnWhenIdle L False) s3)"

definition EndSenderCycle :: "Lib \<Rightarrow> RitWpanMac \<Rightarrow> failure + RitWpanMac" where
  "EndSenderCycle L s =
     (if \<not> IsRitModeEnabled s then Inl (NS_ASSERT ''IsRitModeEnabled()'')
      else if m_ritMacMode s \<noteq> SENDER_MODE then Inl (NS_ASSERT ''m_ritMacMode == SENDER_MODE'')
      else
        let s1 = (if \<not> IsExpired (m_ritTxWaitTimeout s)
                  then s\<lparr>m_ritTxWaitTimeout := Cancel (m_ritTxWaitTimeout s)\<rparr> else s);
            s2 = s1\<lparr>m_ritSending := False\<rparr>
        in SetSleep L s2)"

definition EndReceiverCycle :: "Lib \<Rightarrow> RitWpanMac \<Rightarrow> failure + RitWpanMac" where
  "EndReceiverCycle L s =
     (if \<not> IsRitModeEnabled s then Inl (NS_ASSERT ''IsRitModeEnabled()'')
      else if m_ritMacMode s \<noteq> RECEIVER_MODE then Inl (NS_ASSERT ''m_ritMacMode == RECEIVER_MODE'')
      else
        let s1 = (if IsPending (m_ritDataWaitTimeout s)
                  then s\<lparr>m_ritDataWaitTimeout := Cancel (m_ritDataWaitTimeout s)\<rparr> else s)
        in SetSleep L s1)"

text \<open>
  \<open>m_mcpsDataConfirmCallback\<close> called with the handle of \<open>m_txQueue.front ()\<close>, when
  the callback is set.
\<close>

definition confirmFront :: "MacStatus \<Rightarrow> RitWpanMac \<Rightarrow> failure + RitWpanMac" where
  "confirmFront st s =
     (if m_mcpsDataConfirmCallback_IsNull (base s) then Inr s
      else (case m_txQueue (base s) of
              [] \<Rightarrow> Inl (UNDEFINED ''m_txQueue.front() of an empty queue'')
            | e # rest \<Rightarrow> Inr (emit (Out_McpsDataConfirm (txQMsduHandle e) st) s)))"

subsection \<open>SetLrWpanMacState\<close>

definition SetLrWpanMacState :: "Lib \<Rightarrow> MacState \<Rightarrow> RitWpanMac \<Rightarrow> failure + RitWpanMac" where
  "SetLrWpanMacState L macState s =
     (if \<not> IsRitModeEnabled s then callBase (base_SetLrWpanMacState L macState) s
      else if m_macState (base s) = MAC_CSMA \<and> macState = CHANNEL_ACCESS_FAILURE then
        (case m_txPkt (base s) of
           None \<Rightarrow> Inl (NS_ASSERT ''m_txPkt'')
         | Some txPkt \<Rightarrow>
             let s1 = emit (Out_MacTxDropTrace txPkt) s;
                 macHdr = f_hdr txPkt
             in if IsData macHdr then
                  andThen (confirmFront MacStatus_CHANNEL_ACCESS_FAILURE s1) (\<lambda>s2.
                  andThen (callBase (base_RemoveFirstTxQElement L) s2) (\<lambda>s3.
                  EndSenderCycle L s3))
                else if IsCommand macHdr then
                  (case f_cmd txPkt of
                     Some RIT_DATA_REQ \<Rightarrow> EndReceiverCycle L s1
                   | Some RIT_DATA_RES \<Rightarrow> Inr s1
                   | _ \<Rightarrow> Inr s1)
                else Inr s1)
      else callBase (base_SetLrWpanMacState L macState) s)"

subsection \<open>The wait windows\<close>

definition StartRitDataWaitPeriod :: "Lib \<Rightarrow> RitWpanMac \<Rightarrow> failure + RitWpanMac" where
  "StartRitDataWaitPeriod L s =
     (if \<not> (IsRitModeEnabled s \<and> m_ritMacMode s = RECEIVER_MODE)
        then Inl (NS_ASSERT ''IsRitModeEnabled() && m_ritMacMode == RECEIVER_MODE'')
      else
        andThen (callBase (base_SetRxOnWhenIdle L True) s) (\<lambda>s1.
        andThen (SetLrWpanMacState L MAC_IDLE s1) (\<lambda>s2.
          let hasValidWait =
                ((m_useTimeBasedRitParams s2 \<and> 0 < m_macRitDataWaitDurationTime s2) \<or>
                 (\<not> m_useTimeBasedRitParams s2 \<and> 0 < m_macRitDataWaitDuration s2))
          in if \<not> hasValidWait then Inr s2
             else
               andThen (GetRitDataWaitDurationTime L s2) (\<lambda>dataWaitTime.
                 if \<not> IsExpired (m_ritDataWaitTimeout s2)
                   then Inl (NS_ASSERT ''m_ritDataWaitTimeout.IsExpired()'')
                 else Inr (s2\<lparr>m_ritDataWaitTimeout :=
                                 Schedule (now s2) dataWaitTime Cb_ReceiverCycleTimeout\<rparr>)))))"

definition StartRitTxWaitPeriod :: "Lib \<Rightarrow> RitWpanMac \<Rightarrow> failure + RitWpanMac" where
  "StartRitTxWaitPeriod L s =
     (if \<not> (IsRitModeEnabled s \<and> m_ritMacMode s = SENDER_MODE)
        then Inl (NS_ASSERT ''IsRitModeEnabled() && m_ritMacMode == SENDER_MODE'')
      else
        let s0 = emit (Out_BeaconWaitTrace ''start'' (now s)) s
        in
        andThen (callBase (base_SetRxOnWhenIdle L True) s0) (\<lambda>s1.
        andThen (SetLrWpanMacState L MAC_IDLE s1) (\<lambda>s2.
          let hasValidWait =
                ((m_useTimeBasedRitParams s2 \<and> 0 < m_macRitTxWaitDurationTime s2) \<or>
                 (\<not> m_useTimeBasedRitParams s2 \<and> 0 < m_macRitTxWaitDuration s2))
          in if \<not> hasValidWait then Inr s2
             else
               andThen (GetRitTxWaitDurationTime L s2) (\<lambda>txWaitTime.
                 if \<not> IsExpired (m_ritTxWaitTimeout s2)
                   then Inl (NS_ASSERT ''m_ritTxWaitTimeout.IsExpired()'')
                 else Inr (s2\<lparr>m_ritTxWaitTimeout :=
                                 Schedule (now s2) txWaitTime Cb_SenderCycleTimeout\<rparr>)))))"

definition CheckTxAndStartSender :: "Lib \<Rightarrow> RitWpanMac \<Rightarrow> failure + (bool \<times> RitWpanMac)" where
  "CheckTxAndStartSender L s =
     (if \<not> IsRitModeEnabled s then Inl (NS_ASSERT ''IsRitModeEnabled()'')
      else if m_txQueue (base s) = [] then Inr (False, s)
      else if m_ritMacMode s = SENDER_MODE then Inl (NS_ASSERT ''m_ritMacMode != SENDER_MODE'')
      else
        andThen (StartRitTxWaitPeriod L (ChangeRitMacMode SENDER_MODE s)) (\<lambda>s1. Inr (True, s1)))"

definition SenderCycleTimeout :: "Lib \<Rightarrow> RitWpanMac \<Rightarrow> failure + RitWpanMac" where
  "SenderCycleTimeout L s =
     (if \<not> (IsRitModeEnabled s \<and> m_ritMacMode s = SENDER_MODE)
        then Inl (NS_ASSERT ''IsRitModeEnabled() && m_ritMacMode == SENDER_MODE'')
      else EndSenderCycle L (emit (Out_BeaconWaitTrace ''timeout'' (now s)) s))"

definition ReceiverCycleTimeout :: "Lib \<Rightarrow> RitWpanMac \<Rightarrow> failure + RitWpanMac" where
  "ReceiverCycleTimeout L s =
     (if \<not> (IsRitModeEnabled s \<and> m_ritMacMode s = RECEIVER_MODE)
        then Inl (NS_ASSERT ''IsRitModeEnabled() && m_ritMacMode == RECEIVER_MODE'')
      else EndReceiverCycle L (emit (Out_DataWaitTrace ''timeout'' (now s)) s))"

definition AckWaitTimeout :: "Lib \<Rightarrow> RitWpanMac \<Rightarrow> failure + RitWpanMac" where
  "AckWaitTimeout L s =
     (if \<not> IsRitModeEnabled s then callBase (base_AckWaitTimeout L) s
      else if m_ritMacMode s \<noteq> SENDER_MODE then Inr s
      else
        andThen (callBase (base_AckWaitTimeout L) (s\<lparr>m_ritSending := False\<rparr>)) (\<lambda>s1.
        EndSenderCycle L s1))"

subsection \<open>Starting and stopping the RIT cycle; MLME-SET and MLME-GET\<close>

text \<open>\<open>u\<close> is the draw of the initial phase.\<close>

definition StartRitCycle :: "Lib \<Rightarrow> real \<Rightarrow> RitWpanMac \<Rightarrow> failure + RitWpanMac" where
  "StartRitCycle L u s =
     (if \<not> IsRitModeEnabled s then Inl (NS_ASSERT ''IsRitModeEnabled()'')
      else
        andThen (GetRitPeriodTime L s) (\<lambda>period.
        andThen (GetRitDataWaitDurationTime L s) (\<lambda>dataWait.
          if \<not> dataWait \<le> period then Inl (NS_ASSERT ''period >= dataWait'')
          else if m_macState (base s) \<noteq> MAC_IDLE then Inr s
          else if IsPending (m_periodicRitDataRequestEvent s)
            then Inl (NS_ASSERT ''!m_periodicRitDataRequestEvent.IsPending()'')
          else
            andThen (callBase (base_SetRxOnWhenIdle L False) (ChangeRitMacMode SLEEP_MODE s)) (\<lambda>s1.
              let delaySec = Uniform_GetValue 0 (GetSeconds period) u
              in Inr (s1\<lparr>m_periodicRitDataRequestEvent :=
                            Schedule (now s1) (Seconds delaySec) Cb_PeriodicRitDataRequest\<rparr>)))))"

definition StopRitCycle :: "Lib \<Rightarrow> RitWpanMac \<Rightarrow> failure + RitWpanMac" where
  "StopRitCycle L s =
     (if \<not> IsRitModeEnabled s then Inl (NS_ASSERT ''IsRitModeEnabled()'')
      else
        let s1 = s\<lparr>m_periodicRitDataRequestEvent := Cancel (m_periodicRitDataRequestEvent s),
                   m_ritDataWaitTimeout := Cancel (m_ritDataWaitTimeout s),
                   m_ritTxWaitTimeout := Cancel (m_ritTxWaitTimeout s)\<rparr>;
            s2 = ChangeRitMacMode RIT_MODE_DISABLED s1
        in SetLrWpanMacState L MAC_IDLE s2)"

definition mlmeSetConfirm :: "MacStatus \<Rightarrow> MacPibAttributeIdentifier \<Rightarrow> RitWpanMac \<Rightarrow> RitWpanMac" where
  "mlmeSetConfirm st ident s =
     (if m_mlmeSetConfirmCallback_IsNull (base s) then s else emit (Out_MlmeSetConfirm st ident) s)"

definition MlmeSetRequest :: "Lib \<Rightarrow> real \<Rightarrow> MacPibAttributeIdentifier \<Rightarrow> MacPibAttributes \<Rightarrow> RitWpanMac \<Rightarrow> failure + RitWpanMac" where
  "MlmeSetRequest L u ident attribute s =
     (if 0xF0 \<le> pibValue L ident then
        (if ident = macRitPeriod then
           (let s1 = s\<lparr>m_macRitPeriod := attr_macRitPeriod attribute\<rparr>
            in andThen
                 (if m_macRitPeriod s1 = 0 then StopRitCycle L s1
                  else if m_ritMacMode s1 = RIT_MODE_DISABLED then StartRitCycle L u s1
                  else Inr s1)
                 (\<lambda>s2. Inr (mlmeSetConfirm MacStatus_SUCCESS ident s2)))
         else if ident = macRitDataWaitDuration then
           Inr (mlmeSetConfirm MacStatus_SUCCESS ident
                  (s\<lparr>m_macRitDataWaitDuration := attr_macRitDataWaitDuration attribute\<rparr>))
         else if ident = macRitTxWaitDuration then
           Inr (mlmeSetConfirm MacStatus_SUCCESS ident
                  (s\<lparr>m_macRitTxWaitDuration := attr_macRitTxWaitDuration attribute\<rparr>))
         else if ident = macRitRequestPayload then
           Inr (mlmeSetConfirm MacStatus_SUCCESS ident
                  (s\<lparr>m_macRitRequestPayload := attr_macRitRequestPayload attribute\<rparr>))
         else if ident = macRitPeriodTime then
           (let s1 = s\<lparr>m_macRitPeriodTime := attr_macRitPeriodTime attribute\<rparr>
            in andThen
                 (if m_macRitPeriodTime s1 = 0 then StopRitCycle L s1
                  else if m_ritMacMode s1 = RIT_MODE_DISABLED then StartRitCycle L u s1
                  else Inr s1)
                 (\<lambda>s2. Inr (mlmeSetConfirm MacStatus_SUCCESS ident s2)))
         else if ident = macRitDataWaitDurationTime then
           Inr (mlmeSetConfirm MacStatus_SUCCESS ident
                  (s\<lparr>m_macRitDataWaitDurationTime := attr_macRitDataWaitDurationTime attribute\<rparr>))
         else if ident = macRitTxWaitDurationTime then
           Inr (mlmeSetConfirm MacStatus_SUCCESS ident
                  (s\<lparr>m_macRitTxWaitDurationTime := attr_macRitTxWaitDurationTime attribute\<rparr>))
         else Inr (mlmeSetConfirm MacStatus_UNSUPPORTED_ATTRIBUTE ident s))
      else callBase (base_MlmeSetRequest L ident attribute) s)"


subsection \<open>McpsDataRequest\<close>

text \<open>
  The two \<open>switch\<close> statements on the addressing modes: the header with the address
  fields set, the status to confirm and return with, or the abort.
\<close>

definition setSrcAddr :: "McpsDataRequestParams \<Rightarrow> LrWpanMac \<Rightarrow> LrWpanMacHeader \<Rightarrow> failure + (MacStatus + LrWpanMacHeader)" where
  "setSrcAddr params b macHdr =
     (if rq_srcAddrMode params = NO_PANID_ADDR then
        Inr (Inr (macHdr\<lparr>hdrSrcAddrMode := rq_srcAddrMode params, hdrPanIdComp := False\<rparr>))
      else if rq_srcAddrMode params = ADDR_MODE_RESERVED then
        Inl (NS_ABORT_MSG ''Can not set source address type to ADDR_MODE_RESERVED. Aborting.'')
      else if rq_srcAddrMode params = SHORT_ADDR then
        Inr (Inr (SetSrcAddrFields (m_macPanId b) (m_shortAddress b)
                    (macHdr\<lparr>hdrSrcAddrMode := rq_srcAddrMode params\<rparr>)))
      else if rq_srcAddrMode params = EXT_ADDR then
        Inr (Inr (SetSrcAddrFieldsExt (m_macPanId b) (m_macExtendedAddress b)
                    (macHdr\<lparr>hdrSrcAddrMode := rq_srcAddrMode params\<rparr>)))
      else Inr (Inl MacStatus_INVALID_ADDRESS))"

definition setDstAddr :: "McpsDataRequestParams \<Rightarrow> LrWpanMacHeader \<Rightarrow> failure + (MacStatus + LrWpanMacHeader)" where
  "setDstAddr params macHdr =
     (if rq_dstAddrMode params = NO_PANID_ADDR then
        Inr (Inr (macHdr\<lparr>hdrDstAddrMode := rq_dstAddrMode params, hdrPanIdComp := False\<rparr>))
      else if rq_dstAddrMode params = ADDR_MODE_RESERVED then
        Inl (NS_ABORT_MSG ''Can not set destination address type to ADDR_MODE_RESERVED. Aborting.'')
      else if rq_dstAddrMode params = SHORT_ADDR then
        Inr (Inr (SetDstAddrFields (rq_dstPanId params) (rq_dstAddr params)
                    (macHdr\<lparr>hdrDstAddrMode := rq_dstAddrMode params\<rparr>)))
      else if rq_dstAddrMode params = EXT_ADDR then
        Inr (Inr (SetDstAddrFieldsExt (rq_dstPanId params) (rq_dstExtAddr params)
                    (macHdr\<lparr>hdrDstAddrMode := rq_dstAddrMode params\<rparr>)))
      else Inr (Inl MacStatus_INVALID_ADDRESS))"

definition setPanIdCompAndAck :: "McpsDataRequestParams \<Rightarrow> LrWpanMacHeader \<Rightarrow> LrWpanMacHeader" where
  "setPanIdCompAndAck params macHdr0 =
     (let macHdr1 =
            (if (rq_dstAddrMode params \<noteq> NO_PANID_ADDR \<and> rq_srcAddrMode params \<noteq> NO_PANID_ADDR)
                \<and> hdrDstPanId macHdr0 = hdrSrcPanId macHdr0
             then macHdr0\<lparr>hdrPanIdComp := True\<rparr> else macHdr0);
          macHdr2 = macHdr1\<lparr>hdrSecEnable := False\<rparr>;
          b0 = rq_txOptions params AND TX_OPTION_ACK
      in if b0 = TX_OPTION_ACK then
           (if hdrDstAddrMode macHdr2 = SHORT_ADDR then
              (let shortAddr = hdrShortDstAddr macHdr2
               in if IsBroadcast shortAddr \<or> IsMulticast shortAddr
                  then macHdr2\<lparr>hdrAckReq := False\<rparr>
                  else macHdr2\<lparr>hdrAckReq := True\<rparr>)
            else macHdr2\<lparr>hdrAckReq := True\<rparr>)
         else macHdr2\<lparr>hdrAckReq := False\<rparr>)"

definition makeTrailer :: "Lib \<Rightarrow> LrWpanMacHeader \<Rightarrow> CommandFrameType option \<Rightarrow> u8 list \<Rightarrow> LrWpanMacTrailer" where
  "makeTrailer L h c d =
     (if ChecksumEnabled L then \<lparr>trFcsEnabled = True, trFcs = SetFcs L h c d\<rparr>
      else \<lparr>trFcsEnabled = False, trFcs = 0\<rparr>)"

definition enqueueAndMaybeStartSender :: "Lib \<Rightarrow> McpsDataRequestParams \<Rightarrow> u8 list \<Rightarrow> LrWpanMacHeader \<Rightarrow> RitWpanMac \<Rightarrow> failure + RitWpanMac" where
  "enqueueAndMaybeStartSender L params p macHdr s =
     (let txQElement = \<lparr>txQMsduHandle = rq_msduHandle params,
                         txQPkt = \<lparr>f_hdr = macHdr, f_cmd = None, f_data = p,
                                    f_trailer = makeTrailer L macHdr None p\<rparr>\<rparr>
      in andThen (callBase (base_EnqueueTxQElement L txQElement) s) (\<lambda>s1.
           if m_ritMacMode s1 = SLEEP_MODE
           then andThen (CheckTxAndStartSender L s1) (\<lambda>r. Inr (snd r))
           else Inr s1))"

definition McpsDataRequest :: "Lib \<Rightarrow> McpsDataRequestParams \<Rightarrow> u8 list \<Rightarrow> RitWpanMac \<Rightarrow> failure + RitWpanMac" where
  "McpsDataRequest L params p s =
     (if \<not> IsRitModeEnabled s then callBase (base_McpsDataRequest L params p) s
      else
        let macHdr = LrWpanMacHeader_ctor L LRWPAN_MAC_DATA (m_macDsn (base s));
            s1 = upd_base (\<lambda>b. b\<lparr>m_macDsn := m_macDsn b + 1\<rparr>) s
        in if unat (aMaxPhyPacketSize L - aMinMPDUOverhead L) < length p then
             Inr (mcpsDataConfirm (rq_msduHandle params) MacStatus_FRAME_TOO_LONG s1)
           else if rq_srcAddrMode params = NO_PANID_ADDR \<and> rq_dstAddrMode params = NO_PANID_ADDR then
             Inr (mcpsDataConfirm (rq_msduHandle params) MacStatus_INVALID_ADDRESS s1)
           else
             (case setSrcAddr params (base s1) macHdr of
                Inl e \<Rightarrow> Inl e
              | Inr (Inl st) \<Rightarrow> Inr (mcpsDataConfirm (rq_msduHandle params) st s1)
              | Inr (Inr macHdr1) \<Rightarrow>
                  (case setDstAddr params macHdr1 of
                     Inl e \<Rightarrow> Inl e
                   | Inr (Inl st) \<Rightarrow> Inr (mcpsDataConfirm (rq_msduHandle params) st s1)
                   | Inr (Inr macHdr2) \<Rightarrow>
                       (let macHdr3 = setPanIdCompAndAck params macHdr2;
                            b1 = rq_txOptions params AND TX_OPTION_GTS;
                            b2 = rq_txOptions params AND TX_OPTION_INDIRECT
                        in if b1 = TX_OPTION_GTS \<or> b2 = TX_OPTION_INDIRECT then
                             Inr (mcpsDataConfirm (rq_msduHandle params) MacStatus_INVALID_PARAMETER s1)
                           else enqueueAndMaybeStartSender L params p macHdr3 s1))))"


subsection \<open>Transmitting the RIT Data Request, the data frame and the beacon ACK\<close>

definition DoSendRitDataRequest :: "Lib \<Rightarrow> RitWpanMac \<Rightarrow> failure + RitWpanMac" where
  "DoSendRitDataRequest L s =
     (if \<not> IsRitModeEnabled s then Inl (NS_ASSERT ''IsRitModeEnabled()'')
      else if m_macState (base s) \<noteq> MAC_IDLE then Inl (NS_ASSERT ''m_macState == MAC_IDLE'')
      else
        let payload = m_macRitRequestPayload s;
            macHdr0 = LrWpanMacHeader_ctor L LRWPAN_MAC_COMMAND (m_macDsn (base s));
            s1 = upd_base (\<lambda>b. b\<lparr>m_macDsn := m_macDsn b + 1\<rparr>) s;
            macHdr1 = macHdr0\<lparr>hdrFrameVer := 1\<rparr>;
            macHdr2 =
              (if compactRitDataRequestEnabled (m_moduleConfig s1) then
                 (SetSrcAddrFields (m_macPanId (base s1)) (m_shortAddress (base s1))
                    (macHdr1\<lparr>hdrSrcAddrMode := SHORT_ADDR\<rparr>))
                   \<lparr>hdrDstAddrMode := NO_PANID_ADDR, hdrPanIdComp := True, hdrSecEnable := False\<rparr>
               else
                 (SetDstAddrFields (m_macPanId (base s1)) Mac16_Broadcast
                    ((SetSrcAddrFields (m_macPanId (base s1)) (m_shortAddress (base s1))
                        (macHdr1\<lparr>hdrSrcAddrMode := SHORT_ADDR\<rparr>))
                       \<lparr>hdrDstAddrMode := SHORT_ADDR\<rparr>))
                   \<lparr>hdrPanIdComp := False, hdrSecEnable := False\<rparr>);
            macHdr = macHdr2\<lparr>hdrAckReq := False\<rparr>;
            ritDataRequestPacket =
              \<lparr>f_hdr = macHdr, f_cmd = Some RIT_DATA_REQ, f_data = payload,
               f_trailer = makeTrailer L macHdr (Some RIT_DATA_REQ) payload\<rparr>
        in if beaconCsmaEnabled (m_moduleConfig s1) \<or> beaconPreCsEnabled (m_moduleConfig s1)
              \<or> beaconPreCsBEnabled (m_moduleConfig s1) then
             (if m_macState (base s1) = MAC_IDLE \<and> \<not> IsPending (m_setMacState (base s1)) then
                (if \<not> IsUnSlottedCsmaCa L then Inl (NS_ASSERT ''m_csmaCa->IsUnSlottedCsmaCa()'')
                 else if \<not> IsPending (m_ifsEvent (base s1)) then
                   Inr (upd_base (\<lambda>b. b\<lparr>m_txPkt := Some ritDataRequestPacket,
                                          m_setMacState := ScheduleNow (now s1) (Cb_SetLrWpanMacState MAC_CSMA)\<rparr>) s1)
                 else Inr s1)
              else Inr s1)
           else
             Inr (PlmeSetTRXStateRequest IEEE_802_15_4_PHY_TX_ON
                    (upd_base (\<lambda>b. ChangeMacState MAC_SENDING (b\<lparr>m_txPkt := Some ritDataRequestPacket\<rparr>)) s1)))"

text \<open>
  \<open>DoSendRitData\<close> replaces the packet of the queue's first element by a copy whose
  header has the destination rewritten.
\<close>

definition rewriteHead :: "u16 \<Rightarrow> Mac16Address \<Rightarrow> TxQueueElement \<Rightarrow> TxQueueElement" where
  "rewriteHead panId addr e =
     (let pkt = txQPkt e;
          macHdr = SetDstAddrFields panId addr ((f_hdr pkt)\<lparr>hdrDstAddrMode := SHORT_ADDR\<rparr>)
      in e\<lparr>txQPkt := pkt\<lparr>f_hdr := macHdr\<rparr>\<rparr>)"

definition DoSendRitData :: "Lib \<Rightarrow> RitWpanMac \<Rightarrow> failure + RitWpanMac" where
  "DoSendRitData L s =
     (if \<not> (IsRitModeEnabled s \<and> m_ritMacMode s = SENDER_MODE)
        then Inl (NS_ASSERT ''IsRitModeEnabled() && m_ritMacMode == SENDER_MODE'')
      else
        (case m_txQueue (base s) of
           [] \<Rightarrow> Inl (NS_ASSERT ''m_txQueue.size() > 0'')
         | e # rest \<Rightarrow>
             let txQElement = rewriteHead (m_macPanId (base s)) (m_lastRxRitReqFrameSrcAddr s) e;
                 s1 = upd_base (\<lambda>b. b\<lparr>m_txQueue := txQElement # rest\<rparr>) s
             in if dataCsmaEnabled (m_moduleConfig s1) \<or> dataPreCsEnabled (m_moduleConfig s1)
                   \<or> dataPreCsBEnabled (m_moduleConfig s1) then
                  (if dataCsmaEnabled (m_moduleConfig s1) \<and> dataPreCsEnabled (m_moduleConfig s1)
                     then Inl (NS_ASSERT ''!(dataCsmaEnabled && dataPreCsEnabled)'')
                   else callBase (base_CheckQueue L) s1)
                else
                  Inr (PlmeSetTRXStateRequest IEEE_802_15_4_PHY_TX_ON
                         (upd_base (\<lambda>b. ChangeMacState MAC_SENDING
                                           (b\<lparr>m_txPkt := Some (txQPkt txQElement)\<rparr>)) s1))))"

definition DoSendRitBeaconAck :: "Lib \<Rightarrow> RitWpanMac \<Rightarrow> failure + RitWpanMac" where
  "DoSendRitBeaconAck L s =
     (if \<not> IsRitModeEnabled s then Inl (NS_ASSERT ''IsRitModeEnabled()'')
      else if m_macState (base s) \<noteq> MAC_IDLE then Inl (NS_ASSERT ''m_macState == MAC_IDLE'')
      else
        let macHdr0 = LrWpanMacHeader_ctor L LRWPAN_MAC_MULTIPURPOSE (m_macDsn (base s));
            s1 = upd_base (\<lambda>b. b\<lparr>m_macDsn := m_macDsn b + 1\<rparr>) s;
            macHdr =
              (SetDstAddrFields (m_macPanId (base s1)) (m_lastRxRitReqFrameSrcAddr s1)
                 (macHdr0\<lparr>hdrFrameVer := 1, hdrSrcAddrMode := NO_PANID_ADDR,
                           hdrDstAddrMode := SHORT_ADDR\<rparr>))
                \<lparr>hdrPanIdComp := True, hdrSecEnable := False, hdrAckReq := False\<rparr>;
            ritBeaconAckPacket =
              \<lparr>f_hdr = macHdr, f_cmd = None, f_data = [],
               f_trailer = makeTrailer L macHdr None []\<rparr>
        in Inr (PlmeSetTRXStateRequest IEEE_802_15_4_PHY_TX_ON
                  (upd_base (\<lambda>b. ChangeMacState MAC_SENDING (b\<lparr>m_txPkt := Some ritBeaconAckPacket\<rparr>)) s1)))"

definition SendRitData :: "Lib \<Rightarrow> RitWpanMac \<Rightarrow> failure + RitWpanMac" where
  "SendRitData L s =
     (if \<not> (IsRitModeEnabled s \<and> m_ritMacMode s = SENDER_MODE)
        then Inl (NS_ASSERT ''IsRitModeEnabled() && m_ritMacMode == SENDER_MODE'')
      else if m_txQueue (base s) = [] then Inl (NS_ASSERT ''m_txQueue.size() > 0'')
      else if m_macState (base s) = MAC_IDLE then
        (let s1 = (emit (Out_BeaconWaitTrace ''end'' (now s)) s)\<lparr>m_ritSending := True\<rparr>
         in if beaconAckEnabled (m_moduleConfig s1) then DoSendRitBeaconAck L s1
            else DoSendRitData L s1)
      else Inr (emit (Out_BeaconWaitTrace ''skip'' (now s)) s))"

subsection \<open>The periodic RIT event\<close>

text \<open>
  \<open>g\<close> is the draw of the clock-drift noise and \<open>u\<close> the draw of the jitter for this
  firing. The function runs as the callback of the periodic event, which has expired by
  then.
\<close>

definition nextRitInterval :: "Lib \<Rightarrow> real \<Rightarrow> real \<Rightarrow> RitWpanMac \<Rightarrow> failure + Time" where
  "nextRitInterval L g u s =
     andThen (GetRitPeriodTime L s) (\<lambda>ritPeriodTime0.
       let ritPeriodTime = ClockDriftApplier_Apply (m_clockDriftApplier s) g ritPeriodTime0
       in if m_timeDriftApplier s \<noteq> None \<and> beaconRandomizeEnabled (m_moduleConfig s)
          then ApplyByRatio u ritPeriodTime 50
          else Inr ritPeriodTime)"

definition PeriodicRitDataRequest :: "Lib \<Rightarrow> real \<Rightarrow> real \<Rightarrow> RitWpanMac \<Rightarrow> failure + RitWpanMac" where
  "PeriodicRitDataRequest L g u s =
     (if \<not> IsRitModeEnabled s then Inl (NS_ASSERT ''IsRitModeEnabled()'')
      else if IsPending (m_periodicRitDataRequestEvent s)
        then Inl (NS_ASSERT ''!m_periodicRitDataRequestEvent.IsPending()'')
      else
        andThen (nextRitInterval L g u s) (\<lambda>ritPeriodTime.
          let s1 = s\<lparr>m_periodicRitDataRequestEvent :=
                        Schedule (now s) ritPeriodTime Cb_PeriodicRitDataRequest\<rparr>
          in if m_ritMacMode s1 = SENDER_MODE then Inr s1
             else
               andThen (CheckTxAndStartSender L s1) (\<lambda>r.
                 if fst r then Inr (snd r)
                 else DoSendRitDataRequest L (ChangeRitMacMode RECEIVER_MODE (snd r)))))"


subsection \<open>Reception\<close>

text \<open>C++ integer division truncates towards zero.\<close>

definition trunc_div :: "int \<Rightarrow> int \<Rightarrow> int" where
  "trunc_div a b = sgn a * sgn b * (\<bar>a\<bar> div \<bar>b\<bar>)"

definition GetMicroSeconds :: "Time \<Rightarrow> int" where
  "GetMicroSeconds t = trunc_div t 1000"

definition ReceiveCommand :: "Lib \<Rightarrow> u8 \<Rightarrow> Frame \<Rightarrow> RitWpanMac \<Rightarrow> failure + RitWpanMac" where
  "ReceiveCommand L lqi p s =
     (let receivedMacHdr = f_hdr p
      in case f_cmd p of
           Some RIT_DATA_REQ \<Rightarrow>
             (if m_ritMacMode s = SENDER_MODE then
                (if m_ritSending s then Inr s
                 else
                   let s1 = s\<lparr>m_ritTxWaitTimeout := Cancel (m_ritTxWaitTimeout s)\<rparr>;
                       s2 = s1\<lparr>m_lastRxRitReqFrameSrcAddr := hdrShortSrcAddr receivedMacHdr\<rparr>;
                       ritReqParams =
                         \<lparr>rit_srcAddrMode = hdrSrcAddrMode receivedMacHdr,
                          rit_srcPanId = hdrSrcPanId receivedMacHdr,
                          rit_srcAddr = hdrShortSrcAddr receivedMacHdr,
                          rit_srcExtAddr = hdrExtSrcAddr receivedMacHdr,
                          rit_dstAddrMode = hdrDstAddrMode receivedMacHdr,
                          rit_dstPanId = hdrDstPanId receivedMacHdr,
                          rit_dstAddr = hdrShortDstAddr receivedMacHdr,
                          rit_dstExtAddr = hdrExtDstAddr receivedMacHdr,
                          rit_ritRequestPayload = f_data p,
                          rit_linkQuality = lqi,
                          rit_dsn = hdrSeqNum receivedMacHdr,
                          rit_timestamp = word_of_int (trunc_div (GetMicroSeconds (now s2)) 16)\<rparr>
                   in if \<not> m_mlmeRitRequestIndicationCallback_IsNull s2
                      then Inr (emit (Out_MlmeRitRequestIndication ritReqParams) s2)
                      else Inr s2)
              else if m_ritMacMode s = RECEIVER_MODE then Inr s
              else if m_ritMacMode s = BOOTSTRAP_MODE then Inr s
              else Inr s)
         | Some RIT_DATA_RES \<Rightarrow> Inr s
         | _ \<Rightarrow> Inr s)"

definition ReceiveData :: "Lib \<Rightarrow> u8 \<Rightarrow> Frame \<Rightarrow> RitWpanMac \<Rightarrow> failure + RitWpanMac" where
  "ReceiveData L lqi p s =
     (let receivedMacHdr = f_hdr p
      in if m_ritMacMode s = SENDER_MODE then Inr s
         else if \<not> m_mcpsDataIndicationCallback_IsNull (base s) then
           (let params =
                  \<lparr>ind_srcAddrMode = hdrSrcAddrMode receivedMacHdr,
                   ind_srcPanId = hdrSrcPanId receivedMacHdr,
                   ind_srcAddr = (if hdrSrcAddrMode receivedMacHdr = SHORT_ADDR
                                  then hdrShortSrcAddr receivedMacHdr else Mac16 0 0),
                   ind_srcExtAddr = (if hdrSrcAddrMode receivedMacHdr = EXT_ADDR
                                     then hdrExtSrcAddr receivedMacHdr else 0),
                   ind_dstAddrMode = hdrDstAddrMode receivedMacHdr,
                   ind_dstPanId = hdrDstPanId receivedMacHdr,
                   ind_dstAddr = (if hdrDstAddrMode receivedMacHdr = SHORT_ADDR
                                  then hdrShortDstAddr receivedMacHdr else Mac16 0 0),
                   ind_dstExtAddr = (if hdrDstAddrMode receivedMacHdr = EXT_ADDR
                                     then hdrExtDstAddr receivedMacHdr else 0),
                   ind_mpduLinkQuality = lqi,
                   ind_dsn = hdrSeqNum receivedMacHdr\<rparr>
            in Inr (emit (Out_McpsDataIndication params (f_data p)) s))
         else Inr s)"

text \<open>Level 3 filtering of \<open>PdDataIndication\<close>: the value of \<open>acceptFrame\<close>.\<close>

definition acceptFrame :: "LrWpanMac \<Rightarrow> LrWpanMacHeader \<Rightarrow> bool" where
  "acceptFrame b h =
     (let a0 = (hdrType h \<noteq> LRWPAN_MAC_RESERVED);
          a1 = (if a0 then hdrFrameVer h \<le> 1 else a0);
          a2 = (if a1 \<and> 1 < hdrDstAddrMode h
                then (hdrDstPanId h = m_macPanId b \<or> hdrDstPanId h = 0xffff)
                     \<or> (m_macPanId b = 0xffff \<and> IsCommand h)
                else a1);
          a3 = (if a2 \<and> hdrDstAddrMode h = SHORT_ADDR
                then (if hdrShortDstAddr h = m_shortAddress b then True
                      else if (IsBroadcast (hdrShortDstAddr h) \<or> IsMulticast (hdrShortDstAddr h))
                              \<and> IsCommand h
                        then \<not> hdrAckReq h
                      else False)
                else a2);
          a4 = (if a3 \<and> hdrDstAddrMode h = EXT_ADDR
                then hdrExtDstAddr h = m_macExtendedAddress b
                else a3)
      in a4)"

text \<open>
  The branch of \<open>PdDataIndication\<close> for a data frame that asks for an acknowledgment,
  after \<open>ReceiveData\<close>. \<open>m_rxPkt\<close> receives a copy of the packet as \<open>ReceiveData\<close> left it,
  with the header and the trailer removed.
\<close>

definition ackRequestedData :: "Lib \<Rightarrow> u8 \<Rightarrow> Frame \<Rightarrow> RitWpanMac \<Rightarrow> failure + RitWpanMac" where
  "ackRequestedData L lqi p s =
     andThen
       (if m_macState (base s) = MAC_ACK_PENDING then
          callBase (base_PrepareRetransmission L)
            (upd_base (\<lambda>b. b\<lparr>m_ackWaitTimeout := Cancel (m_ackWaitTimeout b)\<rparr>) s)
        else if m_macState (base s) = MAC_CSMA then
          Inr (emit Out_CsmaCa_Cancel (emit Out_PreCs_Cancel (emit Out_PreCsB_Cancel s)))
        else Inr s)
       (\<lambda>s1.
          let s2 = upd_base (\<lambda>b. ChangeMacState MAC_IDLE (b\<lparr>m_setMacState := Cancel (m_setMacState b)\<rparr>)) s1;
              s3 = upd_base (\<lambda>b. b\<lparr>m_rxPkt := Some (f_data p), m_lastRxFrameLqi := lqi\<rparr>) s2;
              s4 = upd_base (\<lambda>b. b\<lparr>m_setMacState := ScheduleNow (now s3) (Cb_SendAck (hdrSeqNum (f_hdr p)))\<rparr>) s3;
              s5 = s4\<lparr>m_ritDataWaitTimeout := Cancel (m_ritDataWaitTimeout s4)\<rparr>
          in andThen (GetRitDataWaitDurationTime L s5) (\<lambda>d.
               Inr (s5\<lparr>m_ritDataWaitTimeout := Schedule (now s5) d Cb_ReceiverCycleTimeout\<rparr>)))"

definition ackReceived :: "Lib \<Rightarrow> Frame \<Rightarrow> RitWpanMac \<Rightarrow> failure + RitWpanMac" where
  "ackReceived L txPkt s =
     (let s1 = s\<lparr>m_ritSending := False\<rparr>;
          s2 = upd_base (\<lambda>b. b\<lparr>m_ackWaitTimeout := Cancel (m_ackWaitTimeout b)\<rparr>) s1;
          s3 = emit (Out_MacTxOkTrace txPkt) s2
      in andThen (confirmFront MacStatus_SUCCESS s3) (\<lambda>s4.
           let s5 = upd_base (\<lambda>b. b\<lparr>m_setMacState := ScheduleNow (now s4) (Cb_SetLrWpanMacState MAC_IDLE)\<rparr>) s4
           in andThen (callBase (base_RemoveFirstTxQElement L) s5) (\<lambda>s6.
                EndSenderCycle L s6)))"

definition PdDataIndication :: "Lib \<Rightarrow> nat \<Rightarrow> Frame \<Rightarrow> u8 \<Rightarrow> RitWpanMac \<Rightarrow> failure + RitWpanMac" where
  "PdDataIndication L psduLength p lqi s =
     (if \<not> (m_macState (base s) = MAC_IDLE \<or> m_macState (base s) = MAC_ACK_PENDING
             \<or> m_macState (base s) = MAC_CSMA)
        then Inl (NS_ASSERT ''m_macState == MAC_IDLE || m_macState == MAC_ACK_PENDING || m_macState == MAC_CSMA'')
      else if \<not> IsRitModeEnabled s then callBase (base_PdDataIndication L psduLength p lqi) s
      else
        let originalPkt = p;
            receivedMacTrailer =
              (if ChecksumEnabled L then (f_trailer p)\<lparr>trFcsEnabled := True\<rparr> else f_trailer p);
            receivedMacHdr = f_hdr p
        in if \<not> CheckFcs L receivedMacTrailer (f_cmd p) (f_data p) then
             Inr (emit (Out_MacRxDropTrace originalPkt) s)
           else if m_macPromiscuousMode (base s) then Inr s
           else if \<not> acceptFrame (base s) receivedMacHdr then
             Inr (emit (Out_MacRxDropTrace originalPkt) s)
           else
             let s1 = emit (Out_MacRxTrace originalPkt) s
             in if IsCommand receivedMacHdr then ReceiveCommand L lqi originalPkt s1
                else if IsData receivedMacHdr \<and> m_ritMacMode s1 = RECEIVER_MODE then
                  andThen (ReceiveData L lqi originalPkt (emit (Out_DataWaitTrace ''end'' (now s1)) s1)) (\<lambda>s2.
                    if hdrAckReq receivedMacHdr then ackRequestedData L lqi originalPkt s2
                    else EndReceiverCycle L s2)
                else if IsMultipurpose receivedMacHdr then
                  (if \<not> beaconAckEnabled (m_moduleConfig s1)
                     then Inl (NS_ASSERT ''m_moduleConfig.beaconAckEnabled'')
                   else if m_ritMacMode s1 = RECEIVER_MODE then
                     Inr (s1\<lparr>m_ritDataWaitTimeout :=
                               Schedule (now s1) GetContinuousTxTimeoutTime Cb_ReceiverCycleTimeout\<rparr>)
                   else Inr s1)
                else if IsAcknowledgment receivedMacHdr \<and> m_txPkt (base s1) \<noteq> None
                        \<and> m_macState (base s1) = MAC_ACK_PENDING then
                  (case m_txPkt (base s1) of
                     None \<Rightarrow> Inr s1
                   | Some txPkt \<Rightarrow>
                       if hdrSeqNum receivedMacHdr = hdrSeqNum (f_hdr txPkt)
                       then ackReceived L txPkt s1
                       else Inr s1)
                else Inr s1)"


subsection \<open>PdDataConfirm\<close>

text \<open>
  The tail of \<open>PdDataConfirm\<close>, reached by every path that does not return early: the
  inter-frame spacing event when \<open>ifsWaitTime\<close> is not zero, and the scheduled change to
  \<open>MAC_IDLE\<close>.
\<close>

definition pdDataConfirmTail :: "Time \<Rightarrow> RitWpanMac \<Rightarrow> RitWpanMac" where
  "pdDataConfirmTail ifsWaitTime s =
     (let s1 = (if ifsWaitTime \<noteq> 0
                then upd_base (\<lambda>b. b\<lparr>m_ifsEvent := Schedule (now s) ifsWaitTime (Cb_IfsWaitTimeout ifsWaitTime)\<rparr>) s
                else s)
      in upd_base (\<lambda>b. b\<lparr>m_setMacState := ScheduleNow (now s1) (Cb_SetLrWpanMacState MAC_IDLE)\<rparr>) s1)"

definition ackWaitTime :: "Lib \<Rightarrow> failure + Time" where
  "ackWaitTime L =
     (if GetDataOrSymbolRate L = 0 then Inl (UNDEFINED ''division by a zero symbol rate'')
      else Inr (Seconds (real (unat (GetMacAckWaitDuration L)) / GetDataOrSymbolRate L)))"

definition dataSent :: "Lib \<Rightarrow> Frame \<Rightarrow> RitWpanMac \<Rightarrow> failure + RitWpanMac" where
  "dataSent L txPkt s =
     (if hdrAckReq (f_hdr txPkt) then
        andThen (ackWaitTime L) (\<lambda>waitTime.
          if \<not> IsExpired (m_ackWaitTimeout (base s)) then Inl (NS_ASSERT ''m_ackWaitTimeout.IsExpired()'')
          else
            Inr (upd_base (\<lambda>b. b\<lparr>m_ackWaitTimeout := Schedule (now s) waitTime Cb_AckWaitTimeout,
                                   m_setMacState := ScheduleNow (now s) (Cb_SetLrWpanMacState MAC_ACK_PENDING)\<rparr>) s))
      else
        let s1 = emit (Out_MacTxOkTrace txPkt) (s\<lparr>m_ritSending := False\<rparr>)
        in andThen (confirmFront MacStatus_SUCCESS s1) (\<lambda>s2.
             if continuousTxEnabled (m_moduleConfig s2) \<and> 0 < length (m_txQueue (base s2)) then
               DoSendRitData L s2
             else if \<not> IsExpired (m_ritTxWaitTimeout s2) then Inl (NS_ASSERT ''m_ritTxWaitTimeout.IsExpired()'')
             else
               andThen (callBase (base_RemoveFirstTxQElement L) s2) (\<lambda>s3.
               andThen (EndSenderCycle L s3) (\<lambda>s4.
                 Inr (pdDataConfirmTail 0 s4)))))"

definition PdDataConfirm :: "Lib \<Rightarrow> PhyEnumeration \<Rightarrow> RitWpanMac \<Rightarrow> failure + RitWpanMac" where
  "PdDataConfirm L status s =
     (if m_macState (base s) \<noteq> MAC_SENDING then Inl (NS_ASSERT ''m_macState == MAC_SENDING'')
      else if \<not> IsRitModeEnabled s then callBase (base_PdDataConfirm L status) s
      else
        (case m_txPkt (base s) of
           None \<Rightarrow> Inl (UNDEFINED ''m_txPkt->PeekHeader on a null m_txPkt'')
         | Some txPkt \<Rightarrow>
             let macHdr = f_hdr txPkt
             in if status = IEEE_802_15_4_PHY_SUCCESS then
                  (if \<not> IsAcknowledgment macHdr then
                     (if IsCommand macHdr then
                        (if f_cmd txPkt = Some RIT_DATA_REQ then
                           andThen (StartRitDataWaitPeriod L (emit (Out_DataWaitTrace ''start'' (now s)) s)) (\<lambda>s1.
                             Inr (pdDataConfirmTail 0 (s1\<lparr>m_lastDataTxStartTime := now s1\<rparr>)))
                         else Inr (pdDataConfirmTail 0 s))
                      else if IsData macHdr then dataSent L txPkt s
                      else if IsMultipurpose macHdr then
                        (if \<not> (m_ritMacMode s = SENDER_MODE \<and> beaconAckEnabled (m_moduleConfig s))
                           then Inl (NS_ASSERT ''m_ritMacMode == SENDER_MODE && m_moduleConfig.beaconAckEnabled'')
                         else Inr (pdDataConfirmTail (NanoSeconds 1) s))
                      else Inr (pdDataConfirmTail 0 s))
                   else
                     (let s1 = upd_base (\<lambda>b. b\<lparr>m_txPkt := None\<rparr>) s
                      in if continuousTxEnabled (m_moduleConfig s1) \<and> m_continuousRxEnabled s1 then
                           Inr (s1\<lparr>sim_orphans := sim_orphans s1 @ orphaned (m_ritDataWaitTimeout s1),
                                    m_ritDataWaitTimeout :=
                                      Schedule (now s1) GetContinuousTxTimeoutTime Cb_ReceiverCycleTimeout\<rparr>)
                         else andThen (EndReceiverCycle L s1) (\<lambda>s2. Inr (pdDataConfirmTail 0 s2))))
                else
                  Inr (pdDataConfirmTail 0
                         (upd_base (\<lambda>b. b\<lparr>m_txPkt := None\<rparr>) (emit (Out_MacTxDropTrace txPkt) s)))))"

subsection \<open>PlmeSetTRXStateConfirm, IfsWaitTimeout, MLME-GET and the setters\<close>

definition PlmeSetTRXStateConfirm :: "Lib \<Rightarrow> PhyEnumeration \<Rightarrow> RitWpanMac \<Rightarrow> failure + RitWpanMac" where
  "PlmeSetTRXStateConfirm L status s =
     (if \<not> IsRitModeEnabled s then callBase (base_PlmeSetTRXStateConfirm L status) s
      else if m_macState (base s) = MAC_IDLE
              \<and> (status = IEEE_802_15_4_PHY_RX_ON \<or> status = IEEE_802_15_4_PHY_SUCCESS) then Inr s
      else if m_macState (base s) = MAC_CSMA
              \<and> (status = IEEE_802_15_4_PHY_RX_ON \<or> status = IEEE_802_15_4_PHY_SUCCESS) then
        (case m_txPkt (base s) of
           None \<Rightarrow> Inl (UNDEFINED ''m_txPkt->PeekHeader on a null m_txPkt'')
         | Some txPkt \<Rightarrow>
             if (IsCommand (f_hdr txPkt) \<and> beaconPreCsEnabled (m_moduleConfig s))
                \<or> (IsData (f_hdr txPkt) \<and> dataPreCsEnabled (m_moduleConfig s))
             then Inr (emit Out_PreCs_Start s)
             else callBase (base_PlmeSetTRXStateConfirm L status) s)
      else callBase (base_PlmeSetTRXStateConfirm L status) s)"

text \<open>
  \<open>IfsWaitTimeout\<close> does not return after the base-class call of its first test. The
  comparison of \<open>ifsTime\<close> with the LIFS and SIFS times selects a log line only.
\<close>

definition IfsWaitTimeout :: "Lib \<Rightarrow> Time \<Rightarrow> RitWpanMac \<Rightarrow> failure + RitWpanMac" where
  "IfsWaitTimeout L ifsTime s =
     andThen
       (if \<not> IsRitModeEnabled s then callBase (base_IfsWaitTimeout L ifsTime) s else Inr s)
       (\<lambda>s0.
          let s1 = emit (Out_MacIfsEndTrace ifsTime) s0
          in if m_ritMacMode s1 = SENDER_MODE then
               (if \<not> ((continuousTxEnabled (m_moduleConfig s1) \<or> beaconAckEnabled (m_moduleConfig s1))
                       \<and> 0 < length (m_txQueue (base s1)))
                  then Inl (NS_ASSERT ''(continuousTxEnabled || beaconAckEnabled) && m_txQueue.size() > 0'')
                else DoSendRitData L s1)
             else if m_ritMacMode s1 = SLEEP_MODE then
               andThen (CheckTxAndStartSender L s1) (\<lambda>r. Inr (snd r))
             else callBase (base_IfsWaitTimeout L ifsTime) s1)"

definition MlmeGetRequest :: "Lib \<Rightarrow> MacPibAttributeIdentifier \<Rightarrow> MacPibAttributes \<Rightarrow> RitWpanMac \<Rightarrow> failure + RitWpanMac" where
  "MlmeGetRequest L ident fresh s =
     (if 0xF0 \<le> pibValue L ident then
        (let r =
               (if ident = macRitPeriod then
                  (MacStatus_SUCCESS, fresh\<lparr>attr_macRitPeriod := m_macRitPeriod s\<rparr>)
                else if ident = macRitDataWaitDuration then
                  (MacStatus_SUCCESS, fresh\<lparr>attr_macRitDataWaitDuration := m_macRitDataWaitDuration s\<rparr>)
                else if ident = macRitTxWaitDuration then
                  (MacStatus_SUCCESS, fresh\<lparr>attr_macRitTxWaitDuration := m_macRitTxWaitDuration s\<rparr>)
                else if ident = macRitRequestPayload then
                  (MacStatus_SUCCESS, fresh\<lparr>attr_macRitRequestPayload := m_macRitRequestPayload s\<rparr>)
                else (MacStatus_UNSUPPORTED_ATTRIBUTE, fresh))
         in if \<not> m_mlmeGetConfirmCallback_IsNull (base s)
            then Inr (emit (Out_MlmeGetConfirm (fst r) ident (snd r)) s)
            else Inr s)
      else callBase (base_MlmeGetRequest L ident) s)"

definition SetModuleConfig :: "RitWpanMacModuleConfig \<Rightarrow> RitWpanMac \<Rightarrow> RitWpanMac" where
  "SetModuleConfig config s = s\<lparr>m_moduleConfig := config\<rparr>"

definition GetModuleConfig :: "RitWpanMac \<Rightarrow> RitWpanMacModuleConfig" where
  "GetModuleConfig s = m_moduleConfig s"

definition SetRxAlwaysOn :: "bool \<Rightarrow> RitWpanMac \<Rightarrow> RitWpanMac" where
  "SetRxAlwaysOn alwaysOn s = s\<lparr>m_rxAlwaysOn := alwaysOn\<rparr>"

definition SetMlmeRitRequestIndicationCallback :: "bool \<Rightarrow> RitWpanMac \<Rightarrow> RitWpanMac" where
  "SetMlmeRitRequestIndicationCallback isNull s = s\<lparr>m_mlmeRitRequestIndicationCallback_IsNull := isNull\<rparr>"



section \<open>The MAC as a transition system\<close>

text \<open>
  What can happen to a MAC between two instants: a call from the upper layer, from the
  PHY or from a channel-access module, or the simulator running one of the MAC's pending
  events. When an event runs, its \<open>EventId\<close> has expired and the clock stands at the
  event's time; no pending event of the MAC is earlier.
\<close>

definition runCallback :: "Lib \<Rightarrow> real \<Rightarrow> real \<Rightarrow> Callback \<Rightarrow> RitWpanMac \<Rightarrow> failure + RitWpanMac" where
  "runCallback L g u cb s =
     (case cb of
        Cb_PeriodicRitDataRequest \<Rightarrow> PeriodicRitDataRequest L g u s
      | Cb_ReceiverCycleTimeout \<Rightarrow> ReceiverCycleTimeout L s
      | Cb_SenderCycleTimeout \<Rightarrow> SenderCycleTimeout L s
      | Cb_AckWaitTimeout \<Rightarrow> AckWaitTimeout L s
      | Cb_IfsWaitTimeout t \<Rightarrow> IfsWaitTimeout L t s
      | Cb_SetLrWpanMacState st \<Rightarrow> SetLrWpanMacState L st s
      | Cb_SendAck seqno \<Rightarrow> callBase (base_SendAck L seqno) s)"

datatype TimerSlot =
    T_periodicRitDataRequestEvent
  | T_ritDataWaitTimeout
  | T_ritTxWaitTimeout
  | T_ackWaitTimeout
  | T_ifsEvent
  | T_setMacState
  | T_orphan nat

definition slotEvent :: "TimerSlot \<Rightarrow> RitWpanMac \<Rightarrow> EventId" where
  "slotEvent t s =
     (case t of
        T_periodicRitDataRequestEvent \<Rightarrow> m_periodicRitDataRequestEvent s
      | T_ritDataWaitTimeout \<Rightarrow> m_ritDataWaitTimeout s
      | T_ritTxWaitTimeout \<Rightarrow> m_ritTxWaitTimeout s
      | T_ackWaitTimeout \<Rightarrow> m_ackWaitTimeout (base s)
      | T_ifsEvent \<Rightarrow> m_ifsEvent (base s)
      | T_setMacState \<Rightarrow> m_setMacState (base s)
      | T_orphan k \<Rightarrow> (if k < length (sim_orphans s) then Some (sim_orphans s ! k) else None))"

definition expireSlot :: "TimerSlot \<Rightarrow> RitWpanMac \<Rightarrow> RitWpanMac" where
  "expireSlot t s =
     (case t of
        T_periodicRitDataRequestEvent \<Rightarrow> s\<lparr>m_periodicRitDataRequestEvent := None\<rparr>
      | T_ritDataWaitTimeout \<Rightarrow> s\<lparr>m_ritDataWaitTimeout := None\<rparr>
      | T_ritTxWaitTimeout \<Rightarrow> s\<lparr>m_ritTxWaitTimeout := None\<rparr>
      | T_ackWaitTimeout \<Rightarrow> upd_base (\<lambda>b. b\<lparr>m_ackWaitTimeout := None\<rparr>) s
      | T_ifsEvent \<Rightarrow> upd_base (\<lambda>b. b\<lparr>m_ifsEvent := None\<rparr>) s
      | T_setMacState \<Rightarrow> upd_base (\<lambda>b. b\<lparr>m_setMacState := None\<rparr>) s
      | T_orphan k \<Rightarrow> s\<lparr>sim_orphans := take k (sim_orphans s) @ drop (Suc k) (sim_orphans s)\<rparr>)"

definition pendingTimes :: "RitWpanMac \<Rightarrow> Time list" where
  "pendingTimes s =
     map ev_time
       (orphaned (m_periodicRitDataRequestEvent s) @ orphaned (m_ritDataWaitTimeout s)
        @ orphaned (m_ritTxWaitTimeout s) @ orphaned (m_ackWaitTimeout (base s))
        @ orphaned (m_ifsEvent (base s)) @ orphaned (m_setMacState (base s)) @ sim_orphans s)"

datatype MacInput =
    In_McpsDataRequest McpsDataRequestParams "u8 list"
  | In_PdDataIndication nat Frame u8
  | In_PdDataConfirm PhyEnumeration
  | In_PlmeSetTRXStateConfirm PhyEnumeration
  | In_MlmeSetRequest real MacPibAttributeIdentifier MacPibAttributes
  | In_MlmeGetRequest MacPibAttributeIdentifier MacPibAttributes
  | In_SetLrWpanMacState MacState
  | In_SendRitData
  | In_SetModuleConfig RitWpanMacModuleConfig
  | In_SetRxAlwaysOn bool
  | In_SetMlmeRitRequestIndicationCallback bool
  | In_DoInitialize real
  | In_Fire TimerSlot real real
  | In_Elapse Time

text \<open>
  \<open>In_Elapse\<close> lets the clock advance to a time no later than the earliest pending
  event; \<open>In_Fire\<close> on a slot that holds no event, or not the earliest one, is no step.
\<close>

datatype 'a outcome = NoStep | Failed failure | Next 'a

definition outcome_of :: "failure + 'a \<Rightarrow> 'a outcome" where
  "outcome_of r = (case r of Inl e \<Rightarrow> Failed e | Inr x \<Rightarrow> Next x)"

definition mac_step :: "Lib \<Rightarrow> MacInput \<Rightarrow> RitWpanMac \<Rightarrow> RitWpanMac outcome" where
  "mac_step L i s =
     (case i of
        In_McpsDataRequest params p \<Rightarrow> outcome_of (McpsDataRequest L params p s)
      | In_PdDataIndication n p lqi \<Rightarrow> outcome_of (PdDataIndication L n p lqi s)
      | In_PdDataConfirm st \<Rightarrow> outcome_of (PdDataConfirm L st s)
      | In_PlmeSetTRXStateConfirm st \<Rightarrow> outcome_of (PlmeSetTRXStateConfirm L st s)
      | In_MlmeSetRequest u ident a \<Rightarrow> outcome_of (MlmeSetRequest L u ident a s)
      | In_MlmeGetRequest ident a \<Rightarrow> outcome_of (MlmeGetRequest L ident a s)
      | In_SetLrWpanMacState st \<Rightarrow> outcome_of (SetLrWpanMacState L st s)
      | In_SendRitData \<Rightarrow> outcome_of (SendRitData L s)
      | In_SetModuleConfig c \<Rightarrow> Next (SetModuleConfig c s)
      | In_SetRxAlwaysOn b \<Rightarrow> Next (SetRxAlwaysOn b s)
      | In_SetMlmeRitRequestIndicationCallback b \<Rightarrow> Next (SetMlmeRitRequestIndicationCallback b s)
      | In_DoInitialize u \<Rightarrow> outcome_of (DoInitialize L u s)
      | In_Fire t g u \<Rightarrow>
          (case slotEvent t s of
             None \<Rightarrow> NoStep
           | Some ev \<Rightarrow>
               if now s \<le> ev_time ev \<and> list_all (\<lambda>x. ev_time ev \<le> x) (pendingTimes s)
               then outcome_of (runCallback L g u (ev_call ev) ((expireSlot t s)\<lparr>now := ev_time ev\<rparr>))
               else NoStep)
      | In_Elapse t \<Rightarrow>
          (if now s \<le> t \<and> list_all (\<lambda>x. t \<le> x) (pendingTimes s) then Next (s\<lparr>now := t\<rparr>) else NoStep))"

fun mac_run :: "Lib \<Rightarrow> MacInput list \<Rightarrow> RitWpanMac \<Rightarrow> RitWpanMac outcome" where
  "mac_run L [] s = Next s"
| "mac_run L (i # rest) s =
     (case mac_step L i s of
        Next s1 \<Rightarrow> mac_run L rest s1
      | Failed e \<Rightarrow> Failed e
      | NoStep \<Rightarrow> NoStep)"

section \<open>The rank forwarding layer (rit-wpan-nwk.h, rit-wpan-nwk.cc)\<close>

text \<open>
  A packet above the MAC is its octets; \<open>AddHeader\<close> of a \<open>RitNwkHeader\<close> puts the six
  serialized octets in front, \<open>RemoveHeader\<close> and \<open>PeekHeader\<close> deserialize them.
  The member \<open>m_rank\<close> of the routing object is \<open>nwk_rank\<close> here and \<open>m_shortAddr\<close> is
  \<open>nwk_shortAddr\<close>, the header record having taken the names. Events scheduled without
  keeping their \<open>EventId\<close> are collected in \<open>nwk_scheduled\<close>.
\<close>

datatype NwkTrace =
    NwkTx "u8 list" | NwkTxOk "u8 list" | NwkTxDrop "u8 list"
  | NwkRx "u8 list" | NwkRxDrop "u8 list" | NwkReTx "u8 list"
  | NwkRxCallback "u8 list" Mac16Address

datatype NwkCall =
    Call_SendRequest "u8 list" Mac16Address u8
  | Call_SendRitData

record RitSimpleRouting =
  nwk_rank :: u16
  nwk_shortAddr :: Mac16Address
  m_nwkRxCallback_IsNull :: bool
  m_handleToPktMap :: "u8 \<rightharpoonup> (u8 list \<times> Mac16Address)"
  m_retryCountMap :: "u8 \<rightharpoonup> u8"
  m_msduToNwkHandleMap :: "u8 \<rightharpoonup> u8"
  m_nwkHandle :: u8
  m_macHandle :: u8
  nwk_traces :: "NwkTrace list"
  nwk_scheduled :: "(Time \<times> NwkCall) list"

definition MAX_RETRIES :: u8 where
  "MAX_RETRIES = 0"

definition AddHeader :: "RitNwkHeader \<Rightarrow> u8 list \<Rightarrow> u8 list" where
  "AddHeader h pkt = Serialize h @ pkt"

definition RemoveHeader :: "u8 list \<Rightarrow> failure + (RitNwkHeader \<times> u8 list)" where
  "RemoveHeader pkt =
     (case Deserialize pkt of
        None \<Rightarrow> Inl (NS_ASSERT ''Buffer::Iterator read out of bounds'')
      | Some (h, n) \<Rightarrow> Inr (h, drop n pkt))"

definition nwk_trace :: "NwkTrace \<Rightarrow> RitSimpleRouting \<Rightarrow> RitSimpleRouting" where
  "nwk_trace t n = n\<lparr>nwk_traces := nwk_traces n @ [t]\<rparr>"

text \<open>
  \<open>McpsDataConfirm\<close>. \<open>m_retryCountMap[nwkHandle]\<close> inserts a zero count for a handle
  that has none. \<open>u\<close> is the draw of the retransmission delay.
\<close>

definition Nwk_McpsDataConfirm :: "real \<Rightarrow> Time \<Rightarrow> u8 \<Rightarrow> MacStatus \<Rightarrow> RitSimpleRouting \<Rightarrow> failure + RitSimpleRouting" where
  "Nwk_McpsDataConfirm u t msduHandle status n =
     (case m_msduToNwkHandleMap n msduHandle of
        None \<Rightarrow> Inr n
      | Some nwkHandle \<Rightarrow>
          (case m_handleToPktMap n nwkHandle of
             None \<Rightarrow> Inr (n\<lparr>m_msduToNwkHandleMap := (m_msduToNwkHandleMap n)(msduHandle := None)\<rparr>)
           | Some (packet, dst) \<Rightarrow>
               let retries = (case m_retryCountMap n nwkHandle of None \<Rightarrow> 0 | Some r \<Rightarrow> r);
                   n1 = n\<lparr>m_retryCountMap := (m_retryCountMap n)(nwkHandle \<mapsto> retries)\<rparr>;
                   cleanup = (\<lambda>m. m\<lparr>m_handleToPktMap := (m_handleToPktMap m)(nwkHandle := None),
                                     m_retryCountMap := (m_retryCountMap m)(nwkHandle := None),
                                     m_msduToNwkHandleMap := (m_msduToNwkHandleMap m)(msduHandle := None)\<rparr>)
               in if status = MacStatus_SUCCESS then Inr (cleanup (nwk_trace (NwkTxOk packet) n1))
                  else if status = MacStatus_NO_ACK then
                    (if retries < MAX_RETRIES then
                       (case RemoveHeader packet of
                          Inl e \<Rightarrow> Inl e
                        | Inr (nwkHdr, packet') \<Rightarrow>
                            let n2 = n1\<lparr>m_retryCountMap := (m_retryCountMap n1)(nwkHandle \<mapsto> retries + 1),
                                        m_handleToPktMap := (m_handleToPktMap n1)(nwkHandle \<mapsto> (packet', dst))\<rparr>;
                                n3 = nwk_trace (NwkReTx packet') n2;
                                delay = Seconds (Uniform_GetValue 0 5 u);
                                n4 = n3\<lparr>nwk_scheduled := nwk_scheduled n3 @ [(t + delay, Call_SendRequest packet' dst nwkHandle)]\<rparr>
                            in Inr (n4\<lparr>m_msduToNwkHandleMap := (m_msduToNwkHandleMap n4)(msduHandle := None)\<rparr>))
                     else Inr (cleanup (nwk_trace (NwkTxDrop packet) n1)))
                  else Inr (cleanup (nwk_trace (NwkTxDrop packet) n1))))"

text \<open>
  The MCPS-DATA.confirm callbacks the MAC made during a call reach the routing layer's
  \<open>McpsDataConfirm\<close> in order.
\<close>

fun deliverConfirms :: "real \<Rightarrow> Time \<Rightarrow> Output list \<Rightarrow> RitSimpleRouting \<Rightarrow> failure + RitSimpleRouting" where
  "deliverConfirms u t [] n = Inr n"
| "deliverConfirms u t (Out_McpsDataConfirm h st # rest) n =
     (case Nwk_McpsDataConfirm u t h st n of Inl e \<Rightarrow> Inl e | Inr n1 \<Rightarrow> deliverConfirms u t rest n1)"
| "deliverConfirms u t (x # rest) n = deliverConfirms u t rest n"

definition newOutputs :: "RitWpanMac \<Rightarrow> RitWpanMac \<Rightarrow> Output list" where
  "newOutputs mac mac1 = drop (length (outputs (base mac))) (outputs (base mac1))"

definition isConfirm :: "Output \<Rightarrow> bool" where
  "isConfirm x = (case x of Out_McpsDataConfirm h st \<Rightarrow> True | _ \<Rightarrow> False)"

text \<open>
  \<open>SendRequest (packet, dst, nwkHandle)\<close>. The default \<open>McpsDataRequestParams\<close> has no
  option bit set and a zero destination PAN identifier.
\<close>

definition SendRequest3 :: "Lib \<Rightarrow> real \<Rightarrow> u8 list \<Rightarrow> Mac16Address \<Rightarrow> u8 \<Rightarrow> RitSimpleRouting \<times> RitWpanMac \<Rightarrow> failure + (RitSimpleRouting \<times> RitWpanMac)" where
  "SendRequest3 L u packet dst nwkHandle nm =
     (let n = fst nm; mac = snd nm;
          msduHandle = m_macHandle n;
          n1 = n\<lparr>m_macHandle := m_macHandle n + 1\<rparr>;
          params = \<lparr>rq_srcAddrMode = SHORT_ADDR, rq_dstAddrMode = SHORT_ADDR, rq_dstPanId = 0,
                    rq_dstAddr = dst, rq_dstExtAddr = 0, rq_msduHandle = msduHandle,
                    rq_txOptions = 0 OR TX_OPTION_ACK\<rparr>;
          hdr = \<lparr>m_rank = nwk_rank n1, m_srcAddr = nwk_shortAddr n1, m_dstAddr = dst\<rparr>;
          packet1 = AddHeader hdr packet;
          pktCopy = packet1;
          n2 = nwk_trace (NwkTx pktCopy) n1;
          n3 = n2\<lparr>m_handleToPktMap := (m_handleToPktMap n2)(nwkHandle \<mapsto> (pktCopy, dst)),
                    m_msduToNwkHandleMap := (m_msduToNwkHandleMap n2)(msduHandle \<mapsto> nwkHandle)\<rparr>
      in case McpsDataRequest L params packet1 mac of
           Inl e \<Rightarrow> Inl e
         | Inr mac1 \<Rightarrow>
             (case deliverConfirms u (now mac1) (newOutputs mac mac1) n3 of
                Inl e \<Rightarrow> Inl e
              | Inr n4 \<Rightarrow> Inr (n4, mac1)))"

text \<open>\<open>SendRequest (packet, dst)\<close>.\<close>

definition SendRequest :: "Lib \<Rightarrow> real \<Rightarrow> u8 list \<Rightarrow> Mac16Address \<Rightarrow> RitSimpleRouting \<times> RitWpanMac \<Rightarrow> failure + (RitSimpleRouting \<times> RitWpanMac)" where
  "SendRequest L u packet dst nm =
     (let n = fst nm;
          nwkHandle = m_nwkHandle n;
          n1 = n\<lparr>m_retryCountMap := (m_retryCountMap n)(nwkHandle \<mapsto> 0)\<rparr>
      in SendRequest3 L u packet dst nwkHandle (n1, snd nm))"

section \<open>The net device (rit-wpan-net-device.cc)\<close>

text \<open>The members \<open>SetRitModuleConfig\<close> touches: the stored configuration and the MAC.\<close>

record RitWpanNetDevice =
  nd_moduleConfig :: RitWpanMacModuleConfig
  nd_mac :: "RitWpanMac option"

definition countTrue :: "bool \<Rightarrow> int" where
  "countTrue b = (if b then 1 else 0)"

definition SetRitModuleConfig :: "RitWpanMacModuleConfig \<Rightarrow> RitWpanNetDevice \<Rightarrow> failure + RitWpanNetDevice" where
  "SetRitModuleConfig config d =
     (let dataTxModes = 0 + countTrue (dataCsmaEnabled config) + countTrue (dataPreCsEnabled config)
                          + countTrue (dataPreCsBEnabled config)
      in if 1 < dataTxModes then
           Inl (NS_FATAL_ERROR ''Invalid module config: only one of dataCsmaEnabled, dataPreCsEnabled, or dataPreCsBEnabled can be true.'')
         else
           let beaconTxModes = 0 + countTrue (beaconCsmaEnabled config) + countTrue (beaconPreCsEnabled config)
                                 + countTrue (beaconPreCsBEnabled config)
           in if 1 < beaconTxModes then
                Inl (NS_FATAL_ERROR ''Invalid module config: only one of beaconCsmaEnabled, beaconPreCsEnabled, or beaconPreCsBEnabled can be true.'')
              else
                let d1 = d\<lparr>nd_moduleConfig := config\<rparr>
                in (case nd_mac d1 of
                      None \<Rightarrow> Inr d1
                    | Some mac \<Rightarrow> Inr (d1\<lparr>nd_mac := Some (SetModuleConfig config mac)\<rparr>)))"


section \<open>A library instance and objects for the examples\<close>

text \<open>
  The examples below run the model on concrete objects. \<open>refLib\<close> gives the library
  record values: the constants of IEEE 802.15.4 (a PHY packet of at most 127 octets, an
  MPDU overhead of at least 9, a base superframe of 960 symbols, 62500 symbols a second),
  checksums off, and base-class functions that do what ns-3's LrWpanMac does where the
  examples use them: the queue is a FIFO, \<open>SetRxOnWhenIdle\<close> stores the flag,
  \<open>SetLrWpanMacState\<close> moves to the idle, CSMA and ack-pending states and from CSMA to
  sending on \<open>CHANNEL_IDLE\<close>, \<open>CheckQueue\<close> takes the head of the queue and schedules
  the CSMA state. The other base-class functions leave the members as they are.
\<close>

definition refHeader :: LrWpanMacHeader where
  "refHeader =
     \<lparr>hdrType = LRWPAN_MAC_DATA, hdrSeqNum = 0, hdrFrameVer = 1, hdrAckReq = False,
      hdrPanIdComp = False, hdrSecEnable = False,
      hdrSrcAddrMode = 0, hdrSrcPanId = 0, hdrShortSrcAddr = Mac16 0 0, hdrExtSrcAddr = 0,
      hdrDstAddrMode = 0, hdrDstPanId = 0, hdrShortDstAddr = Mac16 0 0, hdrExtDstAddr = 0\<rparr>"

definition ref_SetRxOnWhenIdle :: "bool \<Rightarrow> Time \<Rightarrow> LrWpanMac \<Rightarrow> failure + LrWpanMac" where
  "ref_SetRxOnWhenIdle v t b =
     (let b1 = b\<lparr>m_macRxOnWhenIdle := v\<rparr>
      in if m_macState b1 = MAC_IDLE
         then Inr (b1\<lparr>outputs := outputs b1 @
                       [Out_PlmeSetTRXStateRequest
                          (if v then IEEE_802_15_4_PHY_RX_ON else IEEE_802_15_4_PHY_TRX_OFF)]\<rparr>)
         else Inr b1)"

definition ref_SetLrWpanMacState :: "MacState \<Rightarrow> Time \<Rightarrow> LrWpanMac \<Rightarrow> failure + LrWpanMac" where
  "ref_SetLrWpanMacState st t b =
     (if st = MAC_IDLE then
        Inr ((ChangeMacState MAC_IDLE b)\<lparr>outputs := outputs (ChangeMacState MAC_IDLE b) @
               [Out_PlmeSetTRXStateRequest
                  (if m_macRxOnWhenIdle b then IEEE_802_15_4_PHY_RX_ON else IEEE_802_15_4_PHY_TRX_OFF)]\<rparr>)
      else if st = MAC_ACK_PENDING then
        Inr ((ChangeMacState MAC_ACK_PENDING b)\<lparr>outputs := outputs (ChangeMacState MAC_ACK_PENDING b) @
               [Out_PlmeSetTRXStateRequest IEEE_802_15_4_PHY_RX_ON]\<rparr>)
      else if st = MAC_CSMA then
        (if m_macState b = MAC_IDLE \<or> m_macState b = MAC_ACK_PENDING then
           Inr ((ChangeMacState MAC_CSMA b)\<lparr>outputs := outputs (ChangeMacState MAC_CSMA b) @
                  [Out_PlmeSetTRXStateRequest IEEE_802_15_4_PHY_RX_ON]\<rparr>)
         else Inl BASE_FAILED)
      else if m_macState b = MAC_CSMA \<and> st = CHANNEL_IDLE then
        Inr ((ChangeMacState MAC_SENDING b)\<lparr>outputs := outputs (ChangeMacState MAC_SENDING b) @
               [Out_PlmeSetTRXStateRequest IEEE_802_15_4_PHY_TX_ON]\<rparr>)
      else Inr b)"

definition ref_CheckQueue :: "Time \<Rightarrow> LrWpanMac \<Rightarrow> failure + LrWpanMac" where
  "ref_CheckQueue t b =
     (case m_txQueue b of
        [] \<Rightarrow> Inr b
      | e # rest \<Rightarrow>
          if m_macState b = MAC_IDLE \<and> \<not> IsPending (m_setMacState b) \<and> \<not> IsPending (m_ifsEvent b)
          then Inr (b\<lparr>m_txPkt := Some (txQPkt e),
                      m_setMacState := ScheduleNow t (Cb_SetLrWpanMacState MAC_CSMA)\<rparr>)
          else Inr b)"

definition ref_EnqueueTxQElement :: "TxQueueElement \<Rightarrow> Time \<Rightarrow> LrWpanMac \<Rightarrow> failure + LrWpanMac" where
  "ref_EnqueueTxQElement e t b = Inr (b\<lparr>m_txQueue := m_txQueue b @ [e]\<rparr>)"

definition ref_RemoveFirstTxQElement :: "Time \<Rightarrow> LrWpanMac \<Rightarrow> failure + LrWpanMac" where
  "ref_RemoveFirstTxQElement t b =
     (case m_txQueue b of
        [] \<Rightarrow> Inl BASE_FAILED
      | e # rest \<Rightarrow> Inr (b\<lparr>m_txQueue := rest, m_txPkt := None\<rparr>))"

definition refLib :: Lib where
  "refLib =
     \<lparr>aMaxPhyPacketSize = 127,
      aMinMPDUOverhead = 9,
      aBaseSuperframeDuration = 960,
      ChecksumEnabled = False,
      SetFcs = (\<lambda>h c d. 0),
      CheckFcs = (\<lambda>tr c d. True),
      defaultMacHeader = refHeader,
      GetDataOrSymbolRate = 62500,
      GetMacAckWaitDuration = 54,
      IsUnSlottedCsmaCa = True,
      pibValue = (\<lambda>i. case i of
                     macRitPeriod \<Rightarrow> 0xF0
                   | macRitDataWaitDuration \<Rightarrow> 0xF1
                   | macRitTxWaitDuration \<Rightarrow> 0xF2
                   | macRitRequestPayload \<Rightarrow> 0xF3
                   | macRitPeriodTime \<Rightarrow> 0xF4
                   | macRitDataWaitDurationTime \<Rightarrow> 0xF5
                   | macRitTxWaitDurationTime \<Rightarrow> 0xF6
                   | pibOther n \<Rightarrow> n),
      base_McpsDataRequest = (\<lambda>params p t b. Inr b),
      base_PdDataIndication = (\<lambda>n p lqi t b. Inr b),
      base_PdDataConfirm = (\<lambda>st t b. Inr b),
      base_PlmeSetTRXStateConfirm = (\<lambda>st t b. Inr b),
      base_MlmeSetRequest = (\<lambda>i a t b. Inr b),
      base_MlmeGetRequest = (\<lambda>i t b. Inr b),
      base_IfsWaitTimeout = (\<lambda>d t b. Inr b),
      base_SetLrWpanMacState = ref_SetLrWpanMacState,
      base_AckWaitTimeout = (\<lambda>t b. Inr b),
      base_DoInitialize = (\<lambda>t b. Inr b),
      base_DoDispose = (\<lambda>t b. Inr b),
      base_CheckQueue = ref_CheckQueue,
      base_SetRxOnWhenIdle = ref_SetRxOnWhenIdle,
      base_EnqueueTxQElement = ref_EnqueueTxQElement,
      base_RemoveFirstTxQElement = ref_RemoveFirstTxQElement,
      base_PrepareRetransmission = (\<lambda>t b. Inr b),
      base_SendAck = (\<lambda>seqno t b. Inr b)\<rparr>"

text \<open>
  The base-class members of a fresh MAC of short address 00:01 in PAN 0, with the data
  confirm and indication callbacks set; and the MAC the constructor makes of it at time 0.
\<close>

definition refBase :: LrWpanMac where
  "refBase =
     \<lparr>m_macState = MAC_IDLE, m_txQueue = [], m_txPkt = None, m_rxPkt = None,
      m_setMacState = None, m_ackWaitTimeout = None, m_ifsEvent = None,
      m_macDsn = 0, m_macRxOnWhenIdle = True, m_macPanId = 0,
      m_shortAddress = Mac16 0 1, m_macExtendedAddress = 0,
      m_macPromiscuousMode = False, m_lastRxFrameLqi = 0, m_macMaxFrameRetries = 3,
      m_mcpsDataConfirmCallback_IsNull = False,
      m_mcpsDataIndicationCallback_IsNull = False,
      m_mlmeSetConfirmCallback_IsNull = True,
      m_mlmeGetConfirmCallback_IsNull = True,
      outputs = []\<rparr>"

definition refMac :: RitWpanMac where
  "refMac =
     \<lparr>base = refBase\<lparr>m_macMaxFrameRetries := 0\<rparr>,
      now = 0,
      m_rxAlwaysOn = False,
      m_continuousRxEnabled = False,
      m_useTimeBasedRitParams = True,
      m_ritSending = False,
      m_macRitPeriod = 0,
      m_macRitDataWaitDuration = 1,
      m_macRitTxWaitDuration = 65,
      m_macRitRequestPayload = [],
      m_macRitPeriodTime = 5000000000,
      m_macRitDataWaitDurationTime = 10000000,
      m_macRitTxWaitDurationTime = 5000000000,
      m_ritMacMode = RIT_MODE_DISABLED,
      m_ritDataWaitTimeout = None,
      m_ritTxWaitTimeout = None,
      m_periodicRitDataRequestEvent = None,
      m_mlmeRitRequestIndicationCallback_IsNull = True,
      m_lastRxRitReqFrameSrcAddr = Mac16 0 0,
      m_timeDriftApplier = Some \<lparr>m_driftRatio = 10\<rparr>,
      m_clockDriftApplier = ClockDriftApplier_ctor,
      m_moduleConfig = default_RitWpanMacModuleConfig,
      m_lastDataTxStartTime = 0,
      sim_orphans = []\<rparr>"

section \<open>Notions for the statements and the examples\<close>

text \<open>
  Two frame conditions for the proofs. \<open>cycleKept s s'\<close>: the periodic event is the same
  in both states, and the mode is \<open>RIT_MODE_DISABLED\<close> in both or in neither.
  \<open>ritKept\<close> adds that the stored source address of the last RIT Data Request is the
  same.
\<close>

definition cycleKept :: "RitWpanMac \<Rightarrow> RitWpanMac \<Rightarrow> bool" where
  "cycleKept s s' =
     (m_periodicRitDataRequestEvent s' = m_periodicRitDataRequestEvent s
      \<and> ((m_ritMacMode s' = RIT_MODE_DISABLED) = (m_ritMacMode s = RIT_MODE_DISABLED)))"

definition ritKept :: "RitWpanMac \<Rightarrow> RitWpanMac \<Rightarrow> bool" where
  "ritKept s s' =
     (cycleKept s s' \<and> m_lastRxRitReqFrameSrcAddr s' = m_lastRxRitReqFrameSrcAddr s)"

text \<open>
  The relation of C3 between the periodic event and the mode, together with the callback
  the event holds; and the runs in which \<open>DoInitialize\<close> is applied only to a MAC whose
  mode is not \<open>RIT_MODE_DISABLED\<close>.
\<close>

definition cycleInv :: "RitWpanMac \<Rightarrow> bool" where
  "cycleInv s =
     (((m_periodicRitDataRequestEvent s = None) = (m_ritMacMode s = RIT_MODE_DISABLED))
      \<and> (m_periodicRitDataRequestEvent s = None
           \<or> map_option ev_call (m_periodicRitDataRequestEvent s) = Some Cb_PeriodicRitDataRequest))"

fun initWhenStarted :: "Lib \<Rightarrow> MacInput list \<Rightarrow> RitWpanMac \<Rightarrow> bool" where
  "initWhenStarted L [] s = True"
| "initWhenStarted L (i # rest) s =
     ((case i of In_DoInitialize u \<Rightarrow> m_ritMacMode s \<noteq> RIT_MODE_DISABLED | _ \<Rightarrow> True) \<and>
      (case mac_step L i s of Next s1 \<Rightarrow> initWhenStarted L rest s1 | _ \<Rightarrow> True))"

text \<open>
  An attribute object with every field zero, and a sleeping MAC at 7 s with beacon
  randomization on.
\<close>

definition attrs0 :: MacPibAttributes where
  "attrs0 = \<lparr>attr_macRitPeriod = 0, attr_macRitDataWaitDuration = 0, attr_macRitTxWaitDuration = 0,
      attr_macRitRequestPayload = [], attr_macRitPeriodTime = 0,
      attr_macRitDataWaitDurationTime = 0, attr_macRitTxWaitDurationTime = 0\<rparr>"

definition sleepingMac :: RitWpanMac where
  "sleepingMac = refMac\<lparr>m_ritMacMode := SLEEP_MODE, now := 7000000000,
                        m_moduleConfig := default_RitWpanMacModuleConfig\<lparr>beaconRandomizeEnabled := True\<rparr>\<rparr>"

text \<open>
  For C4, stated apart from \<open>ReceiveCommand\<close>: the source address of a RIT Data Request
  that an input delivers and the MAC accepts as a sender (the frame passes the state
  assertion, the FCS check and the filter of \<open>PdDataIndication\<close>, the MAC is in
  \<open>SENDER_MODE\<close> and is not sending yet); and the address of the last such request along
  a run, \<open>a\<close> being the address held before the run.
\<close>

definition acceptsRitReq :: "Lib \<Rightarrow> MacInput \<Rightarrow> RitWpanMac \<Rightarrow> Mac16Address option" where
  "acceptsRitReq L i s =
     (case i of
        In_PdDataIndication n p lqi \<Rightarrow>
          if (m_macState (base s) = MAC_IDLE \<or> m_macState (base s) = MAC_ACK_PENDING
              \<or> m_macState (base s) = MAC_CSMA)
             \<and> IsRitModeEnabled s
             \<and> CheckFcs L (if ChecksumEnabled L then (f_trailer p)\<lparr>trFcsEnabled := True\<rparr> else f_trailer p)
                   (f_cmd p) (f_data p)
             \<and> \<not> m_macPromiscuousMode (base s)
             \<and> acceptFrame (base s) (f_hdr p)
             \<and> IsCommand (f_hdr p) \<and> f_cmd p = Some RIT_DATA_REQ
             \<and> m_ritMacMode s = SENDER_MODE \<and> \<not> m_ritSending s
          then Some (hdrShortSrcAddr (f_hdr p))
          else None
      | _ \<Rightarrow> None)"

fun lastReq :: "Lib \<Rightarrow> MacInput list \<Rightarrow> RitWpanMac \<Rightarrow> Mac16Address \<Rightarrow> Mac16Address" where
  "lastReq L [] s a = a"
| "lastReq L (i # rest) s a =
     (case mac_step L i s of
        Next s1 \<Rightarrow> lastReq L rest s1 (case acceptsRitReq L i s of Some x \<Rightarrow> x | None \<Rightarrow> a)
      | _ \<Rightarrow> a)"

text \<open>
  One of the channel access methods for data frames is on.
\<close>

definition anyDataChannelAccess :: "RitWpanMacModuleConfig \<Rightarrow> bool" where
  "anyDataChannelAccess c = (dataCsmaEnabled c \<or> dataPreCsEnabled c \<or> dataPreCsBEnabled c)"

text \<open>
  More than one of three flags is set.
\<close>

definition moreThanOne :: "bool \<Rightarrow> bool \<Rightarrow> bool \<Rightarrow> bool" where
  "moreThanOne a b c = ((a \<and> b) \<or> (a \<and> c) \<or> (b \<and> c))"


definition installRun :: "MacInput list" where
  "installRun = [In_MlmeSetRequest 0 macRitPeriodTime attrs0,
                 In_MlmeSetRequest 0 macRitPeriodTime (attrs0\<lparr>attr_macRitPeriodTime := 1000000000\<rparr>),
                 In_DoInitialize 0,
                 In_Fire T_periodicRitDataRequestEvent 0 0,
                 In_PdDataConfirm IEEE_802_15_4_PHY_SUCCESS,
                 In_MlmeSetRequest 0 macRitPeriodTime attrs0]"

definition dataParams :: McpsDataRequestParams where
  "dataParams = \<lparr>rq_srcAddrMode = SHORT_ADDR, rq_dstAddrMode = SHORT_ADDR, rq_dstPanId = 0,
                  rq_dstAddr = Mac16 0 9, rq_dstExtAddr = 0, rq_msduHandle = 5, rq_txOptions = 0\<rparr>"

definition ritReqFrame :: Frame where
  "ritReqFrame =
     \<lparr>f_hdr = refHeader\<lparr>hdrType := LRWPAN_MAC_COMMAND, hdrSrcAddrMode := SHORT_ADDR,
                         hdrShortSrcAddr := Mac16 0 7, hdrDstAddrMode := SHORT_ADDR,
                         hdrShortDstAddr := Mac16 255 255\<rparr>,
      f_cmd = Some RIT_DATA_REQ, f_data = [],
      f_trailer = \<lparr>trFcsEnabled = False, trFcs = 0\<rparr>\<rparr>"

definition senderRun :: "MacInput list" where
  "senderRun = [In_DoInitialize 0, In_McpsDataRequest dataParams [1, 2, 3],
                In_PdDataIndication 10 ritReqFrame 200]"

text \<open>
  The outputs that C5 speaks of: the three cancellations made when the frame arrives
  during CSMA, and the MCPS-DATA.indication \<open>ReceiveData\<close> passes up when the callback is
  set.
\<close>

definition csmaCancels :: "MacState \<Rightarrow> Output list" where
  "csmaCancels st = (if st = MAC_CSMA then [Out_PreCsB_Cancel, Out_PreCs_Cancel, Out_CsmaCa_Cancel] else [])"

definition dataIndication :: "u8 \<Rightarrow> Frame \<Rightarrow> RitWpanMac \<Rightarrow> Output list" where
  "dataIndication lqi p s =
     (if m_mcpsDataIndicationCallback_IsNull (base s) then []
      else [Out_McpsDataIndication
              \<lparr>ind_srcAddrMode = hdrSrcAddrMode (f_hdr p),
               ind_srcPanId = hdrSrcPanId (f_hdr p),
               ind_srcAddr = (if hdrSrcAddrMode (f_hdr p) = SHORT_ADDR
                              then hdrShortSrcAddr (f_hdr p) else Mac16 0 0),
               ind_srcExtAddr = (if hdrSrcAddrMode (f_hdr p) = EXT_ADDR
                                 then hdrExtSrcAddr (f_hdr p) else 0),
               ind_dstAddrMode = hdrDstAddrMode (f_hdr p),
               ind_dstPanId = hdrDstPanId (f_hdr p),
               ind_dstAddr = (if hdrDstAddrMode (f_hdr p) = SHORT_ADDR
                              then hdrShortDstAddr (f_hdr p) else Mac16 0 0),
               ind_dstExtAddr = (if hdrDstAddrMode (f_hdr p) = EXT_ADDR
                                 then hdrExtDstAddr (f_hdr p) else 0),
               ind_mpduLinkQuality = lqi,
               ind_dsn = hdrSeqNum (f_hdr p)\<rparr> (f_data p)])"

text \<open>
  A receiver in CSMA at 3000 ns whose data-wait timeout is pending, and a data frame for
  it (address 00:01) with sequence number 42 that requests an acknowledgment.
\<close>

definition receiverMac :: RitWpanMac where
  "receiverMac =
     (upd_base (\<lambda>b. b\<lparr>m_macState := MAC_CSMA\<rparr>) refMac)
       \<lparr>m_ritMacMode := RECEIVER_MODE, now := 3000,
        m_ritDataWaitTimeout := Some \<lparr>ev_time = 10002000, ev_call = Cb_ReceiverCycleTimeout\<rparr>,
        m_periodicRitDataRequestEvent := Some \<lparr>ev_time = 5000000000, ev_call = Cb_PeriodicRitDataRequest\<rparr>\<rparr>"

definition ackDataFrame :: Frame where
  "ackDataFrame =
     \<lparr>f_hdr = refHeader\<lparr>hdrSeqNum := 42, hdrAckReq := True, hdrSrcAddrMode := SHORT_ADDR,
                         hdrShortSrcAddr := Mac16 0 7, hdrDstAddrMode := SHORT_ADDR,
                         hdrShortDstAddr := Mac16 0 1\<rparr>,
      f_cmd = None, f_data = [9, 8],
      f_trailer = \<lparr>trFcsEnabled = False, trFcs = 0\<rparr>\<rparr>"

text \<open>
  Continuous transmission without channel access for data: the run queues a frame that
  asks for no acknowledgment, receives a RIT Data Request and sends the frame.
\<close>

definition contConfig :: RitWpanMacModuleConfig where
  "contConfig = default_RitWpanMacModuleConfig\<lparr>continuousTxEnabled := True\<rparr>"

definition contRun :: "MacInput list" where
  "contRun = [In_SetModuleConfig contConfig, In_DoInitialize 0,
              In_McpsDataRequest dataParams [1, 2, 3],
              In_PdDataIndication 10 ritReqFrame 200,
              In_SendRitData]"





text \<open>
  For C2. \<open>confirmsOnly r s h st\<close>: the call returned, the queue, the mode, the MAC state
  and \<open>m_txPkt\<close> are those of \<open>s\<close>, and the outputs of \<open>s\<close> are extended by the
  MCPS-DATA.confirm of handle \<open>h\<close> and status \<open>st\<close> when the confirm callback is set,
  by nothing when it is not. Then the conditions \<open>McpsDataRequest\<close> tests.
\<close>

definition confirmsOnly :: "failure + RitWpanMac \<Rightarrow> RitWpanMac \<Rightarrow> u8 \<Rightarrow> MacStatus \<Rightarrow> bool" where
  "confirmsOnly r s h st =
     (case r of
        Inl e \<Rightarrow> False
      | Inr s' \<Rightarrow>
          m_txQueue (base s') = m_txQueue (base s)
          \<and> outputs (base s') =
                outputs (base s) @ (if m_mcpsDataConfirmCallback_IsNull (base s) then []
                                    else [Out_McpsDataConfirm h st])
          \<and> m_ritMacMode s' = m_ritMacMode s
          \<and> m_macState (base s') = m_macState (base s)
          \<and> m_txPkt (base s') = m_txPkt (base s))"

definition tooLong :: "Lib \<Rightarrow> u8 list \<Rightarrow> bool" where
  "tooLong L p = (unat (aMaxPhyPacketSize L - aMinMPDUOverhead L) < length p)"

definition bothNone :: "McpsDataRequestParams \<Rightarrow> bool" where
  "bothNone params = (rq_srcAddrMode params = NO_PANID_ADDR \<and> rq_dstAddrMode params = NO_PANID_ADDR)"

definition knownMode :: "u8 \<Rightarrow> bool" where
  "knownMode m = (m = NO_PANID_ADDR \<or> m = ADDR_MODE_RESERVED \<or> m = SHORT_ADDR \<or> m = EXT_ADDR)"

definition unsupportedOption :: "McpsDataRequestParams \<Rightarrow> bool" where
  "unsupportedOption params =
     (rq_txOptions params AND TX_OPTION_GTS = TX_OPTION_GTS
      \<or> rq_txOptions params AND TX_OPTION_INDIRECT = TX_OPTION_INDIRECT)"

text \<open>
  Parameters with the GTS bit set, and parameters whose source addressing mode is
  \<open>ADDR_MODE_RESERVED\<close>.
\<close>

definition gtsParams :: McpsDataRequestParams where
  "gtsParams = dataParams\<lparr>rq_txOptions := 3\<rparr>"

definition reservedParams :: McpsDataRequestParams where
  "reservedParams = dataParams\<lparr>rq_srcAddrMode := ADDR_MODE_RESERVED\<rparr>"

text \<open>
  The header \<open>SendRequest\<close> puts in front of a packet, and a routing object with empty
  maps and both handles zero.
\<close>

definition nwkHeaderFor :: "RitSimpleRouting \<Rightarrow> Mac16Address \<Rightarrow> RitNwkHeader" where
  "nwkHeaderFor n dst = \<lparr>m_rank = nwk_rank n, m_srcAddr = nwk_shortAddr n, m_dstAddr = dst\<rparr>"

definition refNwk :: RitSimpleRouting where
  "refNwk = \<lparr>nwk_rank = 2, nwk_shortAddr = Mac16 0 1, m_nwkRxCallback_IsNull = True,
             m_handleToPktMap = Map.empty, m_retryCountMap = Map.empty,
             m_msduToNwkHandleMap = Map.empty, m_nwkHandle = 0, m_macHandle = 0,
             nwk_traces = [], nwk_scheduled = []\<rparr>"

section \<open>Shared lemmas\<close>

subsection \<open>Rules that run the model on the examples\<close>

lemmas lib_defs = refLib_def ref_SetRxOnWhenIdle_def ref_SetLrWpanMacState_def ref_CheckQueue_def
  ref_EnqueueTxQElement_def ref_RemoveFirstTxQElement_def refHeader_def

lemmas obj_defs = refMac_def refBase_def default_RitWpanMacModuleConfig_def ClockDriftApplier_ctor_def

lemmas aux_defs = andThen_def callBase_def upd_base_def emit_def orphaned_def
  PlmeSetTRXStateRequest_def mcpsDataConfirm_def mlmeSetConfirm_def confirmFront_def
  ChangeRitMacMode_def ChangeMacState_def IsRitModeEnabled_def
  Schedule_def ScheduleNow_def IsPending_def IsExpired_def Cancel_def
  outcome_of_def Let_def

lemmas time_defs = Seconds_def MilliSeconds_def NanoSeconds_def GetSeconds_def GetMilliSeconds_def
  MilliSeconds_dbl_def trunc_to_int_def Uniform_GetValue_def GetContinuousTxTimeoutTime_def
  GetRitPeriodTime_def GetRitDataWaitDurationTime_def GetRitTxWaitDurationTime_def DurationToTime_def
  ClockDriftApplier_Apply_def ComputeAdjustedSeconds_def ApplyByRatio_def ClockDriftApplier_Initialize_def

lemmas cycle_defs = SetSleep_def EndSenderCycle_def EndReceiverCycle_def SetLrWpanMacState_def
  StartRitDataWaitPeriod_def StartRitTxWaitPeriod_def CheckTxAndStartSender_def
  SenderCycleTimeout_def ReceiverCycleTimeout_def AckWaitTimeout_def StartRitCycle_def
  StopRitCycle_def MlmeSetRequest_def DoInitialize_def

lemmas tx_defs = DoSendRitDataRequest_def DoSendRitData_def DoSendRitBeaconAck_def SendRitData_def
  rewriteHead_def makeTrailer_def LrWpanMacHeader_ctor_def SetSrcAddrFields_def SetDstAddrFields_def
  SetSrcAddrFieldsExt_def SetDstAddrFieldsExt_def
  nextRitInterval_def PeriodicRitDataRequest_def
  NO_PANID_ADDR_def ADDR_MODE_RESERVED_def SHORT_ADDR_def EXT_ADDR_def

lemmas step_defs = mac_step_def runCallback_def slotEvent_def expireSlot_def pendingTimes_def

lemmas eval_defs = step_defs cycle_defs aux_defs lib_defs obj_defs time_defs tx_defs attrs0_def

lemmas rx_defs = McpsDataRequest_def setSrcAddr_def setDstAddr_def setPanIdCompAndAck_def
  enqueueAndMaybeStartSender_def PdDataIndication_def ReceiveCommand_def ReceiveData_def
  acceptFrame_def IsCommand_def IsData_def IsAcknowledgment_def IsMultipurpose_def
  IsBroadcast_def IsMulticast_def Mac16_Broadcast_def TX_OPTION_ACK_def TX_OPTION_GTS_def
  TX_OPTION_INDIRECT_def dataParams_def ritReqFrame_def acceptsRitReq_def

lemmas rx2_defs = receiverMac_def ackDataFrame_def csmaCancels_def dataIndication_def

lemmas cont_defs = contConfig_def contRun_def SetModuleConfig_def PdDataConfirm_def dataSent_def
  pdDataConfirmTail_def ackWaitTime_def

lemmas nwk_defs = SendRequest_def SendRequest3_def newOutputs_def isConfirm_def nwk_trace_def
  AddHeader_def Serialize_def WriteU16_def WriteTo_def Mac16_CopyTo_def refNwk_def nwkHeaderFor_def

subsection \<open>What each operation leaves as it is\<close>

lemma outcome_NextD: "outcome_of r = Next s' \<Longrightarrow> r = Inr s'"
  by (cases r) (simp_all add: outcome_of_def)

lemma ritKept_cycleKept: "ritKept s s' \<Longrightarrow> cycleKept s s'"
  by (simp add: ritKept_def)

lemma ritKept_refl [simp]: "ritKept s s"
  by (simp add: ritKept_def cycleKept_def)

lemma ritKept_trans: "ritKept s s1 \<Longrightarrow> ritKept s1 s2 \<Longrightarrow> ritKept s s2"
  by (simp add: ritKept_def cycleKept_def)

lemma andThenE:
  assumes "andThen m f = Inr y"
  obtains x where "m = Inr x" and "f x = Inr y"
  using assms by (cases m) (auto simp: andThen_def)

lemma callBaseE:
  assumes "callBase f s = Inr s'"
  obtains b where "f (now s) (base s) = Inr b" and "s' = s\<lparr>base := b\<rparr>"
  using assms by (cases "f (now s) (base s)") (auto simp: callBase_def)

lemma ritKept_base [simp]: "ritKept s (s\<lparr>base := b\<rparr>)"
  by (simp add: ritKept_def cycleKept_def)

lemma ritKept_upd_base [simp]: "ritKept s (upd_base f s)"
  by (simp add: ritKept_def cycleKept_def upd_base_def)

lemma ritKept_emit [simp]: "ritKept s (emit x s)"
  by (simp add: emit_def)

lemma ritKept_callBase: "callBase f s = Inr s' \<Longrightarrow> ritKept s s'"
  by (erule callBaseE) simp

lemma ritKept_PlmeReq [simp]: "ritKept s (PlmeSetTRXStateRequest st s)"
  by (simp add: PlmeSetTRXStateRequest_def)

lemma ritKept_confirm [simp]: "ritKept s (mcpsDataConfirm h st s)"
  by (simp add: mcpsDataConfirm_def)

lemma ritKept_confirmFront: "confirmFront st s = Inr s' \<Longrightarrow> ritKept s s'"
  by (auto simp: confirmFront_def split: if_splits list.splits)

lemma ritKept_mode:
  "m_ritMacMode s \<noteq> RIT_MODE_DISABLED \<Longrightarrow> m \<noteq> RIT_MODE_DISABLED \<Longrightarrow> ritKept s (ChangeRitMacMode m s)"
  by (simp add: ritKept_def cycleKept_def ChangeRitMacMode_def)

lemma ritKept_step: "ritKept s s1 \<Longrightarrow> ritKept s1 s2 \<Longrightarrow> ritKept s s2"
  by (rule ritKept_trans)

lemma SetSleep_kept:
  assumes "SetSleep L s = Inr s'" and "m_ritMacMode s \<noteq> RIT_MODE_DISABLED"
  shows "ritKept s s'"
proof -
  let ?s1 = "upd_base (ChangeMacState MAC_IDLE) s"
  have k1: "ritKept s ?s1" by simp
  show ?thesis
  proof (cases "m_rxAlwaysOn ?s1")
    case True
    then have "s' = ?s1" using assms(1) by (simp add: SetSleep_def Let_def split: if_splits)
    then show ?thesis using k1 by simp
  next
    case False
    let ?s3 = "PlmeSetTRXStateRequest IEEE_802_15_4_PHY_FORCE_TRX_OFF (ChangeRitMacMode SLEEP_MODE ?s1)"
    have c: "callBase (base_SetRxOnWhenIdle L False) ?s3 = Inr s'"
      using assms(1) False by (simp add: SetSleep_def Let_def split: if_splits)
    have "m_ritMacMode ?s1 \<noteq> RIT_MODE_DISABLED" using assms(2) by (simp add: upd_base_def)
    then have "ritKept ?s1 (ChangeRitMacMode SLEEP_MODE ?s1)" by (intro ritKept_mode) simp_all
    then have "ritKept s ?s3" using k1 by (simp add: ritKept_def cycleKept_def PlmeSetTRXStateRequest_def emit_def upd_base_def)
    then show ?thesis using ritKept_callBase [OF c] by (rule ritKept_trans)
  qed
qed

lemma EndSenderCycle_kept:
  assumes "EndSenderCycle L s = Inr s'"
  shows "ritKept s s'"
proof -
  have m: "m_ritMacMode s = SENDER_MODE" using assms by (simp add: EndSenderCycle_def split: if_splits)
  let ?s2 = "(if \<not> IsExpired (m_ritTxWaitTimeout s)
                  then s\<lparr>m_ritTxWaitTimeout := Cancel (m_ritTxWaitTimeout s)\<rparr> else s)\<lparr>m_ritSending := False\<rparr>"
  have "SetSleep L ?s2 = Inr s'" using assms by (simp add: EndSenderCycle_def Let_def split: if_splits)
  moreover have "m_ritMacMode ?s2 \<noteq> RIT_MODE_DISABLED" using m by simp
  ultimately have "ritKept ?s2 s'" by (rule SetSleep_kept)
  moreover have "ritKept s ?s2" by (simp add: ritKept_def cycleKept_def)
  ultimately show ?thesis by (metis ritKept_trans)
qed

lemma EndReceiverCycle_kept: "EndReceiverCycle L s = Inr s' \<Longrightarrow> ritKept s s'"
  by (auto simp: EndReceiverCycle_def Let_def ritKept_def cycleKept_def split: if_splits dest!: SetSleep_kept)

lemma SetLrWpanMacState_kept: "SetLrWpanMacState L st s = Inr s' \<Longrightarrow> ritKept s s'"
  by (auto simp: SetLrWpanMacState_def Let_def split: if_splits option.splits CommandFrameType.splits
           elim!: andThenE
           dest!: ritKept_callBase ritKept_confirmFront EndSenderCycle_kept EndReceiverCycle_kept
           simp: ritKept_def cycleKept_def emit_def upd_base_def)

lemma StartRitDataWaitPeriod_kept: "StartRitDataWaitPeriod L s = Inr s' \<Longrightarrow> ritKept s s'"
  by (auto simp: StartRitDataWaitPeriod_def Let_def split: if_splits
           elim!: andThenE
           dest!: ritKept_callBase SetLrWpanMacState_kept
           simp: ritKept_def cycleKept_def emit_def upd_base_def)

lemma StartRitTxWaitPeriod_kept: "StartRitTxWaitPeriod L s = Inr s' \<Longrightarrow> ritKept s s'"
  by (auto simp: StartRitTxWaitPeriod_def Let_def split: if_splits
           elim!: andThenE
           dest!: ritKept_callBase SetLrWpanMacState_kept
           simp: ritKept_def cycleKept_def emit_def upd_base_def)

lemma CheckTxAndStartSender_kept:
  "CheckTxAndStartSender L s = Inr (r, s') \<Longrightarrow> m_ritMacMode s \<noteq> RIT_MODE_DISABLED \<Longrightarrow> ritKept s s'"
  by (auto simp: CheckTxAndStartSender_def Let_def split: if_splits
           elim!: andThenE
           dest!: StartRitTxWaitPeriod_kept
           simp: ritKept_def cycleKept_def ChangeRitMacMode_def)

lemma SenderCycleTimeout_kept: "SenderCycleTimeout L s = Inr s' \<Longrightarrow> ritKept s s'"
  by (auto simp: SenderCycleTimeout_def split: if_splits dest!: EndSenderCycle_kept
           simp: ritKept_def cycleKept_def emit_def upd_base_def)

lemma ReceiverCycleTimeout_kept: "ReceiverCycleTimeout L s = Inr s' \<Longrightarrow> ritKept s s'"
  by (auto simp: ReceiverCycleTimeout_def split: if_splits dest!: EndReceiverCycle_kept
           simp: ritKept_def cycleKept_def emit_def upd_base_def)

lemma AckWaitTimeout_kept: "AckWaitTimeout L s = Inr s' \<Longrightarrow> ritKept s s'"
  by (auto simp: AckWaitTimeout_def split: if_splits elim!: andThenE
           dest!: EndSenderCycle_kept ritKept_callBase
           simp: ritKept_def cycleKept_def)

lemma CheckTx_sleep_kept:
  "CheckTxAndStartSender L s = Inr r \<Longrightarrow> m_ritMacMode s = SLEEP_MODE \<Longrightarrow> ritKept s (snd r)"
  by (cases r) (auto dest: CheckTxAndStartSender_kept)

lemma enqueue_kept: "enqueueAndMaybeStartSender L params p h s = Inr s' \<Longrightarrow> ritKept s s'"
  by (auto simp: enqueueAndMaybeStartSender_def Let_def split: if_splits elim!: andThenE
           dest!: ritKept_callBase CheckTx_sleep_kept simp: ritKept_def cycleKept_def)

lemma McpsDataRequest_kept: "McpsDataRequest L params p s = Inr s' \<Longrightarrow> ritKept s s'"
  by (auto simp: McpsDataRequest_def Let_def split: if_splits sum.splits
           dest!: ritKept_callBase enqueue_kept
           simp: ritKept_def cycleKept_def mcpsDataConfirm_def emit_def upd_base_def)

lemma DoSendRitDataRequest_kept: "DoSendRitDataRequest L s = Inr s' \<Longrightarrow> ritKept s s'"
  by (auto simp: DoSendRitDataRequest_def Let_def split: if_splits
           simp: ritKept_def cycleKept_def PlmeSetTRXStateRequest_def emit_def upd_base_def)

lemma DoSendRitData_kept: "DoSendRitData L s = Inr s' \<Longrightarrow> ritKept s s'"
  by (auto simp: DoSendRitData_def Let_def split: if_splits list.splits
           dest!: ritKept_callBase
           simp: ritKept_def cycleKept_def PlmeSetTRXStateRequest_def emit_def upd_base_def)

lemma DoSendRitBeaconAck_kept: "DoSendRitBeaconAck L s = Inr s' \<Longrightarrow> ritKept s s'"
  by (auto simp: DoSendRitBeaconAck_def Let_def split: if_splits
           simp: ritKept_def cycleKept_def PlmeSetTRXStateRequest_def emit_def upd_base_def)

lemma SendRitData_kept: "SendRitData L s = Inr s' \<Longrightarrow> ritKept s s'"
  by (auto simp: SendRitData_def Let_def split: if_splits
           dest!: DoSendRitData_kept DoSendRitBeaconAck_kept
           simp: ritKept_def cycleKept_def emit_def upd_base_def)

lemma ReceiveCommand_cycle: "ReceiveCommand L lqi p s = Inr s' \<Longrightarrow> cycleKept s s'"
  by (auto simp: ReceiveCommand_def Let_def split: if_splits option.splits CommandFrameType.splits
           simp: cycleKept_def emit_def upd_base_def)

lemma ReceiveCommand_lastRx:
  "ReceiveCommand L lqi p s = Inr s' \<Longrightarrow>
   m_lastRxRitReqFrameSrcAddr s' =
     (if f_cmd p = Some RIT_DATA_REQ \<and> m_ritMacMode s = SENDER_MODE \<and> \<not> m_ritSending s
      then hdrShortSrcAddr (f_hdr p) else m_lastRxRitReqFrameSrcAddr s)"
  by (auto simp: ReceiveCommand_def Let_def split: if_splits option.splits CommandFrameType.splits
           simp: emit_def upd_base_def)

lemma ReceiveData_kept: "ReceiveData L lqi p s = Inr s' \<Longrightarrow> ritKept s s'"
  by (auto simp: ReceiveData_def Let_def split: if_splits
           simp: ritKept_def cycleKept_def emit_def upd_base_def)

lemma ackRequestedData_kept: "ackRequestedData L lqi p s = Inr s' \<Longrightarrow> ritKept s s'"
  by (auto simp: ackRequestedData_def Let_def split: if_splits elim!: andThenE
           dest!: ritKept_callBase
           simp: ritKept_def cycleKept_def emit_def upd_base_def)

lemma ackReceived_kept: "ackReceived L txPkt s = Inr s' \<Longrightarrow> ritKept s s'"
  by (auto simp: ackReceived_def Let_def split: if_splits elim!: andThenE
           dest!: ritKept_callBase ritKept_confirmFront EndSenderCycle_kept
           simp: ritKept_def cycleKept_def emit_def upd_base_def)

lemma PdDataIndication_cycle: "PdDataIndication L n p lqi s = Inr s' \<Longrightarrow> cycleKept s s'"
  by (auto simp: PdDataIndication_def Let_def split: if_splits option.splits elim!: andThenE
           dest!: ritKept_callBase ReceiveCommand_cycle ReceiveData_kept ackRequestedData_kept
                  ackReceived_kept EndReceiverCycle_kept
           simp: ritKept_def cycleKept_def emit_def upd_base_def)

lemma dataSent_kept: "dataSent L txPkt s = Inr s' \<Longrightarrow> ritKept s s'"
  by (auto simp: dataSent_def Let_def pdDataConfirmTail_def split: if_splits elim!: andThenE
           dest!: ritKept_callBase ritKept_confirmFront EndSenderCycle_kept DoSendRitData_kept
           simp: ritKept_def cycleKept_def emit_def upd_base_def)

lemma PdDataConfirm_kept: "PdDataConfirm L st s = Inr s' \<Longrightarrow> ritKept s s'"
  by (auto simp: PdDataConfirm_def Let_def pdDataConfirmTail_def split: if_splits option.splits elim!: andThenE
           dest!: ritKept_callBase dataSent_kept EndReceiverCycle_kept StartRitDataWaitPeriod_kept
           simp: ritKept_def cycleKept_def emit_def upd_base_def)

lemma PlmeSetTRXStateConfirm_kept: "PlmeSetTRXStateConfirm L st s = Inr s' \<Longrightarrow> ritKept s s'"
  by (auto simp: PlmeSetTRXStateConfirm_def Let_def split: if_splits option.splits
           dest!: ritKept_callBase
           simp: ritKept_def cycleKept_def emit_def upd_base_def)

lemma IfsWaitTimeout_kept: "IfsWaitTimeout L t s = Inr s' \<Longrightarrow> ritKept s s'"
proof -
  assume a: "IfsWaitTimeout L t s = Inr s'"
  then obtain s0 where s0: "(if \<not> IsRitModeEnabled s then callBase (base_IfsWaitTimeout L t) s else Inr s) = Inr s0"
    and rest: "(let s1 = emit (Out_MacIfsEndTrace t) s0
          in if m_ritMacMode s1 = SENDER_MODE then
               (if \<not> ((continuousTxEnabled (m_moduleConfig s1) \<or> beaconAckEnabled (m_moduleConfig s1))
                       \<and> 0 < length (m_txQueue (base s1)))
                  then Inl (NS_ASSERT ''(continuousTxEnabled || beaconAckEnabled) && m_txQueue.size() > 0'')
                else DoSendRitData L s1)
             else if m_ritMacMode s1 = SLEEP_MODE then
               andThen (CheckTxAndStartSender L s1) (\<lambda>r. Inr (snd r))
             else callBase (base_IfsWaitTimeout L t) s1) = Inr s'"
    unfolding IfsWaitTimeout_def by (erule andThenE)
  have k0: "ritKept s s0" using s0 by (auto split: if_splits dest!: ritKept_callBase)
  let ?s1 = "emit (Out_MacIfsEndTrace t) s0"
  have k1: "ritKept s0 ?s1" by simp
  have "ritKept ?s1 s'"
    using rest
    by (auto simp: Let_def split: if_splits elim!: andThenE
             dest!: ritKept_callBase DoSendRitData_kept CheckTx_sleep_kept)
  then show ?thesis using k0 k1 by (metis ritKept_trans)
qed

lemma MlmeGetRequest_kept: "MlmeGetRequest L i a s = Inr s' \<Longrightarrow> ritKept s s'"
  by (auto simp: MlmeGetRequest_def Let_def split: if_splits
           dest!: ritKept_callBase
           simp: ritKept_def cycleKept_def emit_def upd_base_def)

lemma ctor_ref: "RitWpanMac_ctor refBase 0 False = Inr refMac"
  by (simp add: RitWpanMac_ctor_def SetDriftRatio_def TimeDriftApplier_ctor_def refMac_def Seconds_def MilliSeconds_def)

section \<open>C1: setting the RIT period\<close>














section \<open>C2: rejected data requests\<close>

lemma confirmsOnly_confirm:
  "confirmsOnly (Inr (mcpsDataConfirm h st (upd_base (\<lambda>b. b\<lparr>m_macDsn := m_macDsn b + 1\<rparr>) s))) s h st"
  by (simp add: confirmsOnly_def mcpsDataConfirm_def emit_def upd_base_def)

lemma setSrcAddr_cases:
  "setSrcAddr params b h =
     (if rq_srcAddrMode params = ADDR_MODE_RESERVED
      then Inl (NS_ABORT_MSG ''Can not set source address type to ADDR_MODE_RESERVED. Aborting.'')
      else if \<not> knownMode (rq_srcAddrMode params) then Inr (Inl MacStatus_INVALID_ADDRESS)
      else setSrcAddr params b h)"
  by (auto simp: setSrcAddr_def knownMode_def NO_PANID_ADDR_def ADDR_MODE_RESERVED_def)

lemma setSrcAddr_known:
  "knownMode (rq_srcAddrMode params) \<Longrightarrow> rq_srcAddrMode params \<noteq> ADDR_MODE_RESERVED \<Longrightarrow>
   \<exists>h'. setSrcAddr params b h = Inr (Inr h')"
  by (auto simp: setSrcAddr_def knownMode_def)

lemma setDstAddr_known:
  "knownMode (rq_dstAddrMode params) \<Longrightarrow> rq_dstAddrMode params \<noteq> ADDR_MODE_RESERVED \<Longrightarrow>
   \<exists>h'. setDstAddr params h = Inr (Inr h')"
  by (auto simp: setDstAddr_def knownMode_def)

lemma setDstAddr_reserved:
  "rq_dstAddrMode params = ADDR_MODE_RESERVED \<Longrightarrow>
   setDstAddr params h = Inl (NS_ABORT_MSG ''Can not set destination address type to ADDR_MODE_RESERVED. Aborting.'')"
  by (simp add: setDstAddr_def NO_PANID_ADDR_def ADDR_MODE_RESERVED_def)

lemma setDstAddr_unknown:
  "\<not> knownMode (rq_dstAddrMode params) \<Longrightarrow> setDstAddr params h = Inr (Inl MacStatus_INVALID_ADDRESS)"
  by (simp add: setDstAddr_def knownMode_def)

text \<open>
  C2, as amended. On a RIT-enabled MAC \<open>McpsDataRequest\<close> makes its checks in this order,
  and the first that applies decides: a packet longer than
  \<open>aMaxPhyPacketSize - aMinMPDUOverhead\<close> is confirmed with \<open>FRAME_TOO_LONG\<close>; both
  addressing modes none, with \<open>INVALID_ADDRESS\<close>; a source mode
  \<open>ADDR_MODE_RESERVED\<close> aborts the program, and a source mode that is none of the four
  known values is confirmed with \<open>INVALID_ADDRESS\<close>; the same for the destination mode;
  the GTS or the INDIRECT option is confirmed with \<open>INVALID_PARAMETER\<close>. Where a status
  is confirmed nothing is queued: the queue, the mode and the MAC state are unchanged and
  the confirm is the only output.
\<close>

theorem C2_data_request_failures:
  assumes en: "IsRitModeEnabled s"
  shows "(tooLong L p \<longrightarrow>
            confirmsOnly (McpsDataRequest L params p s) s (rq_msduHandle params) MacStatus_FRAME_TOO_LONG)
       \<and> (\<not> tooLong L p \<and> bothNone params \<longrightarrow>
            confirmsOnly (McpsDataRequest L params p s) s (rq_msduHandle params) MacStatus_INVALID_ADDRESS)
       \<and> (\<not> tooLong L p \<and> \<not> bothNone params \<and> rq_srcAddrMode params = ADDR_MODE_RESERVED \<longrightarrow>
            McpsDataRequest L params p s
              = Inl (NS_ABORT_MSG ''Can not set source address type to ADDR_MODE_RESERVED. Aborting.''))
       \<and> (\<not> tooLong L p \<and> \<not> bothNone params \<and> \<not> knownMode (rq_srcAddrMode params) \<longrightarrow>
            confirmsOnly (McpsDataRequest L params p s) s (rq_msduHandle params) MacStatus_INVALID_ADDRESS)
       \<and> (\<not> tooLong L p \<and> \<not> bothNone params \<and> knownMode (rq_srcAddrMode params)
           \<and> rq_srcAddrMode params \<noteq> ADDR_MODE_RESERVED \<and> rq_dstAddrMode params = ADDR_MODE_RESERVED \<longrightarrow>
            McpsDataRequest L params p s
              = Inl (NS_ABORT_MSG ''Can not set destination address type to ADDR_MODE_RESERVED. Aborting.''))
       \<and> (\<not> tooLong L p \<and> \<not> bothNone params \<and> knownMode (rq_srcAddrMode params)
           \<and> rq_srcAddrMode params \<noteq> ADDR_MODE_RESERVED \<and> \<not> knownMode (rq_dstAddrMode params) \<longrightarrow>
            confirmsOnly (McpsDataRequest L params p s) s (rq_msduHandle params) MacStatus_INVALID_ADDRESS)
       \<and> (\<not> tooLong L p \<and> \<not> bothNone params \<and> knownMode (rq_srcAddrMode params)
           \<and> rq_srcAddrMode params \<noteq> ADDR_MODE_RESERVED \<and> knownMode (rq_dstAddrMode params)
           \<and> rq_dstAddrMode params \<noteq> ADDR_MODE_RESERVED \<and> unsupportedOption params \<longrightarrow>
            confirmsOnly (McpsDataRequest L params p s) s (rq_msduHandle params) MacStatus_INVALID_PARAMETER)"
proof -
  let ?s1 = "upd_base (\<lambda>b. b\<lparr>m_macDsn := m_macDsn b + 1\<rparr>) s"
  let ?h = "LrWpanMacHeader_ctor L LRWPAN_MAC_DATA (m_macDsn (base s))"
  note c = confirmsOnly_confirm [of "rq_msduHandle params" _ s]
  have 1: "tooLong L p \<Longrightarrow>
      McpsDataRequest L params p s = Inr (mcpsDataConfirm (rq_msduHandle params) MacStatus_FRAME_TOO_LONG ?s1)"
    using en by (simp add: McpsDataRequest_def Let_def tooLong_def)
  have 2: "\<not> tooLong L p \<Longrightarrow> bothNone params \<Longrightarrow>
      McpsDataRequest L params p s = Inr (mcpsDataConfirm (rq_msduHandle params) MacStatus_INVALID_ADDRESS ?s1)"
    using en by (simp add: McpsDataRequest_def Let_def tooLong_def bothNone_def)
  have rest: "\<not> tooLong L p \<Longrightarrow> \<not> bothNone params \<Longrightarrow>
      McpsDataRequest L params p s =
        (case setSrcAddr params (base ?s1) ?h of
                Inl e \<Rightarrow> Inl e
              | Inr (Inl st) \<Rightarrow> Inr (mcpsDataConfirm (rq_msduHandle params) st ?s1)
              | Inr (Inr macHdr1) \<Rightarrow>
                  (case setDstAddr params macHdr1 of
                     Inl e \<Rightarrow> Inl e
                   | Inr (Inl st) \<Rightarrow> Inr (mcpsDataConfirm (rq_msduHandle params) st ?s1)
                   | Inr (Inr macHdr2) \<Rightarrow>
                       (if unsupportedOption params then
                             Inr (mcpsDataConfirm (rq_msduHandle params) MacStatus_INVALID_PARAMETER ?s1)
                           else enqueueAndMaybeStartSender L params p (setPanIdCompAndAck params macHdr2) ?s1)))"
    using en by (auto simp: McpsDataRequest_def Let_def tooLong_def bothNone_def unsupportedOption_def
                      split: sum.splits)
  have 3: "\<not> tooLong L p \<Longrightarrow> \<not> bothNone params \<Longrightarrow> rq_srcAddrMode params = ADDR_MODE_RESERVED \<Longrightarrow>
      McpsDataRequest L params p s
        = Inl (NS_ABORT_MSG ''Can not set source address type to ADDR_MODE_RESERVED. Aborting.'')"
    by (subst rest, assumption, assumption, subst setSrcAddr_cases) simp
  have 4: "\<not> tooLong L p \<Longrightarrow> \<not> bothNone params \<Longrightarrow> \<not> knownMode (rq_srcAddrMode params) \<Longrightarrow>
      McpsDataRequest L params p s = Inr (mcpsDataConfirm (rq_msduHandle params) MacStatus_INVALID_ADDRESS ?s1)"
    by (subst rest, assumption, assumption, subst setSrcAddr_cases) (auto simp: knownMode_def)
  have 5: "McpsDataRequest L params p s
        = Inl (NS_ABORT_MSG ''Can not set destination address type to ADDR_MODE_RESERVED. Aborting.'')"
    if t: "\<not> tooLong L p" "\<not> bothNone params" "knownMode (rq_srcAddrMode params)"
       "rq_srcAddrMode params \<noteq> ADDR_MODE_RESERVED" "rq_dstAddrMode params = ADDR_MODE_RESERVED"
  proof -
    obtain h' where "setSrcAddr params (base ?s1) ?h = Inr (Inr h')"
      using setSrcAddr_known [OF t(3,4)] by blast
    then show ?thesis
      using rest [OF t(1,2)] setDstAddr_reserved [OF t(5)] by simp
  qed
  have 6: "McpsDataRequest L params p s
        = Inr (mcpsDataConfirm (rq_msduHandle params) MacStatus_INVALID_ADDRESS ?s1)"
    if t: "\<not> tooLong L p" "\<not> bothNone params" "knownMode (rq_srcAddrMode params)"
       "rq_srcAddrMode params \<noteq> ADDR_MODE_RESERVED" "\<not> knownMode (rq_dstAddrMode params)"
  proof -
    obtain h' where "setSrcAddr params (base ?s1) ?h = Inr (Inr h')"
      using setSrcAddr_known [OF t(3,4)] by blast
    then show ?thesis
      using rest [OF t(1,2)] setDstAddr_unknown [OF t(5)] by simp
  qed
  have 7: "McpsDataRequest L params p s
        = Inr (mcpsDataConfirm (rq_msduHandle params) MacStatus_INVALID_PARAMETER ?s1)"
    if t: "\<not> tooLong L p" "\<not> bothNone params" "knownMode (rq_srcAddrMode params)"
       "rq_srcAddrMode params \<noteq> ADDR_MODE_RESERVED" "knownMode (rq_dstAddrMode params)"
       "rq_dstAddrMode params \<noteq> ADDR_MODE_RESERVED" "unsupportedOption params"
  proof -
    obtain h' where a: "setSrcAddr params (base ?s1) ?h = Inr (Inr h')"
      using setSrcAddr_known [OF t(3,4)] by blast
    obtain h'' where "setDstAddr params h' = Inr (Inr h'')"
      using setDstAddr_known [OF t(5,6)] by blast
    then show ?thesis
      using rest [OF t(1,2)] a t(7) by simp
  qed
  show ?thesis
    using 1 2 3 4 5 6 7 c by simp
qed

text \<open>
  C2 as stated fails for the reserved mode: the enabled MAC aborts and confirms nothing.
\<close>

theorem C2_counterexample:
  "IsRitModeEnabled refMac
   \<and> rq_srcAddrMode reservedParams = ADDR_MODE_RESERVED
   \<and> McpsDataRequest refLib reservedParams [1, 2, 3] refMac
       = Inl (NS_ABORT_MSG ''Can not set source address type to ADDR_MODE_RESERVED. Aborting.'')"
  by (simp add: reservedParams_def eval_defs rx_defs)

text \<open>
  C2 on a request with the GTS bit: one confirm with \<open>INVALID_PARAMETER\<close> and an empty
  queue.
\<close>

theorem C2_witness:
  "IsRitModeEnabled refMac \<and> \<not> tooLong refLib [1, 2, 3] \<and> \<not> bothNone gtsParams
   \<and> unsupportedOption gtsParams
   \<and> (case McpsDataRequest refLib gtsParams [1, 2, 3] refMac of
        Inr s' \<Rightarrow> m_txQueue (base s') = [] \<and> outputs (base s') = [Out_McpsDataConfirm 5 MacStatus_INVALID_PARAMETER]
      | Inl e \<Rightarrow> False)"
proof -
  have en: "IsRitModeEnabled refMac" by (simp add: eval_defs)
  have h: "\<not> tooLong refLib [1, 2, 3]" "\<not> bothNone gtsParams"
    "knownMode (rq_srcAddrMode gtsParams)" "rq_srcAddrMode gtsParams \<noteq> ADDR_MODE_RESERVED"
    "knownMode (rq_dstAddrMode gtsParams)" "rq_dstAddrMode gtsParams \<noteq> ADDR_MODE_RESERVED"
    "unsupportedOption gtsParams"
    by (simp_all add: tooLong_def bothNone_def knownMode_def unsupportedOption_def gtsParams_def
          eval_defs rx_defs)
  have q: "m_txQueue (base refMac) = []" "outputs (base refMac) = []"
    "\<not> m_mcpsDataConfirmCallback_IsNull (base refMac)" "rq_msduHandle gtsParams = 5"
    by (simp_all add: gtsParams_def eval_defs rx_defs)
  from C2_data_request_failures [OF en, of refLib "[1, 2, 3]" gtsParams] h
  have "confirmsOnly (McpsDataRequest refLib gtsParams [1, 2, 3] refMac) refMac
          (rq_msduHandle gtsParams) MacStatus_INVALID_PARAMETER"
    by blast
  then show ?thesis
    using en h q by (auto simp: confirmsOnly_def split: sum.splits)
qed

section \<open>C3: the periodic event and the mode\<close>

lemma cycleInv_cycleKept: "cycleInv s \<Longrightarrow> cycleKept s s' \<Longrightarrow> cycleInv s'"
  by (auto simp: cycleInv_def cycleKept_def split: option.splits)

lemma cycleInv_kept: "cycleInv s \<Longrightarrow> ritKept s s' \<Longrightarrow> cycleInv s'"
  by (auto simp: ritKept_def intro: cycleInv_cycleKept)

lemma cycleInv_pending: "cycleInv s \<Longrightarrow> IsPending (m_periodicRitDataRequestEvent s) = (m_ritMacMode s \<noteq> RIT_MODE_DISABLED)"
  by (auto simp: cycleInv_def IsPending_def split: option.splits)

lemma CheckTx_result:
  assumes "CheckTxAndStartSender L s = Inr (r, s')"
  shows "m_periodicRitDataRequestEvent s' = m_periodicRitDataRequestEvent s
         \<and> (if r then m_ritMacMode s' \<noteq> RIT_MODE_DISABLED else s' = s)"
  using assms
  by (auto simp: CheckTxAndStartSender_def Let_def split: if_splits
           elim!: andThenE dest!: StartRitTxWaitPeriod_kept
           simp: ritKept_def cycleKept_def ChangeRitMacMode_def)

lemma Periodic_establishes:
  assumes "PeriodicRitDataRequest L g u s = Inr s'"
  shows "cycleInv s'"
proof -
  from assms obtain iv where iv: "nextRitInterval L g u s = Inr iv"
    and rest: "(let s1 = s\<lparr>m_periodicRitDataRequestEvent := Schedule (now s) iv Cb_PeriodicRitDataRequest\<rparr>
          in if m_ritMacMode s1 = SENDER_MODE then Inr s1
             else
               andThen (CheckTxAndStartSender L s1) (\<lambda>r.
                 if fst r then Inr (snd r)
                 else DoSendRitDataRequest L (ChangeRitMacMode RECEIVER_MODE (snd r)))) = Inr s'"
    unfolding PeriodicRitDataRequest_def by (auto split: if_splits elim!: andThenE)
  let ?s1 = "s\<lparr>m_periodicRitDataRequestEvent := Schedule (now s) iv Cb_PeriodicRitDataRequest\<rparr>"
  show ?thesis
  proof (cases "m_ritMacMode s = SENDER_MODE")
    case True
    then have "s' = ?s1" using rest by (simp add: Let_def)
    then show ?thesis using True by (simp add: cycleInv_def Schedule_def)
  next
    case False
    then obtain r where r: "CheckTxAndStartSender L ?s1 = Inr r"
      and fin: "(if fst r then Inr (snd r)
                 else DoSendRitDataRequest L (ChangeRitMacMode RECEIVER_MODE (snd r))) = Inr s'"
      using rest by (auto simp: Let_def elim!: andThenE)
    have cr: "CheckTxAndStartSender L ?s1 = Inr (fst r, snd r)" using r by simp
    note res = CheckTx_result [OF cr]
    show ?thesis
    proof (cases "fst r")
      case True
      then have "s' = snd r" using fin by simp
      then show ?thesis using res True by (simp add: cycleInv_def Schedule_def)
    next
      case False
      then have eq: "snd r = ?s1" using res by simp
      have d: "DoSendRitDataRequest L (ChangeRitMacMode RECEIVER_MODE ?s1) = Inr s'"
        using fin False eq by simp
      have "cycleInv (ChangeRitMacMode RECEIVER_MODE ?s1)"
        by (simp add: cycleInv_def ChangeRitMacMode_def Schedule_def)
      then show ?thesis using DoSendRitDataRequest_kept [OF d] by (rule cycleInv_kept)
    qed
  qed
qed

lemma StopRitCycle_establishes: "StopRitCycle L s = Inr s' \<Longrightarrow> cycleInv s'"
  by (auto simp: StopRitCycle_def Let_def split: if_splits dest!: SetLrWpanMacState_kept
           simp: cycleInv_def ritKept_def cycleKept_def ChangeRitMacMode_def Cancel_def)

lemma StartRitCycle_inv:
  "StartRitCycle L u s = Inr s' \<Longrightarrow> cycleInv s \<Longrightarrow> m_ritMacMode s = RIT_MODE_DISABLED \<Longrightarrow> cycleInv s'"
  by (auto simp: StartRitCycle_def Let_def split: if_splits elim!: andThenE callBaseE
           simp: cycleInv_def ChangeRitMacMode_def Schedule_def)

lemma mlmeSetConfirm_kept [simp]: "ritKept s (mlmeSetConfirm st i s)"
  by (simp add: mlmeSetConfirm_def)

lemma cycleInv_cong:
  "m_periodicRitDataRequestEvent s' = m_periodicRitDataRequestEvent s \<Longrightarrow>
   m_ritMacMode s' = m_ritMacMode s \<Longrightarrow> cycleInv s' = cycleInv s"
  by (simp add: cycleInv_def)

lemma cycleInv_mlmeSetConfirm [simp]: "cycleInv (mlmeSetConfirm st i s) = cycleInv s"
  by (rule cycleInv_cong) (simp_all add: mlmeSetConfirm_def emit_def upd_base_def)

lemma periodBranch_inv:
  assumes "(if z then StopRitCycle L s1
            else if m_ritMacMode s1 = RIT_MODE_DISABLED then StartRitCycle L u s1
            else Inr s1) = Inr s2"
    and "cycleInv s1"
  shows "cycleInv s2"
  using assms
  by (auto split: if_splits dest: StopRitCycle_establishes StartRitCycle_inv)

lemma MlmeSetRequest_inv:
  assumes "MlmeSetRequest L u i a s = Inr s'" and "cycleInv s"
  shows "cycleInv s'"
proof (cases "0xF0 \<le> pibValue L i")
  case False
  then have "callBase (base_MlmeSetRequest L i a) s = Inr s'"
    using assms(1) by (simp add: MlmeSetRequest_def)
  then show ?thesis using assms(2) by (blast intro: cycleInv_kept ritKept_callBase)
next
  case True
  note rng = this
  consider (p) "i = macRitPeriod" | (pt) "i = macRitPeriodTime"
    | (o) "i \<noteq> macRitPeriod" "i \<noteq> macRitPeriodTime" by blast
  then show ?thesis
  proof cases
    case p
    let ?s1 = "s\<lparr>m_macRitPeriod := attr_macRitPeriod a\<rparr>"
    have i1: "cycleInv ?s1" using assms(2) by (auto simp: cycleInv_def)
    from assms(1) p rng obtain s2 where
      b: "(if attr_macRitPeriod a = 0 then StopRitCycle L ?s1
           else if m_ritMacMode ?s1 = RIT_MODE_DISABLED then StartRitCycle L u ?s1
           else Inr ?s1) = Inr s2"
      and e: "s' = mlmeSetConfirm MacStatus_SUCCESS i s2"
      by (auto simp: MlmeSetRequest_def Let_def elim!: andThenE)
    have "cycleInv s2" using b i1 by (rule periodBranch_inv)
    then show ?thesis using e by simp
  next
    case pt
    let ?s1 = "s\<lparr>m_macRitPeriodTime := attr_macRitPeriodTime a\<rparr>"
    have i1: "cycleInv ?s1" using assms(2) by (auto simp: cycleInv_def)
    from assms(1) pt rng obtain s2 where
      b: "(if attr_macRitPeriodTime a = 0 then StopRitCycle L ?s1
           else if m_ritMacMode ?s1 = RIT_MODE_DISABLED then StartRitCycle L u ?s1
           else Inr ?s1) = Inr s2"
      and e: "s' = mlmeSetConfirm MacStatus_SUCCESS i s2"
      by (auto simp: MlmeSetRequest_def Let_def elim!: andThenE)
    have "cycleInv s2" using b i1 by (rule periodBranch_inv)
    then show ?thesis using e by simp
  next
    case o
    then show ?thesis
      using assms rng
      by (auto simp: MlmeSetRequest_def Let_def cycleInv_def mlmeSetConfirm_def emit_def upd_base_def
          split: if_splits)
  qed
qed

lemma runCallback_inv:
  assumes "runCallback L g u cb s = Inr s'" and "cycleInv s"
  shows "cycleInv s'"
proof (cases cb)
  case Cb_PeriodicRitDataRequest
  then show ?thesis using assms by (auto simp: runCallback_def dest: Periodic_establishes)
next
  case Cb_ReceiverCycleTimeout
  then show ?thesis using assms
    by (auto simp: runCallback_def dest!: ReceiverCycleTimeout_kept intro: cycleInv_kept)
next
  case Cb_SenderCycleTimeout
  then show ?thesis using assms
    by (auto simp: runCallback_def dest!: SenderCycleTimeout_kept intro: cycleInv_kept)
next
  case Cb_AckWaitTimeout
  then show ?thesis using assms
    by (auto simp: runCallback_def dest!: AckWaitTimeout_kept intro: cycleInv_kept)
next
  case (Cb_IfsWaitTimeout t)
  then show ?thesis using assms
    by (auto simp: runCallback_def dest!: IfsWaitTimeout_kept intro: cycleInv_kept)
next
  case (Cb_SetLrWpanMacState st)
  then show ?thesis using assms
    by (auto simp: runCallback_def dest!: SetLrWpanMacState_kept intro: cycleInv_kept)
next
  case (Cb_SendAck n)
  then show ?thesis using assms
    by (auto simp: runCallback_def dest!: ritKept_callBase intro: cycleInv_kept)
qed

lemma fire_inv:
  assumes "slotEvent t s = Some ev"
    and "runCallback L g u (ev_call ev) ((expireSlot t s)\<lparr>now := ev_time ev\<rparr>) = Inr s'"
    and "cycleInv s"
  shows "cycleInv s'"
proof (cases "t = T_periodicRitDataRequestEvent")
  case True
  then have "ev_call ev = Cb_PeriodicRitDataRequest"
    using assms(1,3) by (simp add: slotEvent_def cycleInv_def)
  then show ?thesis using assms(2) by (auto simp: runCallback_def dest: Periodic_establishes)
next
  case False
  then have "cycleInv ((expireSlot t s)\<lparr>now := ev_time ev\<rparr>)"
    using assms(3) by (cases t) (auto simp: expireSlot_def upd_base_def cycleInv_def)
  then show ?thesis using assms(2) by (blast intro: runCallback_inv)
qed

lemma DoInitialize_inv:
  "DoInitialize L u s = Inr s' \<Longrightarrow> m_ritMacMode s \<noteq> RIT_MODE_DISABLED \<Longrightarrow> cycleInv s \<Longrightarrow> cycleInv s'"
  by (auto simp: DoInitialize_def Let_def cycleInv_def ChangeRitMacMode_def elim!: callBaseE
           split: option.splits if_splits)

lemma setters_inv:
  "cycleInv (SetModuleConfig c s) = cycleInv s"
  "cycleInv (SetRxAlwaysOn b s) = cycleInv s"
  "cycleInv (SetMlmeRitRequestIndicationCallback b s) = cycleInv s"
  by (auto simp: cycleInv_def SetModuleConfig_def SetRxAlwaysOn_def
        SetMlmeRitRequestIndicationCallback_def)

lemma mac_step_inv:
  assumes "mac_step L i s = Next s'" and "cycleInv s"
    and "case i of In_DoInitialize u \<Rightarrow> m_ritMacMode s \<noteq> RIT_MODE_DISABLED | _ \<Rightarrow> True"
  shows "cycleInv s'"
proof (cases i)
  case (In_McpsDataRequest params p)
  then have "McpsDataRequest L params p s = Inr s'"
    using assms(1) by (simp add: mac_step_def outcome_NextD)
  then show ?thesis using assms(2) by (blast intro: cycleInv_kept McpsDataRequest_kept)
next
  case (In_PdDataIndication n p lqi)
  then have "PdDataIndication L n p lqi s = Inr s'"
    using assms(1) by (simp add: mac_step_def outcome_NextD)
  then show ?thesis using assms(2) by (blast intro: cycleInv_cycleKept PdDataIndication_cycle)
next
  case (In_PdDataConfirm st)
  then have "PdDataConfirm L st s = Inr s'"
    using assms(1) by (simp add: mac_step_def outcome_NextD)
  then show ?thesis using assms(2) by (blast intro: cycleInv_kept PdDataConfirm_kept)
next
  case (In_PlmeSetTRXStateConfirm st)
  then have "PlmeSetTRXStateConfirm L st s = Inr s'"
    using assms(1) by (simp add: mac_step_def outcome_NextD)
  then show ?thesis using assms(2) by (blast intro: cycleInv_kept PlmeSetTRXStateConfirm_kept)
next
  case (In_MlmeSetRequest u ident a)
  then have "MlmeSetRequest L u ident a s = Inr s'"
    using assms(1) by (simp add: mac_step_def outcome_NextD)
  then show ?thesis using assms(2) by (rule MlmeSetRequest_inv)
next
  case (In_MlmeGetRequest ident a)
  then have "MlmeGetRequest L ident a s = Inr s'"
    using assms(1) by (simp add: mac_step_def outcome_NextD)
  then show ?thesis using assms(2) by (blast intro: cycleInv_kept MlmeGetRequest_kept)
next
  case (In_SetLrWpanMacState st)
  then have "SetLrWpanMacState L st s = Inr s'"
    using assms(1) by (simp add: mac_step_def outcome_NextD)
  then show ?thesis using assms(2) by (blast intro: cycleInv_kept SetLrWpanMacState_kept)
next
  case In_SendRitData
  then have "SendRitData L s = Inr s'"
    using assms(1) by (simp add: mac_step_def outcome_NextD)
  then show ?thesis using assms(2) by (blast intro: cycleInv_kept SendRitData_kept)
next
  case (In_SetModuleConfig c)
  then show ?thesis using assms(1,2) by (auto simp: mac_step_def setters_inv)
next
  case (In_SetRxAlwaysOn b)
  then show ?thesis using assms(1,2) by (auto simp: mac_step_def setters_inv)
next
  case (In_SetMlmeRitRequestIndicationCallback b)
  then show ?thesis using assms(1,2) by (auto simp: mac_step_def setters_inv)
next
  case (In_DoInitialize u)
  then have "DoInitialize L u s = Inr s'" and "m_ritMacMode s \<noteq> RIT_MODE_DISABLED"
    using assms(1,3) by (simp_all add: mac_step_def outcome_NextD)
  then show ?thesis using assms(2) by (blast intro: DoInitialize_inv)
next
  case (In_Fire t g u)
  then obtain ev where ev: "slotEvent t s = Some ev"
    and run: "runCallback L g u (ev_call ev) ((expireSlot t s)\<lparr>now := ev_time ev\<rparr>) = Inr s'"
    using assms(1)
    by (auto simp: mac_step_def split: option.splits if_splits dest: outcome_NextD)
  then show ?thesis using assms(2) by (rule fire_inv)
next
  case (In_Elapse t)
  then have "s' = s\<lparr>now := t\<rparr>"
    using assms(1) by (auto simp: mac_step_def split: if_splits)
  then show ?thesis using assms(2) by (auto simp: cycleInv_def)
qed

lemma mac_run_inv:
  "mac_run L is s = Next s' \<Longrightarrow> initWhenStarted L is s \<Longrightarrow> cycleInv s \<Longrightarrow> cycleInv s'"
proof (induction "is" arbitrary: s)
  case Nil
  then show ?case by simp
next
  case (Cons i rest)
  from Cons.prems(1) obtain s1 where s1: "mac_step L i s = Next s1" and r: "mac_run L rest s1 = Next s'"
    by (auto split: outcome.splits)
  have g: "case i of In_DoInitialize u \<Rightarrow> m_ritMacMode s \<noteq> RIT_MODE_DISABLED | _ \<Rightarrow> True"
    using Cons.prems(2) by simp
  have "cycleInv s1" using s1 Cons.prems(3) g by (rule mac_step_inv)
  moreover have "initWhenStarted L rest s1" using Cons.prems(2) s1 by simp
  ultimately show ?case using Cons.IH r by blast
qed

lemma ctor_inv: "RitWpanMac_ctor b t0 c = Inr s \<Longrightarrow> cycleInv s"
  by (auto simp: RitWpanMac_ctor_def cycleInv_def split: sum.splits)

text \<open>
  C3, as amended. Take a MAC made by the constructor and any sequence of calls, callbacks
  and timer firings that the MAC completes, in which \<open>DoInitialize\<close> is applied only
  when the mode is not \<open>RIT_MODE_DISABLED\<close>. In the state after the sequence (a point
  between two event executions) the periodic RIT data request event is pending if and only
  if the mode is not \<open>RIT_MODE_DISABLED\<close>.
\<close>

theorem C3_cycle_invariant:
  assumes "RitWpanMac_ctor b t0 c = Inr s0"
    and "initWhenStarted L is s0"
    and "mac_run L is s0 = Next s"
  shows "IsPending (m_periodicRitDataRequestEvent s) = (m_ritMacMode s \<noteq> RIT_MODE_DISABLED)"
proof -
  have "cycleInv s0" using assms(1) by (rule ctor_inv)
  with assms(3,2) have "cycleInv s" by (rule mac_run_inv)
  then show ?thesis by (rule cycleInv_pending)
qed

text \<open>
  C3 as stated fails on a fresh MAC. Its period is 5 s, so it is enabled; \<open>DoInitialize\<close>
  puts it in \<open>SLEEP_MODE\<close> and schedules nothing: the mode is not disabled and no
  periodic event is pending.
\<close>

theorem C3_counterexample:
  "(case mac_run refLib [In_DoInitialize 0] refMac of
      Next s \<Rightarrow> IsRitModeEnabled s \<and> m_ritMacMode s = SLEEP_MODE
                \<and> \<not> IsPending (m_periodicRitDataRequestEvent s)
    | _ \<Rightarrow> False)"
  by (simp add: step_defs cycle_defs aux_defs lib_defs obj_defs time_defs)

lemma installRun_result:
  "\<exists>s. mac_run refLib (take 4 installRun) refMac = Next s \<and> m_ritMacMode s = RECEIVER_MODE"
  by (simp add: installRun_def eval_defs)

lemma installRun_init: "initWhenStarted refLib (take 4 installRun) refMac"
  by (simp add: installRun_def eval_defs)

lemma installRun_stopped:
  "\<exists>s. mac_run refLib installRun refMac = Next s \<and> m_ritMacMode s = RIT_MODE_DISABLED"
  by (simp add: installRun_def eval_defs PdDataConfirm_def pdDataConfirmTail_def IsCommand_def
        IsAcknowledgment_def)

lemma installRun_init_all: "initWhenStarted refLib installRun refMac"
  by (simp add: installRun_def eval_defs PdDataConfirm_def pdDataConfirmTail_def IsCommand_def
        IsAcknowledgment_def)

text \<open>
  The invariant of C3 on the run of an installed device: the period is set to zero and
  then to 1 s, the MAC is initialized, the periodic event fires and the RIT Data Request
  is sent (the MAC is a receiver and the next periodic event is pending); then the period
  is set to zero again (the mode is disabled and no periodic event is pending).
\<close>

theorem C3_witness:
  "RitWpanMac_ctor refBase 0 False = Inr refMac
   \<and> initWhenStarted refLib (take 4 installRun) refMac \<and> initWhenStarted refLib installRun refMac
   \<and> (case mac_run refLib (take 4 installRun) refMac of
        Next s \<Rightarrow> m_ritMacMode s = RECEIVER_MODE \<and> IsPending (m_periodicRitDataRequestEvent s)
      | _ \<Rightarrow> False)
   \<and> (case mac_run refLib installRun refMac of
        Next s \<Rightarrow> m_ritMacMode s = RIT_MODE_DISABLED \<and> \<not> IsPending (m_periodicRitDataRequestEvent s)
      | _ \<Rightarrow> False)"
proof -
  obtain s where r: "mac_run refLib (take 4 installRun) refMac = Next s"
    and m: "m_ritMacMode s = RECEIVER_MODE"
    using installRun_result by blast
  obtain t where rt: "mac_run refLib installRun refMac = Next t"
    and mt: "m_ritMacMode t = RIT_MODE_DISABLED"
    using installRun_stopped by blast
  from C3_cycle_invariant [OF ctor_ref installRun_init r] m
    C3_cycle_invariant [OF ctor_ref installRun_init_all rt] mt
  show ?thesis using ctor_ref installRun_init installRun_init_all r rt by simp
qed

section \<open>C4: the destination of the data frame\<close>

lemma ritKept_lastRx: "ritKept s s' \<Longrightarrow> m_lastRxRitReqFrameSrcAddr s' = m_lastRxRitReqFrameSrcAddr s"
  by (simp add: ritKept_def)

lemma PdDataIndication_lastRx:
  assumes "PdDataIndication L n p lqi s = Inr s'"
  shows "m_lastRxRitReqFrameSrcAddr s' =
           (case acceptsRitReq L (In_PdDataIndication n p lqi) s of
              Some x \<Rightarrow> x | None \<Rightarrow> m_lastRxRitReqFrameSrcAddr s)"
  using assms
  by (auto simp: PdDataIndication_def acceptsRitReq_def Let_def IsCommand_def IsData_def
                 IsMultipurpose_def IsAcknowledgment_def
           split: if_splits option.splits elim!: andThenE
           dest!: ritKept_callBase ReceiveCommand_lastRx ReceiveData_kept ackRequestedData_kept
                  ackReceived_kept EndReceiverCycle_kept
           simp: ritKept_def emit_def upd_base_def)

lemma StopRitCycle_lastRx: "StopRitCycle L s = Inr s' \<Longrightarrow> m_lastRxRitReqFrameSrcAddr s' = m_lastRxRitReqFrameSrcAddr s"
  by (auto simp: StopRitCycle_def Let_def split: if_splits dest!: SetLrWpanMacState_kept
           simp: ritKept_def ChangeRitMacMode_def)

lemma StartRitCycle_lastRx: "StartRitCycle L u s = Inr s' \<Longrightarrow> m_lastRxRitReqFrameSrcAddr s' = m_lastRxRitReqFrameSrcAddr s"
  by (auto simp: StartRitCycle_def Let_def split: if_splits elim!: andThenE callBaseE
           simp: ChangeRitMacMode_def)

lemma MlmeSetRequest_lastRx:
  "MlmeSetRequest L u i a s = Inr s' \<Longrightarrow> m_lastRxRitReqFrameSrcAddr s' = m_lastRxRitReqFrameSrcAddr s"
  by (auto simp: MlmeSetRequest_def Let_def mlmeSetConfirm_def emit_def upd_base_def
           split: if_splits elim!: andThenE callBaseE
           dest!: StopRitCycle_lastRx StartRitCycle_lastRx)

lemma DoInitialize_lastRx:
  "DoInitialize L u s = Inr s' \<Longrightarrow> m_lastRxRitReqFrameSrcAddr s' = m_lastRxRitReqFrameSrcAddr s"
  by (auto simp: DoInitialize_def Let_def ChangeRitMacMode_def elim!: callBaseE)

lemma Periodic_lastRx:
  assumes "PeriodicRitDataRequest L g u s = Inr s'"
  shows "m_lastRxRitReqFrameSrcAddr s' = m_lastRxRitReqFrameSrcAddr s"
proof -
  from assms obtain iv where
    rest: "(let s1 = s\<lparr>m_periodicRitDataRequestEvent := Schedule (now s) iv Cb_PeriodicRitDataRequest\<rparr>
          in if m_ritMacMode s1 = SENDER_MODE then Inr s1
             else
               andThen (CheckTxAndStartSender L s1) (\<lambda>r.
                 if fst r then Inr (snd r)
                 else DoSendRitDataRequest L (ChangeRitMacMode RECEIVER_MODE (snd r)))) = Inr s'"
    unfolding PeriodicRitDataRequest_def by (auto split: if_splits elim!: andThenE)
  let ?s1 = "s\<lparr>m_periodicRitDataRequestEvent := Schedule (now s) iv Cb_PeriodicRitDataRequest\<rparr>"
  show ?thesis
  proof (cases "m_ritMacMode s = SENDER_MODE")
    case True
    then show ?thesis using rest by (auto simp: Let_def)
  next
    case False
    then obtain r where r: "CheckTxAndStartSender L ?s1 = Inr r"
      and fin: "(if fst r then Inr (snd r)
                 else DoSendRitDataRequest L (ChangeRitMacMode RECEIVER_MODE (snd r))) = Inr s'"
      using rest by (auto simp: Let_def elim!: andThenE)
    have k: "m_lastRxRitReqFrameSrcAddr (snd r) = m_lastRxRitReqFrameSrcAddr s"
      using r
      by (auto simp: CheckTxAndStartSender_def Let_def ChangeRitMacMode_def ritKept_def
               split: if_splits elim!: andThenE dest!: StartRitTxWaitPeriod_kept)
    show ?thesis
    proof (cases "fst r")
      case True
      then show ?thesis using fin k by simp
    next
      case False
      then have "DoSendRitDataRequest L (ChangeRitMacMode RECEIVER_MODE (snd r)) = Inr s'"
        using fin by simp
      from DoSendRitDataRequest_kept [OF this] show ?thesis
        using k by (simp add: ritKept_def ChangeRitMacMode_def)
    qed
  qed
qed

lemma runCallback_lastRx:
  assumes "runCallback L g u cb s = Inr s'"
  shows "m_lastRxRitReqFrameSrcAddr s' = m_lastRxRitReqFrameSrcAddr s"
proof (cases cb)
  case Cb_PeriodicRitDataRequest
  then show ?thesis using assms by (auto simp: runCallback_def dest: Periodic_lastRx)
next
  case Cb_ReceiverCycleTimeout
  then show ?thesis using assms
    by (auto simp: runCallback_def dest!: ReceiverCycleTimeout_kept ritKept_lastRx)
next
  case Cb_SenderCycleTimeout
  then show ?thesis using assms
    by (auto simp: runCallback_def dest!: SenderCycleTimeout_kept ritKept_lastRx)
next
  case Cb_AckWaitTimeout
  then show ?thesis using assms
    by (auto simp: runCallback_def dest!: AckWaitTimeout_kept ritKept_lastRx)
next
  case (Cb_IfsWaitTimeout t)
  then show ?thesis using assms
    by (auto simp: runCallback_def dest!: IfsWaitTimeout_kept ritKept_lastRx)
next
  case (Cb_SetLrWpanMacState st)
  then show ?thesis using assms
    by (auto simp: runCallback_def dest!: SetLrWpanMacState_kept ritKept_lastRx)
next
  case (Cb_SendAck n)
  then show ?thesis using assms
    by (auto simp: runCallback_def dest!: ritKept_callBase ritKept_lastRx)
qed

lemma expireSlot_lastRx [simp]: "m_lastRxRitReqFrameSrcAddr (expireSlot t s) = m_lastRxRitReqFrameSrcAddr s"
  by (cases t) (simp_all add: expireSlot_def upd_base_def)

lemma mac_step_lastRx:
  assumes "mac_step L i s = Next s'"
  shows "m_lastRxRitReqFrameSrcAddr s' =
           (case acceptsRitReq L i s of Some x \<Rightarrow> x | None \<Rightarrow> m_lastRxRitReqFrameSrcAddr s)"
proof (cases i)
  case (In_McpsDataRequest params p)
  then have "McpsDataRequest L params p s = Inr s'"
    using assms(1) by (simp add: mac_step_def outcome_NextD)
  then show ?thesis using In_McpsDataRequest
    by (auto simp: acceptsRitReq_def dest!: McpsDataRequest_kept ritKept_lastRx)
next
  case (In_PdDataIndication n p lqi)
  then have "PdDataIndication L n p lqi s = Inr s'"
    using assms(1) by (simp add: mac_step_def outcome_NextD)
  then show ?thesis using In_PdDataIndication by (simp add: PdDataIndication_lastRx)
next
  case (In_PdDataConfirm st)
  then have "PdDataConfirm L st s = Inr s'"
    using assms(1) by (simp add: mac_step_def outcome_NextD)
  then show ?thesis using In_PdDataConfirm
    by (auto simp: acceptsRitReq_def dest!: PdDataConfirm_kept ritKept_lastRx)
next
  case (In_PlmeSetTRXStateConfirm st)
  then have "PlmeSetTRXStateConfirm L st s = Inr s'"
    using assms(1) by (simp add: mac_step_def outcome_NextD)
  then show ?thesis using In_PlmeSetTRXStateConfirm
    by (auto simp: acceptsRitReq_def dest!: PlmeSetTRXStateConfirm_kept ritKept_lastRx)
next
  case (In_MlmeSetRequest u ident a)
  then have "MlmeSetRequest L u ident a s = Inr s'"
    using assms(1) by (simp add: mac_step_def outcome_NextD)
  then show ?thesis using In_MlmeSetRequest
    by (auto simp: acceptsRitReq_def dest!: MlmeSetRequest_lastRx)
next
  case (In_MlmeGetRequest ident a)
  then have "MlmeGetRequest L ident a s = Inr s'"
    using assms(1) by (simp add: mac_step_def outcome_NextD)
  then show ?thesis using In_MlmeGetRequest
    by (auto simp: acceptsRitReq_def dest!: MlmeGetRequest_kept ritKept_lastRx)
next
  case (In_SetLrWpanMacState st)
  then have "SetLrWpanMacState L st s = Inr s'"
    using assms(1) by (simp add: mac_step_def outcome_NextD)
  then show ?thesis using In_SetLrWpanMacState
    by (auto simp: acceptsRitReq_def dest!: SetLrWpanMacState_kept ritKept_lastRx)
next
  case In_SendRitData
  then have "SendRitData L s = Inr s'"
    using assms(1) by (simp add: mac_step_def outcome_NextD)
  then show ?thesis using In_SendRitData
    by (auto simp: acceptsRitReq_def dest!: SendRitData_kept ritKept_lastRx)
next
  case (In_SetModuleConfig c)
  then show ?thesis using assms(1) by (auto simp: mac_step_def acceptsRitReq_def SetModuleConfig_def)
next
  case (In_SetRxAlwaysOn b)
  then show ?thesis using assms(1) by (auto simp: mac_step_def acceptsRitReq_def SetRxAlwaysOn_def)
next
  case (In_SetMlmeRitRequestIndicationCallback b)
  then show ?thesis using assms(1)
    by (auto simp: mac_step_def acceptsRitReq_def SetMlmeRitRequestIndicationCallback_def)
next
  case (In_DoInitialize u)
  then have "DoInitialize L u s = Inr s'"
    using assms(1) by (simp_all add: mac_step_def outcome_NextD)
  then show ?thesis using In_DoInitialize by (auto simp: acceptsRitReq_def dest!: DoInitialize_lastRx)
next
  case (In_Fire t g u)
  then obtain ev where ev: "slotEvent t s = Some ev"
    and run: "runCallback L g u (ev_call ev) ((expireSlot t s)\<lparr>now := ev_time ev\<rparr>) = Inr s'"
    using assms(1)
    by (auto simp: mac_step_def split: option.splits if_splits dest: outcome_NextD)
  from runCallback_lastRx [OF run] show ?thesis using In_Fire by (simp add: acceptsRitReq_def)
next
  case (In_Elapse t)
  then have "s' = s\<lparr>now := t\<rparr>"
    using assms(1) by (auto simp: mac_step_def split: if_splits)
  then show ?thesis using In_Elapse by (simp add: acceptsRitReq_def)
qed

lemma mac_run_lastRx:
  "mac_run L is s = Next s' \<Longrightarrow>
   m_lastRxRitReqFrameSrcAddr s' = lastReq L is s (m_lastRxRitReqFrameSrcAddr s)"
proof (induction "is" arbitrary: s)
  case Nil
  then show ?case by simp
next
  case (Cons i rest)
  from Cons.prems obtain s1 where s1: "mac_step L i s = Next s1" and r: "mac_run L rest s1 = Next s'"
    by (auto split: outcome.splits)
  from Cons.IH [OF r] mac_step_lastRx [OF s1] s1 show ?case by simp
qed

lemma DoSendRitData_rewrites:
  assumes "DoSendRitData L s = Inr s'"
  shows "\<exists>e rest.
           m_txQueue (base s) = e # rest
           \<and> hdrShortDstAddr (f_hdr (txQPkt (rewriteHead (m_macPanId (base s)) (m_lastRxRitReqFrameSrcAddr s) e)))
               = m_lastRxRitReqFrameSrcAddr s
           \<and> hdrDstAddrMode (f_hdr (txQPkt (rewriteHead (m_macPanId (base s)) (m_lastRxRitReqFrameSrcAddr s) e)))
               = SHORT_ADDR
           \<and> f_data (txQPkt (rewriteHead (m_macPanId (base s)) (m_lastRxRitReqFrameSrcAddr s) e))
               = f_data (txQPkt e)
           \<and> (if anyDataChannelAccess (m_moduleConfig s)
               then callBase (base_CheckQueue L)
                      (upd_base (\<lambda>b. b\<lparr>m_txQueue :=
                          rewriteHead (m_macPanId (base s)) (m_lastRxRitReqFrameSrcAddr s) e # rest\<rparr>) s) = Inr s'
               else m_txQueue (base s')
                      = rewriteHead (m_macPanId (base s)) (m_lastRxRitReqFrameSrcAddr s) e # rest
                    \<and> m_txPkt (base s')
                        = Some (txQPkt (rewriteHead (m_macPanId (base s)) (m_lastRxRitReqFrameSrcAddr s) e))
                    \<and> m_macState (base s') = MAC_SENDING)"
  using assms
  by (auto simp: DoSendRitData_def Let_def anyDataChannelAccess_def rewriteHead_def SetDstAddrFields_def
                 PlmeSetTRXStateRequest_def emit_def upd_base_def ChangeMacState_def
           split: if_splits list.splits)

text \<open>
  C4. After any run, a call of \<open>DoSendRitData\<close> that returns was made in sender mode on a
  non-empty queue, and it replaced the head of the queue by a copy whose destination is
  the short address of the last RIT Data Request the MAC accepted during the run (the
  address held before the run when there was none), whatever destination the head had.
  The payload and the handle are those of the head. Without channel access the rewritten
  frame is \<open>m_txPkt\<close> and the MAC is sending; with it, the base class takes the frame
  from the rewritten queue.
\<close>

theorem C4_dst_rewritten:
  assumes "mac_run L is s0 = Next s" and "DoSendRitData L s = Inr s'"
  shows "\<exists>e rest.
           m_ritMacMode s = SENDER_MODE
           \<and> m_txQueue (base s) = e # rest
           \<and> m_lastRxRitReqFrameSrcAddr s = lastReq L is s0 (m_lastRxRitReqFrameSrcAddr s0)
           \<and> (let a = lastReq L is s0 (m_lastRxRitReqFrameSrcAddr s0);
                   e' = rewriteHead (m_macPanId (base s)) a e
               in hdrShortDstAddr (f_hdr (txQPkt e')) = a
                  \<and> hdrDstAddrMode (f_hdr (txQPkt e')) = SHORT_ADDR
                  \<and> f_data (txQPkt e') = f_data (txQPkt e)
                  \<and> txQMsduHandle e' = txQMsduHandle e
                  \<and> (if anyDataChannelAccess (m_moduleConfig s)
                      then callBase (base_CheckQueue L) (upd_base (\<lambda>b. b\<lparr>m_txQueue := e' # rest\<rparr>) s) = Inr s'
                      else m_txQueue (base s') = e' # rest
                           \<and> m_txPkt (base s') = Some (txQPkt e')
                           \<and> m_macState (base s') = MAC_SENDING))"
proof -
  have a: "m_lastRxRitReqFrameSrcAddr s = lastReq L is s0 (m_lastRxRitReqFrameSrcAddr s0)"
    using assms(1) by (rule mac_run_lastRx)
  have m: "m_ritMacMode s = SENDER_MODE"
    using assms(2) by (auto simp: DoSendRitData_def split: if_splits)
  from DoSendRitData_rewrites [OF assms(2)] obtain e rest where
    q: "m_txQueue (base s) = e # rest"
    and r: "hdrShortDstAddr (f_hdr (txQPkt (rewriteHead (m_macPanId (base s)) (m_lastRxRitReqFrameSrcAddr s) e)))
               = m_lastRxRitReqFrameSrcAddr s"
           "hdrDstAddrMode (f_hdr (txQPkt (rewriteHead (m_macPanId (base s)) (m_lastRxRitReqFrameSrcAddr s) e)))
               = SHORT_ADDR"
           "f_data (txQPkt (rewriteHead (m_macPanId (base s)) (m_lastRxRitReqFrameSrcAddr s) e))
               = f_data (txQPkt e)"
           "(if anyDataChannelAccess (m_moduleConfig s)
               then callBase (base_CheckQueue L)
                      (upd_base (\<lambda>b. b\<lparr>m_txQueue :=
                          rewriteHead (m_macPanId (base s)) (m_lastRxRitReqFrameSrcAddr s) e # rest\<rparr>) s) = Inr s'
               else m_txQueue (base s')
                      = rewriteHead (m_macPanId (base s)) (m_lastRxRitReqFrameSrcAddr s) e # rest
                    \<and> m_txPkt (base s')
                        = Some (txQPkt (rewriteHead (m_macPanId (base s)) (m_lastRxRitReqFrameSrcAddr s) e))
                    \<and> m_macState (base s') = MAC_SENDING)"
    by blast
  have h: "txQMsduHandle (rewriteHead (m_macPanId (base s)) (m_lastRxRitReqFrameSrcAddr s) e) = txQMsduHandle e"
    by (simp add: rewriteHead_def Let_def)
  show ?thesis
    unfolding Let_def a [symmetric]
    using m q r h a by blast
qed

lemma senderRun_result:
  "\<exists>s s'. mac_run refLib senderRun refMac = Next s \<and> DoSendRitData refLib s = Inr s'
     \<and> map_option (\<lambda>e. hdrShortDstAddr (f_hdr (txQPkt e))) (List.find (\<lambda>e. True) (m_txQueue (base s)))
         = Some (Mac16 0 9)
     \<and> \<not> anyDataChannelAccess (m_moduleConfig s)"
  by (simp add: senderRun_def eval_defs rx_defs anyDataChannelAccess_def)

lemma senderRun_lastReq:
  "lastReq refLib senderRun refMac (m_lastRxRitReqFrameSrcAddr refMac) = Mac16 0 7"
  by (simp add: senderRun_def eval_defs rx_defs)

text \<open>
  C4 on the sender run: the frame was queued for 00:09, the request came from 00:07, and
  the frame sent carries 00:07.
\<close>

theorem C4_witness:
  "lastReq refLib senderRun refMac (m_lastRxRitReqFrameSrcAddr refMac) = Mac16 0 7
   \<and> (case mac_run refLib senderRun refMac of
        Next s \<Rightarrow>
          map_option (\<lambda>e. hdrShortDstAddr (f_hdr (txQPkt e))) (List.find (\<lambda>e. True) (m_txQueue (base s)))
            = Some (Mac16 0 9)
          \<and> (case DoSendRitData refLib s of
               Inr s' \<Rightarrow> map_option (\<lambda>p. hdrShortDstAddr (f_hdr p)) (m_txPkt (base s')) = Some (Mac16 0 7)
                          \<and> m_macState (base s') = MAC_SENDING
             | Inl e \<Rightarrow> False)
      | _ \<Rightarrow> False)"
proof -
  obtain s s' where r: "mac_run refLib senderRun refMac = Next s"
    and d: "DoSendRitData refLib s = Inr s'"
    and q: "map_option (\<lambda>e. hdrShortDstAddr (f_hdr (txQPkt e))) (List.find (\<lambda>e. True) (m_txQueue (base s)))
              = Some (Mac16 0 9)"
    and c: "\<not> anyDataChannelAccess (m_moduleConfig s)"
    using senderRun_result by blast
  from C4_dst_rewritten [OF r d] c senderRun_lastReq
  show ?thesis using r d q by (auto simp: Let_def)
qed

section \<open>C5: data frames that request an acknowledgment\<close>

lemma IsData_not_Command: "IsData h \<Longrightarrow> \<not> IsCommand h"
  by (auto simp: IsData_def IsCommand_def)

lemma ReceiveData_receiver:
  "m_ritMacMode s = RECEIVER_MODE \<Longrightarrow>
   ReceiveData L lqi p s = Inr (upd_base (\<lambda>b. b\<lparr>outputs := outputs b @ dataIndication lqi p s\<rparr>) s)"
  by (simp add: ReceiveData_def dataIndication_def Let_def emit_def upd_base_def)

text \<open>
  C5. A receiver is handed a data frame that passes the FCS check and the filter of
  \<open>PdDataIndication\<close>, with the ACK request bit set. When the base MAC is idle or in
  CSMA the call returns; in \<open>MAC_ACK_PENDING\<close> it returns when \<open>PrepareRetransmission\<close>
  of the base class does. Whenever it returns: the data-wait timeout is scheduled anew at
  \<open>now + GetRitDataWaitDurationTime ()\<close>, the former one cancelled (it is not left
  among the orphaned events); \<open>SendAck\<close> of the received sequence number is scheduled
  for this instant; the mode is still \<open>RECEIVER_MODE\<close>, the base MAC is idle and the
  periodic event is untouched. Outside \<open>MAC_ACK_PENDING\<close> the outputs are the two
  traces, the indication, the three CSMA cancellations when the MAC was in CSMA, and the
  change to \<open>MAC_IDLE\<close>.
\<close>

theorem C5_ack_requested_data:
  assumes en: "IsRitModeEnabled s" and rm: "m_ritMacMode s = RECEIVER_MODE"
    and fcs: "CheckFcs L (if ChecksumEnabled L then (f_trailer p)\<lparr>trFcsEnabled := True\<rparr> else f_trailer p)
                (f_cmd p) (f_data p)"
    and np: "\<not> m_macPromiscuousMode (base s)"
    and acc: "acceptFrame (base s) (f_hdr p)"
    and dat: "IsData (f_hdr p)" and ack: "hdrAckReq (f_hdr p)"
    and wait: "GetRitDataWaitDurationTime L s = Inr d"
  shows "(m_macState (base s) = MAC_IDLE \<or> m_macState (base s) = MAC_CSMA \<longrightarrow>
            (\<exists>s'. PdDataIndication L n p lqi s = Inr s'))
       \<and> (\<forall>s'. PdDataIndication L n p lqi s = Inr s' \<longrightarrow>
             m_ritDataWaitTimeout s' = Some \<lparr>ev_time = now s + d, ev_call = Cb_ReceiverCycleTimeout\<rparr>
             \<and> m_setMacState (base s') = Some \<lparr>ev_time = now s, ev_call = Cb_SendAck (hdrSeqNum (f_hdr p))\<rparr>
             \<and> m_ritMacMode s' = RECEIVER_MODE
             \<and> m_macState (base s') = MAC_IDLE
             \<and> m_rxPkt (base s') = Some (f_data p)
             \<and> m_periodicRitDataRequestEvent s' = m_periodicRitDataRequestEvent s
             \<and> sim_orphans s' = sim_orphans s
             \<and> now s' = now s
             \<and> (m_macState (base s) \<noteq> MAC_ACK_PENDING \<longrightarrow>
                  outputs (base s') =
                    outputs (base s) @ [Out_MacRxTrace p, Out_DataWaitTrace ''end'' (now s)]
                    @ dataIndication lqi p s
                    @ csmaCancels (m_macState (base s))
                    @ [Out_MacStateLog (m_macState (base s)) MAC_IDLE]))"
proof -
  have w: "GetRitDataWaitDurationTime L s1 = Inr d"
    if "m_useTimeBasedRitParams s1 = m_useTimeBasedRitParams s"
       "m_macRitDataWaitDurationTime s1 = m_macRitDataWaitDurationTime s"
       "m_macRitDataWaitDuration s1 = m_macRitDataWaitDuration s" for s1
    using wait that by (auto simp: GetRitDataWaitDurationTime_def DurationToTime_def split: if_splits)
  have nc: "\<not> IsCommand (f_hdr p)" using dat by (rule IsData_not_Command)
  let ?s2 = "upd_base (\<lambda>b. b\<lparr>outputs := outputs b @ dataIndication lqi p s\<rparr>)
               (emit (Out_DataWaitTrace ''end'' (now s)) (emit (Out_MacRxTrace p) s))"
  have red: "PdDataIndication L n p lqi s = ackRequestedData L lqi p ?s2"
    if "m_macState (base s) = MAC_IDLE \<or> m_macState (base s) = MAC_ACK_PENDING
        \<or> m_macState (base s) = MAC_CSMA"
    using en rm fcs np acc dat ack nc that
    by (simp add: PdDataIndication_def Let_def ReceiveData_receiver andThen_def
          IsRitModeEnabled_def emit_def upd_base_def dataIndication_def)
  have tot: "\<exists>s'. PdDataIndication L n p lqi s = Inr s'"
    if i: "m_macState (base s) = MAC_IDLE \<or> m_macState (base s) = MAC_CSMA"
  proof -
    have "\<exists>s'. ackRequestedData L lqi p ?s2 = Inr s'"
      using i by (auto simp: ackRequestedData_def Let_def andThen_def emit_def upd_base_def w)
    then show ?thesis using red i by auto
  qed
  have part: "m_ritDataWaitTimeout s' = Some \<lparr>ev_time = now s + d, ev_call = Cb_ReceiverCycleTimeout\<rparr>
             \<and> m_setMacState (base s') = Some \<lparr>ev_time = now s, ev_call = Cb_SendAck (hdrSeqNum (f_hdr p))\<rparr>
             \<and> m_ritMacMode s' = RECEIVER_MODE
             \<and> m_macState (base s') = MAC_IDLE
             \<and> m_rxPkt (base s') = Some (f_data p)
             \<and> m_periodicRitDataRequestEvent s' = m_periodicRitDataRequestEvent s
             \<and> sim_orphans s' = sim_orphans s
             \<and> now s' = now s
             \<and> (m_macState (base s) \<noteq> MAC_ACK_PENDING \<longrightarrow>
                  outputs (base s') =
                    outputs (base s) @ [Out_MacRxTrace p, Out_DataWaitTrace ''end'' (now s)]
                    @ dataIndication lqi p s
                    @ csmaCancels (m_macState (base s))
                    @ [Out_MacStateLog (m_macState (base s)) MAC_IDLE])"
    if r: "PdDataIndication L n p lqi s = Inr s'" for s'
  proof -
    have st: "m_macState (base s) = MAC_IDLE \<or> m_macState (base s) = MAC_ACK_PENDING
        \<or> m_macState (base s) = MAC_CSMA"
      using r by (auto simp: PdDataIndication_def split: if_splits)
    have a: "ackRequestedData L lqi p ?s2 = Inr s'"
      using red [OF st] r by simp
    show ?thesis
      using a rm
      by (auto simp: ackRequestedData_def Let_def emit_def upd_base_def w
            ChangeMacState_def Cancel_def Schedule_def ScheduleNow_def csmaCancels_def
            callBase_def
          split: if_splits sum.splits elim!: andThenE)
  qed
  show ?thesis using tot part by blast
qed

text \<open>
  C5 on the receiver in CSMA: the timeout that was due at 10002000 ns is replaced by one
  at 3000 ns + 10 ms, the acknowledgment of sequence number 42 is scheduled at 3000 ns,
  and the CSMA is cancelled.
\<close>

theorem C5_witness:
  "IsRitModeEnabled receiverMac \<and> m_ritMacMode receiverMac = RECEIVER_MODE
   \<and> m_macState (base receiverMac) = MAC_CSMA
   \<and> acceptFrame (base receiverMac) (f_hdr ackDataFrame)
   \<and> IsData (f_hdr ackDataFrame) \<and> hdrAckReq (f_hdr ackDataFrame)
   \<and> GetRitDataWaitDurationTime refLib receiverMac = Inr 10000000
   \<and> (case PdDataIndication refLib 13 ackDataFrame 200 receiverMac of
        Inr s' \<Rightarrow>
          m_ritDataWaitTimeout s' = Some \<lparr>ev_time = 3000 + 10000000, ev_call = Cb_ReceiverCycleTimeout\<rparr>
          \<and> m_setMacState (base s') = Some \<lparr>ev_time = 3000, ev_call = Cb_SendAck 42\<rparr>
          \<and> m_ritMacMode s' = RECEIVER_MODE
          \<and> drop 3 (outputs (base s'))
               = [Out_PreCsB_Cancel, Out_PreCs_Cancel, Out_CsmaCa_Cancel, Out_MacStateLog MAC_CSMA MAC_IDLE]
      | Inl e \<Rightarrow> False)"
proof -
  have h: "IsRitModeEnabled receiverMac" "m_ritMacMode receiverMac = RECEIVER_MODE"
    "CheckFcs refLib (if ChecksumEnabled refLib then (f_trailer ackDataFrame)\<lparr>trFcsEnabled := True\<rparr>
                      else f_trailer ackDataFrame) (f_cmd ackDataFrame) (f_data ackDataFrame)"
    "\<not> m_macPromiscuousMode (base receiverMac)"
    "acceptFrame (base receiverMac) (f_hdr ackDataFrame)"
    "IsData (f_hdr ackDataFrame)" "hdrAckReq (f_hdr ackDataFrame)"
    "GetRitDataWaitDurationTime refLib receiverMac = Inr 10000000"
    by (simp_all add: rx2_defs rx_defs eval_defs)
  have c: "m_macState (base receiverMac) = MAC_CSMA" "now receiverMac = 3000"
    "outputs (base receiverMac) = []" "\<not> m_mcpsDataIndicationCallback_IsNull (base receiverMac)"
    by (simp_all add: rx2_defs eval_defs)
  note t = C5_ack_requested_data [OF h, of 13 200]
  from t c(1) obtain s' where r: "PdDataIndication refLib 13 ackDataFrame 200 receiverMac = Inr s'"
    by auto
  from t r have
    "m_ritDataWaitTimeout s' = Some \<lparr>ev_time = now receiverMac + 10000000, ev_call = Cb_ReceiverCycleTimeout\<rparr>"
    "m_setMacState (base s') = Some \<lparr>ev_time = now receiverMac, ev_call = Cb_SendAck (hdrSeqNum (f_hdr ackDataFrame))\<rparr>"
    "m_ritMacMode s' = RECEIVER_MODE"
    "m_macState (base receiverMac) \<noteq> MAC_ACK_PENDING \<longrightarrow>
       outputs (base s') =
                outputs (base receiverMac) @ [Out_MacRxTrace ackDataFrame, Out_DataWaitTrace ''end'' (now receiverMac)]
                @ dataIndication 200 ackDataFrame receiverMac
                @ csmaCancels (m_macState (base receiverMac))
                @ [Out_MacStateLog (m_macState (base receiverMac)) MAC_IDLE]"
    by blast+
  then show ?thesis
    using h c r by (simp add: csmaCancels_def dataIndication_def ackDataFrame_def refHeader_def)
qed

section \<open>C6: continuous transmission\<close>

text \<open>
  C6 does not hold in the code. With continuous transmission on, the run below ends with
  the MAC sending the only queued frame. The PD-DATA.confirm of that transmission confirms
  the frame to the upper layer and calls \<open>DoSendRitData\<close> at once: the state change logged
  is from \<open>MAC_SENDING\<close> to \<open>MAC_SENDING\<close>, the queue still holds the confirmed frame,
  and that frame is in \<open>m_txPkt\<close> again. \<open>DoSendRitDataRequest\<close> and
  \<open>DoSendRitBeaconAck\<close> assert \<open>MAC_IDLE\<close> before they send, and \<open>SendRitData\<close>
  calls \<open>DoSendRitData\<close> only when the MAC is idle.
\<close>

theorem C6_continuous_tx_from_sending:
  "(case mac_run refLib contRun refMac of
      Next s \<Rightarrow>
        m_macState (base s) = MAC_SENDING
        \<and> map_option f_data (m_txPkt (base s)) = Some [1, 2, 3]
        \<and> map (\<lambda>e. f_data (txQPkt e)) (m_txQueue (base s)) = [[1, 2, 3]]
        \<and> (case mac_step refLib (In_PdDataConfirm IEEE_802_15_4_PHY_SUCCESS) s of
             Next s' \<Rightarrow>
               outputs (base s') =
                 outputs (base s) @ [Out_MacTxOkTrace (the (m_txPkt (base s))),
                                      Out_McpsDataConfirm 5 MacStatus_SUCCESS,
                                      Out_MacStateLog MAC_SENDING MAC_SENDING,
                                      Out_PlmeSetTRXStateRequest IEEE_802_15_4_PHY_TX_ON]
               \<and> m_macState (base s') = MAC_SENDING
               \<and> map_option f_data (m_txPkt (base s')) = Some [1, 2, 3]
               \<and> m_txQueue (base s') = m_txQueue (base s)
               \<and> m_setMacState (base s') = None
           | _ \<Rightarrow> False)
    | _ \<Rightarrow> False)"
  by (simp add: cont_defs eval_defs rx_defs)

section \<open>C7: the interval of the periodic event\<close>

lemma trunc_abs: "\<bar>real_of_int (trunc_to_int x)\<bar> \<le> \<bar>x\<bar>"
  unfolding trunc_to_int_def by (auto; linarith)

lemma GetMilliSeconds_nonneg: "0 \<le> t \<Longrightarrow> GetMilliSeconds t = t div 1000000"
  unfolding GetMilliSeconds_def by (cases "t = 0") (auto simp: sgn_if)

lemma ApplyByRatio_50:
  assumes t: "0 \<le> t" and u0: "0 \<le> u" and u1: "u \<le> 1"
  shows "\<exists>iv. ApplyByRatio u t 50 = Inr iv \<and> t \<le> 2 * iv \<and> 2 * iv \<le> 3 * t"
proof -
  define ms where "ms = t div 1000000"
  define r where "r = - real_of_int ms * 50 / 100 + u * (real_of_int ms * 50 / 100 - (- real_of_int ms * 50 / 100))"
  have ms0: "0 \<le> ms" using t by (simp add: ms_def)
  have mst: "ms * 1000000 \<le> t" unfolding ms_def by simp
  have r_eq: "r = real_of_int ms * (u - 1/2)" unfolding r_def by (simp add: algebra_simps)
  have "\<bar>u - 1/2\<bar> \<le> 1/2" using u0 u1 by linarith
  then have "\<bar>real_of_int ms\<bar> * \<bar>u - 1/2\<bar> \<le> \<bar>real_of_int ms\<bar> * (1/2)"
    by (rule mult_left_mono) simp
  then have "\<bar>r\<bar> \<le> real_of_int ms * (1/2)"
    unfolding r_eq abs_mult using ms0 by simp
  then have "\<bar>real_of_int (trunc_to_int r)\<bar> \<le> real_of_int ms / 2"
    using trunc_abs [of r] by linarith
  then have "2 * \<bar>real_of_int (trunc_to_int r)\<bar> \<le> real_of_int ms" by simp
  then have k: "2 * \<bar>trunc_to_int r\<bar> \<le> ms" by linarith
  have eq: "ApplyByRatio u t 50 = Inr (t + trunc_to_int r * 1000000)"
    using t by (simp add: ApplyByRatio_def Let_def GetMilliSeconds_nonneg Uniform_GetValue_def
          MilliSeconds_dbl_def r_def ms_def)
  have k1: "2 * trunc_to_int r \<le> ms" and k2: "- ms \<le> 2 * trunc_to_int r"
    using k by linarith+
  define d where "d = trunc_to_int r * 1000000"
  define m where "m = ms * 1000000"
  have "2 * d \<le> m" "- m \<le> 2 * d"
    using k1 k2 by (simp_all add: d_def m_def)
  then have "t \<le> 2 * (t + d) \<and> 2 * (t + d) \<le> 3 * t"
    using mst unfolding m_def [symmetric] by auto
  then have "t \<le> 2 * (t + trunc_to_int r * 1000000) \<and> 2 * (t + trunc_to_int r * 1000000) \<le> 3 * t"
    by (simp add: d_def)
  then show ?thesis using eq by blast
qed

lemma Seconds_nonneg: "0 \<le> x \<Longrightarrow> 0 \<le> Seconds x"
  unfolding Seconds_def by (simp add: round_def)

lemma Apply_nonneg: "0 \<le> ClockDriftApplier_Apply c g t"
  unfolding ClockDriftApplier_Apply_def ComputeAdjustedSeconds_def Let_def
  by (auto intro!: Seconds_nonneg)

lemma Periodic_event:
  assumes "PeriodicRitDataRequest L g u s = Inr s'"
  shows "\<exists>iv. nextRitInterval L g u s = Inr iv
           \<and> m_periodicRitDataRequestEvent s' = Schedule (now s) iv Cb_PeriodicRitDataRequest"
proof -
  from assms obtain iv where iv: "nextRitInterval L g u s = Inr iv"
    and rest: "(let s1 = s\<lparr>m_periodicRitDataRequestEvent := Schedule (now s) iv Cb_PeriodicRitDataRequest\<rparr>
          in if m_ritMacMode s1 = SENDER_MODE then Inr s1
             else
               andThen (CheckTxAndStartSender L s1) (\<lambda>r.
                 if fst r then Inr (snd r)
                 else DoSendRitDataRequest L (ChangeRitMacMode RECEIVER_MODE (snd r)))) = Inr s'"
    unfolding PeriodicRitDataRequest_def by (auto split: if_splits elim!: andThenE)
  let ?s1 = "s\<lparr>m_periodicRitDataRequestEvent := Schedule (now s) iv Cb_PeriodicRitDataRequest\<rparr>"
  have "m_periodicRitDataRequestEvent s' = m_periodicRitDataRequestEvent ?s1"
  proof (cases "m_ritMacMode s = SENDER_MODE")
    case True
    then show ?thesis using rest by (auto simp: Let_def)
  next
    case False
    then obtain r where r: "CheckTxAndStartSender L ?s1 = Inr (fst r, snd r)"
      and fin: "(if fst r then Inr (snd r)
                 else DoSendRitDataRequest L (ChangeRitMacMode RECEIVER_MODE (snd r))) = Inr s'"
      using rest by (auto simp: Let_def elim!: andThenE)
    note res = CheckTx_result [OF r]
    show ?thesis
    proof (cases "fst r")
      case True
      then show ?thesis using fin res by simp
    next
      case False
      then have d: "DoSendRitDataRequest L (ChangeRitMacMode RECEIVER_MODE ?s1) = Inr s'"
        using fin res by simp
      show ?thesis using DoSendRitDataRequest_kept [OF d]
        by (simp add: ritKept_def cycleKept_def ChangeRitMacMode_def)
    qed
  qed
  then show ?thesis using iv by simp
qed

text \<open>
  C7. A firing of the periodic event that returns has re-armed the event: it is scheduled
  at \<open>now + iv\<close>, where \<open>iv\<close> is \<open>ClockDriftApplier::Apply\<close> of the period when
  beacon randomization is off (or no time drift applier is set), and lies between 0.5 and
  1.5 times that value when it is on, for every draw \<open>u\<close> in [0, 1] of the jitter and
  every draw \<open>g\<close> of the clock noise.
\<close>

theorem C7_rearm_interval:
  assumes run: "PeriodicRitDataRequest L g u s = Inr s'"
    and u0: "0 \<le> u" and u1: "u \<le> 1"
  shows "\<exists>period iv.
           GetRitPeriodTime L s = Inr period
           \<and> m_periodicRitDataRequestEvent s'
               = Some \<lparr>ev_time = now s + iv, ev_call = Cb_PeriodicRitDataRequest\<rparr>
           \<and> (if m_timeDriftApplier s \<noteq> None \<and> beaconRandomizeEnabled (m_moduleConfig s)
               then ClockDriftApplier_Apply (m_clockDriftApplier s) g period \<le> 2 * iv
                    \<and> 2 * iv \<le> 3 * ClockDriftApplier_Apply (m_clockDriftApplier s) g period
               else iv = ClockDriftApplier_Apply (m_clockDriftApplier s) g period)"
proof -
  from Periodic_event [OF run] obtain iv where
    iv: "nextRitInterval L g u s = Inr iv"
    and ev: "m_periodicRitDataRequestEvent s' = Schedule (now s) iv Cb_PeriodicRitDataRequest"
    by blast
  from iv obtain period where p: "GetRitPeriodTime L s = Inr period"
    and n: "(let ritPeriodTime = ClockDriftApplier_Apply (m_clockDriftApplier s) g period
       in if m_timeDriftApplier s \<noteq> None \<and> beaconRandomizeEnabled (m_moduleConfig s)
          then ApplyByRatio u ritPeriodTime 50
          else Inr ritPeriodTime) = Inr iv"
    unfolding nextRitInterval_def by (erule andThenE)
  let ?d = "ClockDriftApplier_Apply (m_clockDriftApplier s) g period"
  have b: "if m_timeDriftApplier s \<noteq> None \<and> beaconRandomizeEnabled (m_moduleConfig s)
           then ?d \<le> 2 * iv \<and> 2 * iv \<le> 3 * ?d else iv = ?d"
  proof (cases "m_timeDriftApplier s \<noteq> None \<and> beaconRandomizeEnabled (m_moduleConfig s)")
    case True
    then have a: "ApplyByRatio u ?d 50 = Inr iv" using n by (simp add: Let_def)
    from ApplyByRatio_50 [OF Apply_nonneg u0 u1, of "m_clockDriftApplier s" g period]
    obtain iv' where "ApplyByRatio u ?d 50 = Inr iv'" "?d \<le> 2 * iv'" "2 * iv' \<le> 3 * ?d" by blast
    then show ?thesis using a True by simp
  next
    case False
    then show ?thesis using n by (auto simp: Let_def)
  qed
  show ?thesis using p ev b by (auto simp: Schedule_def)
qed

lemma sleeping_returns:
  "\<exists>s'. PeriodicRitDataRequest refLib 0 (3/4) sleepingMac = Inr s'"
  by (simp add: sleepingMac_def eval_defs)

lemma sleeping_period: "GetRitPeriodTime refLib sleepingMac = Inr 5000000000"
  by (simp add: sleepingMac_def eval_defs)

lemma sleeping_apply:
  "ClockDriftApplier_Apply (m_clockDriftApplier sleepingMac) 0 5000000000 = 5000000000"
  by (simp add: sleepingMac_def eval_defs)

text \<open>
  C7 on the sleeping MAC with the jitter drawn at three quarters of its range: the period
  is 5 s and the event is re-armed between 2.5 s and 7.5 s after 7 s.
\<close>

theorem C7_witness:
  "(0::real) \<le> 3/4 \<and> (3/4::real) \<le> 1 \<and>
   (case PeriodicRitDataRequest refLib 0 (3/4) sleepingMac of
      Inr s' \<Rightarrow> (\<exists>iv. m_periodicRitDataRequestEvent s'
                         = Some \<lparr>ev_time = 7000000000 + iv, ev_call = Cb_PeriodicRitDataRequest\<rparr>
                      \<and> 5000000000 \<le> 2 * iv \<and> 2 * iv \<le> 3 * 5000000000)
    | Inl e \<Rightarrow> False)"
proof -
  obtain s' where r: "PeriodicRitDataRequest refLib 0 (3/4) sleepingMac = Inr s'"
    using sleeping_returns by blast
  have b: "m_timeDriftApplier sleepingMac \<noteq> None \<and> beaconRandomizeEnabled (m_moduleConfig sleepingMac)"
    and n: "now sleepingMac = 7000000000"
    by (simp_all add: sleepingMac_def obj_defs)
  from C7_rearm_interval [OF r] b n sleeping_period sleeping_apply
  show ?thesis using r by auto
qed

section \<open>C8: the module configuration\<close>

lemma countTrue_gt1: "(1 < 0 + countTrue a + countTrue b + countTrue c) = moreThanOne a b c"
  by (auto simp: countTrue_def moreThanOne_def)

text \<open>
  C8. \<open>SetRitModuleConfig\<close> ends in the fatal error when more than one of the three
  data flags is set, and in the fatal error of the beacon family when more than one of
  the three beacon flags is set; the error leaves no device state behind, so nothing has
  been stored or scheduled. Every other configuration is stored unchanged in the device
  and in its MAC, when it has one.
\<close>

theorem C8_module_config:
  "SetRitModuleConfig config d =
     (if moreThanOne (dataCsmaEnabled config) (dataPreCsEnabled config) (dataPreCsBEnabled config)
      then Inl (NS_FATAL_ERROR ''Invalid module config: only one of dataCsmaEnabled, dataPreCsEnabled, or dataPreCsBEnabled can be true.'')
      else if moreThanOne (beaconCsmaEnabled config) (beaconPreCsEnabled config) (beaconPreCsBEnabled config)
      then Inl (NS_FATAL_ERROR ''Invalid module config: only one of beaconCsmaEnabled, beaconPreCsEnabled, or beaconPreCsBEnabled can be true.'')
      else Inr (d\<lparr>nd_moduleConfig := config,
                  nd_mac := map_option (\<lambda>mac. mac\<lparr>m_moduleConfig := config\<rparr>) (nd_mac d)\<rparr>))"
  unfolding SetRitModuleConfig_def Let_def countTrue_gt1
  by (cases "nd_mac d") (simp_all add: SetModuleConfig_def)

section \<open>C9: round trip of the NWK header\<close>

lemma low_octet_mask: "(0xFF::u16) = mask 8"
  by (simp add: mask_eq_exp_minus_1)

lemma ReadU16_WriteU16: "ReadU16 (WriteU16 v @ rest) = Some (v, rest)"
proof -
  have "(ucast (ucast (v AND 0xFF) :: u8) :: u16) OR
        push_bit 8 (ucast (ucast (drop_bit 8 v AND 0xFF) :: u8) :: u16) = v"
    unfolding low_octet_mask
    by (rule bit_word_eqI) (auto simp: bit_simps)
  then show ?thesis
    by (simp add: WriteU16_def)
qed

lemma ReadFrom_WriteTo: "ReadFrom (WriteTo a @ rest) = Some (a, rest)"
  by (cases a) (simp add: WriteTo_def Mac16_CopyTo_def)

lemma length_WriteU16: "length (WriteU16 v) = 2"
  by (simp add: WriteU16_def)

lemma length_WriteTo: "length (WriteTo a) = 2"
  by (cases a) (simp add: WriteTo_def Mac16_CopyTo_def)

text \<open>
  C9. Deserializing the serialization of any header gives the header back, having consumed
  six octets; the serialization is six octets long, which is what \<open>GetSerializedSize\<close>
  reports; and the octets are the rank (low octet first), then the source address, then the
  destination address.
\<close>

theorem C9_nwk_header_roundtrip:
  "Deserialize (Serialize h) = Some (h, 6)
   \<and> length (Serialize h) = 6
   \<and> GetSerializedSize h = length (Serialize h)
   \<and> take 2 (Serialize h) = WriteU16 (m_rank h)
   \<and> take 2 (drop 2 (Serialize h)) = Mac16_CopyTo (m_srcAddr h)
   \<and> drop 4 (Serialize h) = Mac16_CopyTo (m_dstAddr h)"
proof -
  have len: "length (Serialize h) = 6"
    by (simp add: Serialize_def length_WriteU16 length_WriteTo)
  have r1: "ReadU16 (Serialize h) = Some (m_rank h, WriteTo (m_srcAddr h) @ WriteTo (m_dstAddr h))"
    unfolding Serialize_def by (rule ReadU16_WriteU16)
  have r2: "ReadFrom (WriteTo (m_srcAddr h) @ WriteTo (m_dstAddr h))
            = Some (m_srcAddr h, WriteTo (m_dstAddr h))"
    by (rule ReadFrom_WriteTo)
  have r3: "ReadFrom (WriteTo (m_dstAddr h)) = Some (m_dstAddr h, [])"
    using ReadFrom_WriteTo [of "m_dstAddr h" "[]"] by simp
  have d: "Deserialize (Serialize h) = Some (h, 6)"
    by (simp add: Deserialize_def r1 r2 r3 len)
  have t1: "take 2 (Serialize h) = WriteU16 (m_rank h)"
    by (simp add: Serialize_def length_WriteU16)
  have t2: "take 2 (drop 2 (Serialize h)) = Mac16_CopyTo (m_srcAddr h)"
    using length_WriteTo [of "m_srcAddr h"]
    by (simp add: Serialize_def length_WriteU16 WriteTo_def)
  have t3: "drop 4 (Serialize h) = Mac16_CopyTo (m_dstAddr h)"
    using length_WriteTo [of "m_srcAddr h"]
    by (simp add: Serialize_def length_WriteU16 WriteTo_def)
  show ?thesis
    using d len t1 t2 t3 by (simp add: GetSerializedSize_def)
qed

section \<open>C10: the handles of the routing layer\<close>

lemma Nwk_McpsDataConfirm_handles:
  assumes "Nwk_McpsDataConfirm u t h st n = Inr n'"
  shows "m_nwkHandle n' = m_nwkHandle n \<and> m_macHandle n' = m_macHandle n"
  using assms
  by (auto simp: Nwk_McpsDataConfirm_def Let_def nwk_trace_def
           split: option.splits if_splits sum.splits prod.splits)

lemma deliverConfirms_handles:
  "deliverConfirms u t xs n = Inr n' \<Longrightarrow>
   m_nwkHandle n' = m_nwkHandle n \<and> m_macHandle n' = m_macHandle n"
proof (induction u t xs n rule: deliverConfirms.induct)
  case (2 u t h st rest n)
  then show ?case
    by (auto split: sum.splits dest!: Nwk_McpsDataConfirm_handles)
qed simp_all

lemma deliverConfirms_none:
  "\<not> list_ex isConfirm xs \<Longrightarrow> deliverConfirms u t xs n = Inr n"
  by (induction u t xs n rule: deliverConfirms.induct) (simp_all add: isConfirm_def)

lemma SendRequest_handles:
  assumes "SendRequest L u packet dst (n, mac) = Inr (n', mac')"
  shows "m_nwkHandle n' = m_nwkHandle n \<and> m_macHandle n' = m_macHandle n + 1"
  using assms
  by (auto simp: SendRequest_def SendRequest3_def Let_def nwk_trace_def
           split: sum.splits dest!: deliverConfirms_handles)

lemma SendRequest_registers:
  assumes "SendRequest L u packet dst (n, mac) = Inr (n', mac')"
    and "\<not> list_ex isConfirm (newOutputs mac mac')"
  shows "m_handleToPktMap n' = (m_handleToPktMap n)(m_nwkHandle n \<mapsto> (AddHeader (nwkHeaderFor n dst) packet, dst))
         \<and> m_retryCountMap n' = (m_retryCountMap n)(m_nwkHandle n \<mapsto> 0)
         \<and> m_msduToNwkHandleMap n' = (m_msduToNwkHandleMap n)(m_macHandle n \<mapsto> m_nwkHandle n)
         \<and> nwk_rank n' = nwk_rank n \<and> nwk_shortAddr n' = nwk_shortAddr n"
  using assms
  by (auto simp: SendRequest_def SendRequest3_def Let_def nwk_trace_def nwkHeaderFor_def
                 deliverConfirms_none
           split: sum.splits)

text \<open>
  C10. \<open>SendRequest (packet, dst)\<close> returns with \<open>m_nwkHandle\<close> as it was and
  \<open>m_macHandle\<close> one higher, so two calls in a row use the same NWK handle and two MAC
  handles. When the MAC confirms nothing during the two calls, the entries the first call
  made under that NWK handle are overwritten by the second: the packet map holds the
  second packet and destination, the retry count is zero, and both MAC handles map to the
  one NWK handle.
\<close>

theorem C10_send_request_handles:
  assumes s1: "SendRequest L u p1 d1 (n, mac) = Inr (n1, mac1)"
    and s2: "SendRequest L u' p2 d2 (n1, mac1) = Inr (n2, mac2)"
  shows "m_nwkHandle n1 = m_nwkHandle n \<and> m_macHandle n1 = m_macHandle n + 1
       \<and> m_nwkHandle n2 = m_nwkHandle n \<and> m_macHandle n2 = m_macHandle n + 2
       \<and> (\<not> list_ex isConfirm (newOutputs mac mac1) \<and> \<not> list_ex isConfirm (newOutputs mac1 mac2) \<longrightarrow>
            m_handleToPktMap n1 (m_nwkHandle n) = Some (AddHeader (nwkHeaderFor n d1) p1, d1)
            \<and> m_retryCountMap n1 (m_nwkHandle n) = Some 0
            \<and> m_handleToPktMap n2 (m_nwkHandle n) = Some (AddHeader (nwkHeaderFor n d2) p2, d2)
            \<and> m_retryCountMap n2 (m_nwkHandle n) = Some 0
            \<and> m_handleToPktMap n2 = (m_handleToPktMap n)(m_nwkHandle n \<mapsto> (AddHeader (nwkHeaderFor n d2) p2, d2))
            \<and> m_retryCountMap n2 = (m_retryCountMap n)(m_nwkHandle n \<mapsto> 0)
            \<and> m_msduToNwkHandleMap n2 (m_macHandle n) = Some (m_nwkHandle n)
            \<and> m_msduToNwkHandleMap n2 (m_macHandle n + 1) = Some (m_nwkHandle n))"
proof -
  note h1 = SendRequest_handles [OF s1] and h2 = SendRequest_handles [OF s2]
  have hm: "m_macHandle n2 = m_macHandle n + 2" using h1 h2 by simp
  have maps: "m_handleToPktMap n1 (m_nwkHandle n) = Some (AddHeader (nwkHeaderFor n d1) p1, d1)
            \<and> m_retryCountMap n1 (m_nwkHandle n) = Some 0
            \<and> m_handleToPktMap n2 (m_nwkHandle n) = Some (AddHeader (nwkHeaderFor n d2) p2, d2)
            \<and> m_retryCountMap n2 (m_nwkHandle n) = Some 0
            \<and> m_handleToPktMap n2 = (m_handleToPktMap n)(m_nwkHandle n \<mapsto> (AddHeader (nwkHeaderFor n d2) p2, d2))
            \<and> m_retryCountMap n2 = (m_retryCountMap n)(m_nwkHandle n \<mapsto> 0)
            \<and> m_msduToNwkHandleMap n2 (m_macHandle n) = Some (m_nwkHandle n)
            \<and> m_msduToNwkHandleMap n2 (m_macHandle n + 1) = Some (m_nwkHandle n)"
    if q: "\<not> list_ex isConfirm (newOutputs mac mac1)" "\<not> list_ex isConfirm (newOutputs mac1 mac2)"
  proof -
    note r1 = SendRequest_registers [OF s1 q(1)] and r2 = SendRequest_registers [OF s2 q(2)]
    have ne: "m_macHandle n \<noteq> m_macHandle n + 1" by simp
    show ?thesis
      using r1 r2 h1 ne by (simp add: nwkHeaderFor_def)
  qed
  have "\<not> list_ex isConfirm (newOutputs mac mac1) \<and> \<not> list_ex isConfirm (newOutputs mac1 mac2) \<longrightarrow>
            m_handleToPktMap n1 (m_nwkHandle n) = Some (AddHeader (nwkHeaderFor n d1) p1, d1)
            \<and> m_retryCountMap n1 (m_nwkHandle n) = Some 0
            \<and> m_handleToPktMap n2 (m_nwkHandle n) = Some (AddHeader (nwkHeaderFor n d2) p2, d2)
            \<and> m_retryCountMap n2 (m_nwkHandle n) = Some 0
            \<and> m_handleToPktMap n2 = (m_handleToPktMap n)(m_nwkHandle n \<mapsto> (AddHeader (nwkHeaderFor n d2) p2, d2))
            \<and> m_retryCountMap n2 = (m_retryCountMap n)(m_nwkHandle n \<mapsto> 0)
            \<and> m_msduToNwkHandleMap n2 (m_macHandle n) = Some (m_nwkHandle n)
            \<and> m_msduToNwkHandleMap n2 (m_macHandle n + 1) = Some (m_nwkHandle n)"
    by (rule impI, erule conjE, rule maps)
  with hm h1 h2 show ?thesis by simp
qed

lemma two_sends:
  "\<exists>n1 mac1 n2 mac2.
     SendRequest refLib 0 [1] (Mac16 0 8) (refNwk, refMac) = Inr (n1, mac1)
     \<and> SendRequest refLib 0 [2, 3] (Mac16 0 9) (n1, mac1) = Inr (n2, mac2)
     \<and> \<not> list_ex isConfirm (newOutputs refMac mac1) \<and> \<not> list_ex isConfirm (newOutputs mac1 mac2)"
  by (simp add: nwk_defs eval_defs rx_defs)

text \<open>
  C10 on two requests to a MAC that queues them: handle 0 held the first packet after the
  first call and holds the second after the second.
\<close>

theorem C10_witness:
  "\<exists>n1 mac1 n2 mac2.
     SendRequest refLib 0 [1] (Mac16 0 8) (refNwk, refMac) = Inr (n1, mac1)
     \<and> SendRequest refLib 0 [2, 3] (Mac16 0 9) (n1, mac1) = Inr (n2, mac2)
     \<and> m_nwkHandle n2 = 0 \<and> m_macHandle n2 = 2
     \<and> m_handleToPktMap n1 0 = Some ([2, 0, 0, 1, 0, 8, 1], Mac16 0 8)
     \<and> m_handleToPktMap n2 0 = Some ([2, 0, 0, 1, 0, 9, 2, 3], Mac16 0 9)
     \<and> m_msduToNwkHandleMap n2 0 = Some 0 \<and> m_msduToNwkHandleMap n2 1 = Some 0"
proof -
  obtain n1 mac1 n2 mac2 where
    s1: "SendRequest refLib 0 [1] (Mac16 0 8) (refNwk, refMac) = Inr (n1, mac1)"
    and s2: "SendRequest refLib 0 [2, 3] (Mac16 0 9) (n1, mac1) = Inr (n2, mac2)"
    and q: "\<not> list_ex isConfirm (newOutputs refMac mac1)" "\<not> list_ex isConfirm (newOutputs mac1 mac2)"
    using two_sends by blast
  have v: "m_nwkHandle refNwk = 0" "m_macHandle refNwk = 0"
    "AddHeader (nwkHeaderFor refNwk (Mac16 0 8)) [1] = [2, 0, 0, 1, 0, 8, 1]"
    "AddHeader (nwkHeaderFor refNwk (Mac16 0 9)) [2, 3] = [2, 0, 0, 1, 0, 9, 2, 3]"
    by (simp_all add: nwk_defs)
  from C10_send_request_handles [OF s1 s2] q v
  show ?thesis using s1 s2 by auto
qed

end
